theory Spec2Isabelle
  imports Complex_Main "HOL-Library.Sublist"
begin

section \<open>Response schemas and the three-stage merge (lib/schemas)\<close>

text \<open>
  The zod schemas describe plain objects. Each inferred type is a record; a nullable field is
  an \<open>option\<close>. The field \<open>action\<close> of the first sequential part has the type
  \<open>'create_actor' | null\<close>; it is kept as an optional string so that the comparison
  \<open>part1.action === 'create_actor'\<close> of the merge stays visible. Two records share the field
  names \<open>recommendation\<close> and \<open>action\<close>, and two share \<open>title\<close>, \<open>reason\<close>, \<open>skills\<close>,
  \<open>prompt\<close>, \<open>model\<close>; they are told apart by the record name as qualifier.
\<close>

datatype ModelType = reasoning | semantic

record Actor =
  title :: string
  reason :: string
  skills :: "string list"
  prompt :: string
  model :: ModelType

record Action =
  type :: string
  actor :: Actor

record Response =
  recommendation :: string
  action :: "Action option"

record SequentialPart1 =
  recommendation :: string
  action :: "string option"

record SequentialPart2 =
  title :: string
  reason :: string
  skills :: "string list"

record SequentialPart3 =
  prompt :: string
  model :: ModelType

definition mergeSequentialParts ::
    "SequentialPart1 \<Rightarrow> SequentialPart2 \<Rightarrow> SequentialPart3 \<Rightarrow> Response" where
  "mergeSequentialParts part1 part2 part3 =
     \<lparr> Response.recommendation = SequentialPart1.recommendation part1,
       Response.action =
         (if SequentialPart1.action part1 = Some ''create_actor''
          then Some \<lparr> type = ''create_actor'',
                      actor = \<lparr> Actor.title = SequentialPart2.title part2,
                                Actor.reason = SequentialPart2.reason part2,
                                Actor.skills = SequentialPart2.skills part2,
                                Actor.prompt = SequentialPart3.prompt part3,
                                Actor.model = SequentialPart3.model part3 \<rparr> \<rparr>
          else None) \<rparr>"

text \<open>
  What \<open>ResponseSchema.parse\<close> accepts on a value that already has the static type
  \<open>Response\<close>: the \<open>min\<close> bounds on the strings and the literal of \<open>type\<close>. The enum of
  \<open>model\<close> and the element type of \<open>skills\<close> are carried by the types.
\<close>

definition ActorSchema_accepts :: "Actor \<Rightarrow> bool" where
  "ActorSchema_accepts a \<longleftrightarrow>
     2 \<le> length (Actor.title a) \<and> 20 \<le> length (Actor.reason a) \<and> 30 \<le> length (Actor.prompt a)"

definition ActionSchema_accepts :: "Action \<Rightarrow> bool" where
  "ActionSchema_accepts x \<longleftrightarrow> type x = ''create_actor'' \<and> ActorSchema_accepts (actor x)"

definition ResponseSchema_accepts :: "Response \<Rightarrow> bool" where
  "ResponseSchema_accepts r \<longleftrightarrow>
     20 \<le> length (Response.recommendation r) \<and>
     (case Response.action r of None \<Rightarrow> True | Some x \<Rightarrow> ActionSchema_accepts x)"

section \<open>Stored results and the scenario summary (lib/storage)\<close>

record ValidationError =
  path :: "string list"
  message :: string
  code :: string

text \<open>
  \<open>parsedResponse\<close> and \<open>finalResponse\<close> have the type \<open>Record<string, unknown> | null\<close>; the
  object type is the parameter \<open>'r\<close>. The optional token counts are \<open>nat option\<close>. The
  ISO timestamp of an attempt is a rendering of the wall clock that nothing reads; it is kept
  as a string.
\<close>

record 'r AttemptResult =
  attemptNumber :: nat
  timestamp :: string
  success :: bool
  durationMs :: nat
  inputTokens :: "nat option"
  outputTokens :: "nat option"
  prompt :: string
  rawResponse :: string
  parsedResponse :: "'r option"
  validationErrors :: "ValidationError list"
  errorMessage :: "string option"

record 'r RunResult =
  runNumber :: nat
  success :: bool
  attempts :: "'r AttemptResult list"
  totalDurationMs :: nat
  finalResponse :: "'r option"

text \<open>
  The summary's rates and averages are JavaScript numbers obtained by one division of two
  counts; they are modelled as exact rationals. The token total is a sum of counts.
\<close>

record ScenarioSummary =
  successRate :: rat
  firstAttemptSuccessRate :: rat
  afterRetry1SuccessRate :: rat
  afterRetry2SuccessRate :: rat
  afterRetry3SuccessRate :: rat
  averageDurationMs :: rat
  averageAttempts :: rat
  totalTokensUsed :: nat

text \<open>\<open>run.attempts[i]?.success\<close>: an index past the end reads \<open>undefined\<close>, which is falsy.\<close>

definition attemptSucceeded :: "'r AttemptResult list \<Rightarrow> nat \<Rightarrow> bool" where
  "attemptSucceeded as i \<longleftrightarrow> i < length as \<and> AttemptResult.success (as ! i)"

text \<open>\<open>n || 0\<close> on an optional count.\<close>

definition orZero :: "nat option \<Rightarrow> nat" where
  "orZero n = (case n of None \<Rightarrow> 0 | Some v \<Rightarrow> v)"

text \<open>
  The body of the loop \<open>for (const run of runs)\<close> on the three mutable counters
  \<open>afterRetry1\<close>, \<open>afterRetry2\<close>, \<open>afterRetry3\<close>.
\<close>

definition tierStep :: "'r RunResult \<Rightarrow> nat \<times> nat \<times> nat \<Rightarrow> nat \<times> nat \<times> nat" where
  "tierStep run c =
     (case c of (afterRetry1, afterRetry2, afterRetry3) \<Rightarrow>
        if attemptSucceeded (attempts run) 0 then (afterRetry1, afterRetry2, afterRetry3)
        else if attemptSucceeded (attempts run) 1
          then (afterRetry1 + 1, afterRetry2 + 1, afterRetry3 + 1)
        else if attemptSucceeded (attempts run) 2
          then (afterRetry1, afterRetry2 + 1, afterRetry3 + 1)
        else if attemptSucceeded (attempts run) 3
          then (afterRetry1, afterRetry2, afterRetry3 + 1)
        else (afterRetry1, afterRetry2, afterRetry3))"

definition attemptTokens :: "'r AttemptResult \<Rightarrow> nat" where
  "attemptTokens a = orZero (inputTokens a) + orZero (outputTokens a)"

definition calculateScenarioSummary :: "'r RunResult list \<Rightarrow> ScenarioSummary" where
  "calculateScenarioSummary runs =
     (let totalRuns = length runs in
      if totalRuns = 0 then
        \<lparr> successRate = 0, firstAttemptSuccessRate = 0, afterRetry1SuccessRate = 0,
          afterRetry2SuccessRate = 0, afterRetry3SuccessRate = 0, averageDurationMs = 0,
          averageAttempts = 0, totalTokensUsed = 0 \<rparr>
      else
        let successfulRuns = length (filter RunResult.success runs);
            firstAttemptSuccesses = length (filter (\<lambda>r. attemptSucceeded (attempts r) 0) runs);
            tiers = fold tierStep runs
                      (firstAttemptSuccesses, firstAttemptSuccesses, firstAttemptSuccesses);
            totalDuration = fold (\<lambda>r sum. sum + totalDurationMs r) runs 0;
            totalAttempts = fold (\<lambda>r sum. sum + length (attempts r)) runs 0;
            totalTokens =
              fold (\<lambda>r sum. sum + fold (\<lambda>a aSum. aSum + orZero (inputTokens a)
                                                    + orZero (outputTokens a)) (attempts r) 0)
                   runs 0
        in \<lparr> successRate = (of_nat successfulRuns / of_nat totalRuns) * 100,
             firstAttemptSuccessRate = (of_nat firstAttemptSuccesses / of_nat totalRuns) * 100,
             afterRetry1SuccessRate = (of_nat (fst tiers) / of_nat totalRuns) * 100,
             afterRetry2SuccessRate = (of_nat (fst (snd tiers)) / of_nat totalRuns) * 100,
             afterRetry3SuccessRate = (of_nat (snd (snd tiers)) / of_nat totalRuns) * 100,
             averageDurationMs = of_nat totalDuration / of_nat totalRuns,
             averageAttempts = of_nat totalAttempts / of_nat totalRuns,
             totalTokensUsed = totalTokens \<rparr>)"

subsection \<open>The tier algorithm as the specification words it\<close>

text \<open>
  A second definition, written from the specification's pseudo-code rather than from the
  source: the count of first-attempt successes, then one increment per run not so counted,
  given to the tiers from the first succeeding retry onwards.
\<close>

definition spec_firstAttemptSuccesses :: "'r RunResult list \<Rightarrow> nat" where
  "spec_firstAttemptSuccesses runs =
     length (filter (\<lambda>r. attemptSucceeded (attempts r) 0) runs)"

definition spec_tierIncrement :: "nat \<Rightarrow> 'r RunResult \<Rightarrow> nat" where
  "spec_tierIncrement k run =
     (if attemptSucceeded (attempts run) 0 then 0
      else if attemptSucceeded (attempts run) 1 then (if 1 \<le> k then 1 else 0)
      else if attemptSucceeded (attempts run) 2 then (if 2 \<le> k then 1 else 0)
      else if attemptSucceeded (attempts run) 3 then (if 3 \<le> k then 1 else 0)
      else 0)"

definition spec_afterTier :: "nat \<Rightarrow> 'r RunResult list \<Rightarrow> nat" where
  "spec_afterTier k runs =
     spec_firstAttemptSuccesses runs + sum_list (map (spec_tierIncrement k) runs)"

definition spec_rate :: "nat \<Rightarrow> 'r RunResult list \<Rightarrow> rat" where
  "spec_rate count runs = of_nat count / of_nat (length runs) * 100"

section \<open>Prompts and retry context (lib/prompts)\<close>

datatype Role = system | user | assistant

record ChatMessage =
  role :: Role
  content :: string

text \<open>\<open>Array.prototype.join\<close> on strings.\<close>

fun join :: "string \<Rightarrow> string list \<Rightarrow> string" where
  "join sep [] = []"
| "join sep [x] = x"
| "join sep (x # y # ys) = x @ sep @ join sep (y # ys)"

text \<open>The bullet U+2022 that starts each error line, as its three UTF-8 bytes.\<close>

definition bullet :: string where
  "bullet = [CHR 0xE2, CHR 0x80, CHR 0xA2]"

definition errorPath :: "ValidationError \<Rightarrow> string" where
  "errorPath err = (if length (path err) > 0 then join ''.'' (path err) else ''root'')"

definition errorLine :: "ValidationError \<Rightarrow> string" where
  "errorLine err = bullet @ '' '' @ errorPath err @ '': '' @ message err"

definition getRetryPrompt :: "string \<Rightarrow> ValidationError list \<Rightarrow> string" where
  "getRetryPrompt previousResponse validationErrors' =
     (let errorList = join ''\<newline>'' (map errorLine validationErrors') in
      ''<validation_retry>\<newline>Your previous response failed JSON validation:\<newline>\<newline><previous_response>\<newline>''
      @ previousResponse
      @ ''\<newline></previous_response>\<newline>\<newline><validation_errors>\<newline>''
      @ errorList
      @ ''\<newline></validation_errors>\<newline>\<newline><instructions>\<newline>1. Review the specific validation errors above\<newline>2. Identify what needs to be fixed in your response\<newline>3. Generate a corrected response that addresses each error\<newline></instructions>\<newline>\<newline>Provide a corrected JSON response. Return ONLY valid JSON with no additional text, explanations, or markdown formatting.\<newline></validation_retry>'')"

text \<open>
  \<open>extractJson\<close>: \<open>startsWith\<close>, \<open>endsWith\<close> and \<open>slice\<close> are list operations;
  \<open>String.prototype.trim\<close> is a parameter.
\<close>

definition extractJson :: "(string \<Rightarrow> string) \<Rightarrow> string \<Rightarrow> string" where
  "extractJson trim text =
     (let cleaned = trim text;
          cleaned = (if prefix ''```json'' cleaned then drop 7 cleaned
                     else if prefix ''```'' cleaned then drop 3 cleaned
                     else cleaned);
          cleaned = (if suffix ''```'' cleaned then take (length cleaned - 3) cleaned
                     else cleaned)
      in trim cleaned)"

text \<open>
  The prompt texts are long literals that no executor inspects; the executors take them as
  the fields of one record: \<open>systemPrompt\<close>, the value of \<open>formatConversation()\<close>, the
  value of \<open>getOneShotPrompt()\<close>, \<open>oneShotStrictPrompt\<close>, and the six entries of
  \<open>sequentialPrompts\<close>.
\<close>

record Prompts =
  systemPrompt :: string
  conversationText :: string
  oneShotPrompt :: string
  oneShotStrictPrompt :: string
  step1_nonStrict :: string
  step1_strict :: string
  step2_nonStrict :: string
  step2_strict :: string
  step3_nonStrict :: string
  step3_strict :: string

section \<open>The generator and the attempt executors (lib/test-runner)\<close>

text \<open>
  What a call can throw. \<open>ZodError\<close> carries the issues, the other two their message.
\<close>

datatype PropertyKey = Key string | Index nat

record ZodIssue =
  path :: "PropertyKey list"
  message :: string
  code :: string

datatype Exception = ZodError "ZodIssue list" | SyntaxError string | Error string

text \<open>
  \<open>error instanceof Error ? error.message : String(error)\<close>; the message of a
  \<open>ZodError\<close> is a rendering of its issues by the library, a parameter.
\<close>

definition errorMessageOf :: "(ZodIssue list \<Rightarrow> string) \<Rightarrow> Exception \<Rightarrow> string" where
  "errorMessageOf zodMessage e =
     (case e of ZodError issues \<Rightarrow> zodMessage issues | SyntaxError m \<Rightarrow> m | Error m \<Rightarrow> m)"

record Usage =
  inputTokens :: "nat option"
  outputTokens :: "nat option"

datatype TextReply = TextThrows Exception | TextResult string "Usage option"

datatype 'a ObjectReply = ObjectThrows Exception | ObjectResult 'a "Usage option"

datatype 'a ParseReply = ParseResult 'a | ParseThrows Exception

text \<open>The object \<open>{ input, output }\<close>; \<open>output\<close> is reserved, so both fields carry a prefix.\<close>

record TokenCounts =
  tk_input :: nat
  tk_output :: nat

record 'a AttemptOutcome =
  success :: bool
  data :: "'a option"
  raw :: string
  errors :: "ValidationError list option"
  tokens :: "TokenCounts option"

text \<open>\<open>String(n)\<close> on an array index: its decimal numeral.\<close>

fun decimal :: "nat \<Rightarrow> string" where
  "decimal n = (if n < 10 then [char_of (48 + n)]
                else decimal (n div 10) @ [char_of (48 + n mod 10)])"

declare decimal.simps [simp del]

definition String :: "PropertyKey \<Rightarrow> string" where
  "String k = (case k of Key s \<Rightarrow> s | Index n \<Rightarrow> decimal n)"

definition parseZodErrors :: "ZodIssue list \<Rightarrow> ValidationError list" where
  "parseZodErrors issues =
     map (\<lambda>e. \<lparr> ValidationError.path = map String (ZodIssue.path e),
                ValidationError.message = ZodIssue.message e,
                ValidationError.code = ZodIssue.code e \<rparr>) issues"

text \<open>\<open>{ input: result.usage?.inputTokens || 0, output: result.usage?.outputTokens || 0 }\<close>\<close>

definition usageTokens :: "Usage option \<Rightarrow> TokenCounts" where
  "usageTokens u =
     \<lparr> tk_input = orZero (case u of None \<Rightarrow> None | Some v \<Rightarrow> Usage.inputTokens v),
       tk_output = orZero (case u of None \<Rightarrow> None | Some v \<Rightarrow> Usage.outputTokens v) \<rparr>"

text \<open>
  \<open>runNonStrictAttempt\<close>. The reply of \<open>generateText\<close> to the messages and the composite
  \<open>schema.parse(JSON.parse(\<cdot>))\<close> are parameters. The call of \<open>generateText\<close> stands before
  the \<open>try\<close>, so what it throws leaves the function (\<open>Inl\<close>), as does whatever the parse
  throws that is neither a \<open>ZodError\<close> nor a \<open>SyntaxError\<close>.
\<close>

definition runNonStrictAttempt ::
    "(ChatMessage list \<Rightarrow> TextReply) \<Rightarrow> (string \<Rightarrow> string) \<Rightarrow> (string \<Rightarrow> 'a ParseReply)
       \<Rightarrow> ChatMessage list \<Rightarrow> Exception + 'a AttemptOutcome" where
  "runNonStrictAttempt generateText trim parse messages =
     (case generateText messages of
        TextThrows e \<Rightarrow> Inl e
      | TextResult raw' usage \<Rightarrow>
          (let cleaned = extractJson trim raw' in
           case parse cleaned of
             ParseResult validated \<Rightarrow>
               Inr \<lparr> success = True, data = Some validated, raw = raw', errors = None,
                     tokens = Some (usageTokens usage) \<rparr>
           | ParseThrows (ZodError issues) \<Rightarrow>
               Inr \<lparr> success = False, data = None, raw = raw',
                     errors = Some (parseZodErrors issues),
                     tokens = Some (usageTokens usage) \<rparr>
           | ParseThrows (SyntaxError m) \<Rightarrow>
               Inr \<lparr> success = False, data = None, raw = raw',
                     errors = Some [\<lparr> ValidationError.path = [],
                                      ValidationError.message = ''Invalid JSON: '' @ m,
                                      ValidationError.code = ''invalid_json'' \<rparr>],
                     tokens = Some (usageTokens usage) \<rparr>
           | ParseThrows (Error m) \<Rightarrow> Inl (Error m)))"

text \<open>
  \<open>runStrictAttempt\<close>. The whole body is inside the \<open>try\<close>: nothing leaves the function.
  \<open>JSON.stringify(result.object, null, 2)\<close> is the parameter \<open>stringify2\<close>.
\<close>

definition runStrictAttempt ::
    "(ChatMessage list \<Rightarrow> 'a ObjectReply) \<Rightarrow> ('a \<Rightarrow> string) \<Rightarrow> (ZodIssue list \<Rightarrow> string)
       \<Rightarrow> ChatMessage list \<Rightarrow> 'a AttemptOutcome" where
  "runStrictAttempt generateObject stringify2 zodMessage messages =
     (case generateObject messages of
        ObjectResult object usage \<Rightarrow>
          \<lparr> success = True, data = Some object, raw = stringify2 object, errors = None,
            tokens = Some (usageTokens usage) \<rparr>
      | ObjectThrows (ZodError issues) \<Rightarrow>
          \<lparr> success = False, data = None, raw = [],
            errors = Some (parseZodErrors issues), tokens = None \<rparr>
      | ObjectThrows e \<Rightarrow>
          \<lparr> success = False, data = None, raw = [],
            errors = Some [\<lparr> ValidationError.path = [],
                             ValidationError.message = errorMessageOf zodMessage e,
                             ValidationError.code = ''api_error'' \<rparr>],
            tokens = None \<rparr>)"

section \<open>The scenario executors (lib/test-runner)\<close>

record TestConfig =
  temperature :: rat
  maxTokens :: nat
  maxRetries :: nat
  runsPerScenario :: nat

text \<open>
  The objects stored in \<open>parsedResponse\<close> and \<open>finalResponse\<close> by the four executors.
\<close>

datatype JsonObject =
    ResponseObject Response
  | Part1Object SequentialPart1
  | Part2Object SequentialPart2
  | Part3Object SequentialPart3

text \<open>
  Everything outside the engine. The model answers differently from call to call, so each
  generating function is given the run number and the index of the call within the run
  before the messages; the model handle, the temperature and the token limit are fixed for
  a scenario and part of these functions. One field per schema stands for
  \<open>generateObject\<close> with that schema and for \<open>schema.parse(JSON.parse(\<cdot>))\<close>.
  \<open>stringify_Part1\<close> and \<open>stringify_Part2\<close> are \<open>JSON.stringify(x)\<close>, the \<open>stringify2\<close>
  fields are \<open>JSON.stringify(x, null, 2)\<close>. \<open>responseIssues\<close> gives the issues that
  \<open>ResponseSchema.parse\<close> reports on a value it rejects. The last three fields read the
  clock: the duration and the timestamp of a call, and the duration of a run.
\<close>

record World =
  generateText :: "nat \<Rightarrow> nat \<Rightarrow> ChatMessage list \<Rightarrow> TextReply"
  generateObject_Response :: "nat \<Rightarrow> nat \<Rightarrow> ChatMessage list \<Rightarrow> Response ObjectReply"
  generateObject_Part1 :: "nat \<Rightarrow> nat \<Rightarrow> ChatMessage list \<Rightarrow> SequentialPart1 ObjectReply"
  generateObject_Part2 :: "nat \<Rightarrow> nat \<Rightarrow> ChatMessage list \<Rightarrow> SequentialPart2 ObjectReply"
  generateObject_Part3 :: "nat \<Rightarrow> nat \<Rightarrow> ChatMessage list \<Rightarrow> SequentialPart3 ObjectReply"
  parse_Response :: "string \<Rightarrow> Response ParseReply"
  parse_Part1 :: "string \<Rightarrow> SequentialPart1 ParseReply"
  parse_Part2 :: "string \<Rightarrow> SequentialPart2 ParseReply"
  parse_Part3 :: "string \<Rightarrow> SequentialPart3 ParseReply"
  trim :: "string \<Rightarrow> string"
  stringify_Part1 :: "SequentialPart1 \<Rightarrow> string"
  stringify_Part2 :: "SequentialPart2 \<Rightarrow> string"
  stringify2_Response :: "Response \<Rightarrow> string"
  stringify2_Part1 :: "SequentialPart1 \<Rightarrow> string"
  stringify2_Part2 :: "SequentialPart2 \<Rightarrow> string"
  stringify2_Part3 :: "SequentialPart3 \<Rightarrow> string"
  zodMessage :: "ZodIssue list \<Rightarrow> string"
  responseIssues :: "Response \<Rightarrow> ZodIssue list"
  attemptDurationMs :: "nat \<Rightarrow> nat \<Rightarrow> nat"
  attemptTimestamp :: "nat \<Rightarrow> nat \<Rightarrow> string"
  runDurationMs :: "nat \<Rightarrow> nat"

text \<open>
  The mutable locals of one run: \<open>attempts\<close>, \<open>success\<close>, \<open>finalResponse\<close>; the list of
  message lists handed to the generator so far, in order (a trace, one entry per call); and
  the exception in flight, if any. The progress callback is an optional observer and is left
  out.
\<close>

record RunState =
  attempts :: "JsonObject AttemptResult list"
  success :: bool
  finalResponse :: "JsonObject option"
  requests :: "ChatMessage list list"
  thrown :: "Exception option"

definition initialRunState :: RunState where
  "initialRunState =
     \<lparr> attempts = [], success = False, finalResponse = None, requests = [], thrown = None \<rparr>"

definition roleName :: "Role \<Rightarrow> string" where
  "roleName r = (case r of system \<Rightarrow> ''system'' | user \<Rightarrow> ''user'' | assistant \<Rightarrow> ''assistant'')"

text \<open>\<open>messages.map(m => `[${m.role}] ${m.content}`).join('\n\n')\<close>\<close>

definition promptTextOf :: "ChatMessage list \<Rightarrow> string" where
  "promptTextOf messages =
     join ''\<newline>\<newline>'' (map (\<lambda>m. ''['' @ roleName (role m) @ ''] '' @ content m) messages)"

text \<open>The attempt record that every loop body pushes; the literal is the same in all of them.\<close>

definition toAttemptResult ::
    "('a \<Rightarrow> JsonObject) \<Rightarrow> nat \<Rightarrow> string \<Rightarrow> nat \<Rightarrow> string \<Rightarrow> 'a AttemptOutcome
       \<Rightarrow> JsonObject AttemptResult" where
  "toAttemptResult asRecord attempt stamp duration promptText result =
     \<lparr> attemptNumber = attempt,
       timestamp = stamp,
       AttemptResult.success = AttemptOutcome.success result,
       durationMs = duration,
       AttemptResult.inputTokens = map_option tk_input (tokens result),
       AttemptResult.outputTokens = map_option tk_output (tokens result),
       AttemptResult.prompt = promptText,
       rawResponse = raw result,
       parsedResponse =
         (if AttemptOutcome.success result then map_option asRecord (data result) else None),
       validationErrors = (case errors result of None \<Rightarrow> [] | Some es \<Rightarrow> es),
       errorMessage = None \<rparr>"

definition retryContext :: "string \<Rightarrow> ValidationError list \<Rightarrow> ChatMessage list" where
  "retryContext rawText errs =
     [\<lparr> role = assistant, content = rawText \<rparr>,
      \<lparr> role = user, content = getRetryPrompt rawText errs \<rparr>]"

subsection \<open>Scenarios 1 and 2: one stage\<close>

definition scenario1Base :: "Prompts \<Rightarrow> ChatMessage list" where
  "scenario1Base ps =
     [\<lparr> role = system, content = systemPrompt ps \<rparr>,
      \<lparr> role = user,
        content = ''Here is a conversation between team members:\<newline>\<newline>'' @ conversationText ps \<rparr>,
      \<lparr> role = user, content = oneShotPrompt ps \<rparr>]"

text \<open>The message list of scenario 1, rebuilt at every attempt from the three base messages.\<close>

definition scenario1Messages ::
    "Prompts \<Rightarrow> nat \<Rightarrow> JsonObject AttemptResult list \<Rightarrow> ChatMessage list" where
  "scenario1Messages ps attempt soFar =
     scenario1Base ps @
     (if attempt > 1 \<and> length soFar > 0 then
        (let lastAttempt = soFar ! (length soFar - 1) in
         retryContext (rawResponse lastAttempt) (validationErrors lastAttempt))
      else [])"

definition scenario2Messages ::
    "Prompts \<Rightarrow> nat \<Rightarrow> JsonObject AttemptResult list \<Rightarrow> ChatMessage list" where
  "scenario2Messages ps attempt soFar =
     [\<lparr> role = system, content = systemPrompt ps \<rparr>,
      \<lparr> role = user,
        content = ''Here is a conversation between team members:\<newline>\<newline>'' @ conversationText ps \<rparr>,
      \<lparr> role = user, content = oneShotStrictPrompt ps \<rparr>]"

text \<open>
  The loop \<open>for (let attempt = 1; attempt <= config.maxRetries + 1; attempt++)\<close> of
  \<open>runScenario1\<close> and \<open>runScenario2\<close>. The two bodies differ in the message list and in the
  attempt executor, which are the parameters \<open>buildMessages\<close> and \<open>runAttempt\<close>.
\<close>

function oneShotLoop ::
    "World \<Rightarrow> nat \<Rightarrow> (nat \<Rightarrow> JsonObject AttemptResult list \<Rightarrow> ChatMessage list)
       \<Rightarrow> (nat \<Rightarrow> ChatMessage list \<Rightarrow> Exception + Response AttemptOutcome)
       \<Rightarrow> nat \<Rightarrow> nat \<Rightarrow> RunState \<Rightarrow> RunState" where
  "oneShotLoop w runNum buildMessages runAttempt retries attempt st =
     (if attempt \<le> retries + 1 then
        (let messages = buildMessages attempt (attempts st);
             promptText = promptTextOf messages;
             i = length (requests st)
         in case runAttempt i messages of
              Inl e \<Rightarrow> st\<lparr> requests := requests st @ [messages], thrown := Some e \<rparr>
            | Inr result \<Rightarrow>
                (let st' = st\<lparr> requests := requests st @ [messages],
                               attempts := attempts st @
                                 [toAttemptResult ResponseObject attempt
                                    (attemptTimestamp w runNum i) (attemptDurationMs w runNum i)
                                    promptText result] \<rparr>
                 in if AttemptOutcome.success result
                    then st'\<lparr> success := True,
                              finalResponse := map_option ResponseObject (data result) \<rparr>
                    else oneShotLoop w runNum buildMessages runAttempt retries (attempt + 1) st'))
      else st)"
  by pat_completeness auto
termination
  by (relation "measure (\<lambda>(w, runNum, buildMessages, runAttempt, retries, attempt, st).
                           retries + 2 - attempt)") auto

declare oneShotLoop.simps [simp del]

definition runScenario1_run :: "World \<Rightarrow> Prompts \<Rightarrow> TestConfig \<Rightarrow> nat \<Rightarrow> RunState" where
  "runScenario1_run w ps config runNum =
     oneShotLoop w runNum (scenario1Messages ps)
       (\<lambda>i messages. runNonStrictAttempt (generateText w runNum i) (trim w) (parse_Response w)
                        messages)
       (maxRetries config) 1 initialRunState"

definition runScenario2_run :: "World \<Rightarrow> Prompts \<Rightarrow> TestConfig \<Rightarrow> nat \<Rightarrow> RunState" where
  "runScenario2_run w ps config runNum =
     oneShotLoop w runNum (scenario2Messages ps)
       (\<lambda>i messages. Inr (runStrictAttempt (generateObject_Response w runNum i)
                             (stringify2_Response w) (zodMessage w) messages))
       (maxRetries config) 1 initialRunState"

definition toRunResult :: "World \<Rightarrow> nat \<Rightarrow> RunState \<Rightarrow> JsonObject RunResult" where
  "toRunResult w runNum st =
     \<lparr> runNumber = runNum,
       RunResult.success = RunState.success st,
       RunResult.attempts = RunState.attempts st,
       totalDurationMs = runDurationMs w runNum,
       RunResult.finalResponse = RunState.finalResponse st \<rparr>"

text \<open>
  The loop \<open>for (let runNum = 1; runNum <= config.runsPerScenario; runNum++)\<close>: an
  exception that leaves the body of a run leaves the executor, and the runs collected so far
  are lost with it.
\<close>

function runsLoop ::
    "World \<Rightarrow> (nat \<Rightarrow> RunState) \<Rightarrow> nat \<Rightarrow> nat \<Rightarrow> JsonObject RunResult list
       \<Rightarrow> Exception + JsonObject RunResult list" where
  "runsLoop w body count runNum runs =
     (if runNum \<le> count then
        (let st = body runNum in
         case thrown st of
           Some e \<Rightarrow> Inl e
         | None \<Rightarrow> runsLoop w body count (runNum + 1) (runs @ [toRunResult w runNum st]))
      else Inr runs)"
  by pat_completeness auto
termination
  by (relation "measure (\<lambda>(w, body, count, runNum, runs). count + 2 - runNum)") auto

declare runsLoop.simps [simp del]

definition runScenario1 ::
    "World \<Rightarrow> Prompts \<Rightarrow> TestConfig \<Rightarrow> Exception + JsonObject RunResult list" where
  "runScenario1 w ps config =
     runsLoop w (runScenario1_run w ps config) (runsPerScenario config) 1 []"

definition runScenario2 ::
    "World \<Rightarrow> Prompts \<Rightarrow> TestConfig \<Rightarrow> Exception + JsonObject RunResult list" where
  "runScenario2 w ps config =
     runsLoop w (runScenario2_run w ps config) (runsPerScenario config) 1 []"

subsection \<open>Scenarios 3 and 4: three stages\<close>

text \<open>
  The retry loop of one step. It is written six times in the source, for three schemas and
  two modes; the copies differ in the attempt executor and in one statement: after a failed
  attempt scenario 3 reassigns the step's message list to itself extended by the retry
  context, and scenario 4 leaves the list alone (\<open>withRetryContext\<close>). The result pairs the
  run's locals with the step result, \<open>None\<close> for \<open>null\<close>.
\<close>

function sequentialStep ::
    "World \<Rightarrow> nat \<Rightarrow> ('a \<Rightarrow> JsonObject)
       \<Rightarrow> (nat \<Rightarrow> ChatMessage list \<Rightarrow> Exception + 'a AttemptOutcome)
       \<Rightarrow> bool \<Rightarrow> nat \<Rightarrow> nat \<Rightarrow> ChatMessage list \<Rightarrow> RunState \<Rightarrow> RunState \<times> 'a option" where
  "sequentialStep w runNum asRecord runAttempt withRetryContext retries attempt stepMessages st =
     (if attempt \<le> retries + 1 then
        (let promptText = promptTextOf stepMessages;
             i = length (requests st)
         in case runAttempt i stepMessages of
              Inl e \<Rightarrow> (st\<lparr> requests := requests st @ [stepMessages], thrown := Some e \<rparr>, None)
            | Inr result \<Rightarrow>
                (let st' = st\<lparr> requests := requests st @ [stepMessages],
                               attempts := attempts st @
                                 [toAttemptResult asRecord attempt
                                    (attemptTimestamp w runNum i) (attemptDurationMs w runNum i)
                                    promptText result] \<rparr>
                 in if AttemptOutcome.success result then (st', data result)
                    else sequentialStep w runNum asRecord runAttempt withRetryContext retries
                           (attempt + 1)
                           (if withRetryContext
                            then stepMessages @
                                   retryContext (raw result)
                                     (case errors result of None \<Rightarrow> [] | Some es \<Rightarrow> es)
                            else stepMessages)
                           st'))
      else (st, None))"
  by pat_completeness auto
termination
  by (relation "measure (\<lambda>(w, runNum, asRecord, runAttempt, withRetryContext, retries, attempt,
                           stepMessages, st). retries + 2 - attempt)") auto

declare sequentialStep.simps [simp del]

definition step1Messages :: "Prompts \<Rightarrow> string \<Rightarrow> ChatMessage list" where
  "step1Messages ps stepPrompt =
     [\<lparr> role = system, content = systemPrompt ps \<rparr>,
      \<lparr> role = user,
        content = ''Here is a conversation between team members:\<newline>\<newline>'' @ conversationText ps \<rparr>,
      \<lparr> role = user, content = stepPrompt \<rparr>]"

definition step2Messages :: "World \<Rightarrow> Prompts \<Rightarrow> string \<Rightarrow> SequentialPart1 \<Rightarrow> ChatMessage list" where
  "step2Messages w ps stepPrompt step1Result =
     [\<lparr> role = system, content = systemPrompt ps \<rparr>,
      \<lparr> role = user,
        content = ''Here is a conversation between team members:\<newline>\<newline>'' @ conversationText ps \<rparr>,
      \<lparr> role = assistant, content = stringify_Part1 w step1Result \<rparr>,
      \<lparr> role = user, content = stepPrompt \<rparr>]"

definition step3Messages ::
    "World \<Rightarrow> Prompts \<Rightarrow> string \<Rightarrow> SequentialPart1 \<Rightarrow> SequentialPart2 \<Rightarrow> ChatMessage list" where
  "step3Messages w ps stepPrompt step1Result step2Result =
     [\<lparr> role = system, content = systemPrompt ps \<rparr>,
      \<lparr> role = user,
        content = ''Here is a conversation between team members:\<newline>\<newline>'' @ conversationText ps \<rparr>,
      \<lparr> role = assistant, content = stringify_Part1 w step1Result \<rparr>,
      \<lparr> role = assistant, content = stringify_Part2 w step2Result \<rparr>,
      \<lparr> role = user, content = stepPrompt \<rparr>]"

text \<open>
  The \<open>try\<close> block of a three-stage run, given the three step loops. A step that comes
  back with \<open>null\<close> makes the block throw \<open>Step k failed\<close>; \<open>ResponseSchema.parse\<close> on the
  merged object throws when the schema rejects it. The step result is tested for truthiness
  only: no branch looks at \<open>step1Result.action\<close>.
\<close>

definition sequentialTry ::
    "World
       \<Rightarrow> (RunState \<Rightarrow> RunState \<times> SequentialPart1 option)
       \<Rightarrow> (SequentialPart1 \<Rightarrow> RunState \<Rightarrow> RunState \<times> SequentialPart2 option)
       \<Rightarrow> (SequentialPart1 \<Rightarrow> SequentialPart2 \<Rightarrow> RunState \<Rightarrow> RunState \<times> SequentialPart3 option)
       \<Rightarrow> RunState" where
  "sequentialTry w step1 step2 step3 =
     (case step1 initialRunState of (st1, step1Result) \<Rightarrow>
      if thrown st1 \<noteq> None then st1
      else case step1Result of
        None \<Rightarrow> st1\<lparr> thrown := Some (Error ''Step 1 failed'') \<rparr>
      | Some part1 \<Rightarrow>
         (case step2 part1 st1 of (st2, step2Result) \<Rightarrow>
          if thrown st2 \<noteq> None then st2
          else case step2Result of
            None \<Rightarrow> st2\<lparr> thrown := Some (Error ''Step 2 failed'') \<rparr>
          | Some part2 \<Rightarrow>
             (case step3 part1 part2 st2 of (st3, step3Result) \<Rightarrow>
              if thrown st3 \<noteq> None then st3
              else case step3Result of
                None \<Rightarrow> st3\<lparr> thrown := Some (Error ''Step 3 failed'') \<rparr>
              | Some part3 \<Rightarrow>
                 (let merged = mergeSequentialParts part1 part2 part3 in
                  if ResponseSchema_accepts merged
                  then st3\<lparr> success := True,
                            finalResponse := Some (ResponseObject merged) \<rparr>
                  else st3\<lparr> thrown := Some (ZodError (responseIssues w merged)) \<rparr>))))"

text \<open>
  One step of scenario 3 (guided mode, the message list grows with every failure) and one
  step of scenario 4 (enforced mode, the message list is a constant), each from attempt 1.
\<close>

definition nonStrictStep ::
    "World \<Rightarrow> nat \<Rightarrow> ('a \<Rightarrow> JsonObject) \<Rightarrow> (string \<Rightarrow> 'a ParseReply) \<Rightarrow> nat
       \<Rightarrow> ChatMessage list \<Rightarrow> RunState \<Rightarrow> RunState \<times> 'a option" where
  "nonStrictStep w runNum asRecord parse retries stepMessages =
     sequentialStep w runNum asRecord
       (\<lambda>i messages. runNonStrictAttempt (generateText w runNum i) (trim w) parse messages)
       True retries 1 stepMessages"

definition strictStep ::
    "World \<Rightarrow> nat \<Rightarrow> ('a \<Rightarrow> JsonObject)
       \<Rightarrow> (nat \<Rightarrow> nat \<Rightarrow> ChatMessage list \<Rightarrow> 'a ObjectReply) \<Rightarrow> ('a \<Rightarrow> string) \<Rightarrow> nat
       \<Rightarrow> ChatMessage list \<Rightarrow> RunState \<Rightarrow> RunState \<times> 'a option" where
  "strictStep w runNum asRecord generateObject stringify2 retries stepMessages =
     sequentialStep w runNum asRecord
       (\<lambda>i messages. Inr (runStrictAttempt (generateObject runNum i) stringify2 (zodMessage w)
                             messages))
       False retries 1 stepMessages"

definition runScenario3_try :: "World \<Rightarrow> Prompts \<Rightarrow> TestConfig \<Rightarrow> nat \<Rightarrow> RunState" where
  "runScenario3_try w ps config runNum =
     sequentialTry w
       (nonStrictStep w runNum Part1Object (parse_Part1 w) (maxRetries config)
          (step1Messages ps (step1_nonStrict ps)))
       (\<lambda>part1. nonStrictStep w runNum Part2Object (parse_Part2 w) (maxRetries config)
          (step2Messages w ps (step2_nonStrict ps) part1))
       (\<lambda>part1 part2. nonStrictStep w runNum Part3Object (parse_Part3 w) (maxRetries config)
          (step3Messages w ps (step3_nonStrict ps) part1 part2))"

definition runScenario4_try :: "World \<Rightarrow> Prompts \<Rightarrow> TestConfig \<Rightarrow> nat \<Rightarrow> RunState" where
  "runScenario4_try w ps config runNum =
     sequentialTry w
       (strictStep w runNum Part1Object (generateObject_Part1 w) (stringify2_Part1 w)
          (maxRetries config) (step1Messages ps (step1_strict ps)))
       (\<lambda>part1. strictStep w runNum Part2Object (generateObject_Part2 w) (stringify2_Part2 w)
          (maxRetries config) (step2Messages w ps (step2_strict ps) part1))
       (\<lambda>part1 part2. strictStep w runNum Part3Object (generateObject_Part3 w)
          (stringify2_Part3 w) (maxRetries config)
          (step3Messages w ps (step3_strict ps) part1 part2))"

text \<open>
  Names for the three step loops of a run as \<open>runScenario4_try\<close> and
  \<open>runScenario3_try\<close> hand them to \<open>sequentialTry\<close>: step 1 from the initial
  locals, step 2 given the result of step 1, step 3 given the results of steps 1 and 2.
\<close>

abbreviation scenario4_step1 ::
    "World \<Rightarrow> Prompts \<Rightarrow> TestConfig \<Rightarrow> nat \<Rightarrow> RunState \<times> SequentialPart1 option" where
  "scenario4_step1 w ps config runNum \<equiv>
     strictStep w runNum Part1Object (generateObject_Part1 w) (stringify2_Part1 w)
       (maxRetries config) (step1Messages ps (step1_strict ps)) initialRunState"

abbreviation scenario4_step2 ::
    "World \<Rightarrow> Prompts \<Rightarrow> TestConfig \<Rightarrow> nat \<Rightarrow> SequentialPart1 \<Rightarrow> RunState
       \<Rightarrow> RunState \<times> SequentialPart2 option" where
  "scenario4_step2 w ps config runNum part1 \<equiv>
     strictStep w runNum Part2Object (generateObject_Part2 w) (stringify2_Part2 w)
       (maxRetries config) (step2Messages w ps (step2_strict ps) part1)"

abbreviation scenario4_step3 ::
    "World \<Rightarrow> Prompts \<Rightarrow> TestConfig \<Rightarrow> nat \<Rightarrow> SequentialPart1 \<Rightarrow> SequentialPart2 \<Rightarrow> RunState
       \<Rightarrow> RunState \<times> SequentialPart3 option" where
  "scenario4_step3 w ps config runNum part1 part2 \<equiv>
     strictStep w runNum Part3Object (generateObject_Part3 w) (stringify2_Part3 w)
       (maxRetries config) (step3Messages w ps (step3_strict ps) part1 part2)"

abbreviation scenario3_step1 ::
    "World \<Rightarrow> Prompts \<Rightarrow> TestConfig \<Rightarrow> nat \<Rightarrow> RunState \<times> SequentialPart1 option" where
  "scenario3_step1 w ps config runNum \<equiv>
     nonStrictStep w runNum Part1Object (parse_Part1 w) (maxRetries config)
       (step1Messages ps (step1_nonStrict ps)) initialRunState"

abbreviation scenario3_step2 ::
    "World \<Rightarrow> Prompts \<Rightarrow> TestConfig \<Rightarrow> nat \<Rightarrow> SequentialPart1 \<Rightarrow> RunState
       \<Rightarrow> RunState \<times> SequentialPart2 option" where
  "scenario3_step2 w ps config runNum part1 \<equiv>
     nonStrictStep w runNum Part2Object (parse_Part2 w) (maxRetries config)
       (step2Messages w ps (step2_nonStrict ps) part1)"

abbreviation scenario3_step3 ::
    "World \<Rightarrow> Prompts \<Rightarrow> TestConfig \<Rightarrow> nat \<Rightarrow> SequentialPart1 \<Rightarrow> SequentialPart2 \<Rightarrow> RunState
       \<Rightarrow> RunState \<times> SequentialPart3 option" where
  "scenario3_step3 w ps config runNum part1 part2 \<equiv>
     nonStrictStep w runNum Part3Object (parse_Part3 w) (maxRetries config)
       (step3Messages w ps (step3_nonStrict ps) part1 part2)"

text \<open>
  The \<open>catch\<close> clause reports to the progress callback and falls through: the exception is
  gone, \<open>success\<close> and \<open>finalResponse\<close> keep their initial values, and the attempts pushed
  before the throw stay in the run.
\<close>

definition catchAll :: "RunState \<Rightarrow> RunState" where
  "catchAll st = st\<lparr> thrown := None \<rparr>"

definition runScenario3_run :: "World \<Rightarrow> Prompts \<Rightarrow> TestConfig \<Rightarrow> nat \<Rightarrow> RunState" where
  "runScenario3_run w ps config runNum = catchAll (runScenario3_try w ps config runNum)"

definition runScenario4_run :: "World \<Rightarrow> Prompts \<Rightarrow> TestConfig \<Rightarrow> nat \<Rightarrow> RunState" where
  "runScenario4_run w ps config runNum = catchAll (runScenario4_try w ps config runNum)"

definition runScenario3 ::
    "World \<Rightarrow> Prompts \<Rightarrow> TestConfig \<Rightarrow> Exception + JsonObject RunResult list" where
  "runScenario3 w ps config =
     runsLoop w (runScenario3_run w ps config) (runsPerScenario config) 1 []"

definition runScenario4 ::
    "World \<Rightarrow> Prompts \<Rightarrow> TestConfig \<Rightarrow> Exception + JsonObject RunResult list" where
  "runScenario4 w ps config =
     runsLoop w (runScenario4_run w ps config) (runsPerScenario config) 1 []"

text \<open>The \<open>switch (scenario)\<close> of \<open>runModelTests\<close>.\<close>

definition runScenario ::
    "nat \<Rightarrow> World \<Rightarrow> Prompts \<Rightarrow> TestConfig \<Rightarrow> Exception + JsonObject RunResult list" where
  "runScenario scenario w ps config =
     (if scenario = 1 then runScenario1 w ps config
      else if scenario = 2 then runScenario2 w ps config
      else if scenario = 3 then runScenario3 w ps config
      else if scenario = 4 then runScenario4 w ps config
      else Inl (Error (''Invalid scenario: '' @ decimal scenario)))"

section \<open>Traces and invariants of the retry loops\<close>

text \<open>
  What a trace of requests and a list of attempt records say about each other in a one-stage
  run: request \<open>j\<close> is the message list built for attempt \<open>j + 1\<close> from the first \<open>j\<close>
  records, and record \<open>j\<close> is the record of the executor's result on request \<open>j\<close>.
\<close>

definition recordsCalls ::
    "World \<Rightarrow> nat \<Rightarrow> (nat \<Rightarrow> JsonObject AttemptResult list \<Rightarrow> ChatMessage list)
       \<Rightarrow> (nat \<Rightarrow> ChatMessage list \<Rightarrow> Exception + Response AttemptOutcome)
       \<Rightarrow> ChatMessage list list \<Rightarrow> JsonObject AttemptResult list \<Rightarrow> bool" where
  "recordsCalls w runNum buildMessages runAttempt reqs atts \<longleftrightarrow>
     (\<forall>j < length reqs. reqs ! j = buildMessages (j + 1) (take j atts)) \<and>
     (\<forall>j < length atts. j < length reqs \<and>
        (\<exists>result. runAttempt j (reqs ! j) = Inr result \<and>
           atts ! j = toAttemptResult ResponseObject (j + 1) (attemptTimestamp w runNum j)
                        (attemptDurationMs w runNum j) (promptTextOf (reqs ! j)) result))"

definition oneShotInv ::
    "World \<Rightarrow> nat \<Rightarrow> (nat \<Rightarrow> JsonObject AttemptResult list \<Rightarrow> ChatMessage list)
       \<Rightarrow> (nat \<Rightarrow> ChatMessage list \<Rightarrow> Exception + Response AttemptOutcome)
       \<Rightarrow> nat \<Rightarrow> nat \<Rightarrow> RunState \<Rightarrow> bool" where
  "oneShotInv w runNum buildMessages runAttempt retries attempt st \<longleftrightarrow>
     thrown st = None \<and> \<not> RunState.success st \<and>
     length (requests st) = length (RunState.attempts st) \<and>
     attempt = length (RunState.attempts st) + 1 \<and> attempt \<le> retries + 2 \<and>
     (\<forall>a \<in> set (RunState.attempts st). \<not> AttemptResult.success a) \<and>
     recordsCalls w runNum buildMessages runAttempt (requests st) (RunState.attempts st)"

definition oneShotPost ::
    "World \<Rightarrow> nat \<Rightarrow> (nat \<Rightarrow> JsonObject AttemptResult list \<Rightarrow> ChatMessage list)
       \<Rightarrow> (nat \<Rightarrow> ChatMessage list \<Rightarrow> Exception + Response AttemptOutcome)
       \<Rightarrow> nat \<Rightarrow> RunState \<Rightarrow> bool" where
  "oneShotPost w runNum buildMessages runAttempt retries st \<longleftrightarrow>
     recordsCalls w runNum buildMessages runAttempt (requests st) (RunState.attempts st) \<and>
     length (RunState.attempts st) \<le> retries + 1 \<and>
     (\<forall>a \<in> set (butlast (RunState.attempts st)). \<not> AttemptResult.success a) \<and>
     (case thrown st of
        None \<Rightarrow>
          RunState.attempts st \<noteq> [] \<and>
          length (requests st) = length (RunState.attempts st) \<and>
          RunState.success st = AttemptResult.success (last (RunState.attempts st)) \<and>
          (RunState.success st \<or> length (RunState.attempts st) = retries + 1)
      | Some e \<Rightarrow>
          \<not> RunState.success st \<and>
          length (requests st) = length (RunState.attempts st) + 1 \<and>
          (\<forall>a \<in> set (RunState.attempts st). \<not> AttemptResult.success a) \<and>
          runAttempt (length (RunState.attempts st)) (last (requests st)) = Inl e)"

text \<open>
  The same for one step of a three-stage run, on the requests and records the step adds:
  \<open>nextMessages\<close> is the message list of the next attempt, \<open>n0\<close> the number of calls made
  before the step.
\<close>

definition nextMessages ::
    "bool \<Rightarrow> ChatMessage list \<Rightarrow> ChatMessage list list \<Rightarrow> JsonObject AttemptResult list
       \<Rightarrow> ChatMessage list" where
  "nextMessages withRetryContext m0 reqs atts =
     (if reqs = [] then m0
      else if withRetryContext
        then last reqs @ retryContext (rawResponse (last atts)) (validationErrors (last atts))
      else last reqs)"

definition stepTrace ::
    "World \<Rightarrow> nat \<Rightarrow> ('a \<Rightarrow> JsonObject)
       \<Rightarrow> (nat \<Rightarrow> ChatMessage list \<Rightarrow> Exception + 'a AttemptOutcome)
       \<Rightarrow> bool \<Rightarrow> nat \<Rightarrow> ChatMessage list
       \<Rightarrow> ChatMessage list list \<Rightarrow> JsonObject AttemptResult list \<Rightarrow> bool" where
  "stepTrace w runNum asRecord runAttempt withRetryContext n0 m0 reqs atts \<longleftrightarrow>
     (\<forall>j < length reqs. reqs ! j = nextMessages withRetryContext m0 (take j reqs) (take j atts)) \<and>
     (\<forall>j < length atts. j < length reqs \<and>
        (\<exists>result. runAttempt (n0 + j) (reqs ! j) = Inr result \<and>
           atts ! j = toAttemptResult asRecord (j + 1) (attemptTimestamp w runNum (n0 + j))
                        (attemptDurationMs w runNum (n0 + j)) (promptTextOf (reqs ! j)) result))"

definition stepInv ::
    "World \<Rightarrow> nat \<Rightarrow> ('a \<Rightarrow> JsonObject)
       \<Rightarrow> (nat \<Rightarrow> ChatMessage list \<Rightarrow> Exception + 'a AttemptOutcome)
       \<Rightarrow> bool \<Rightarrow> nat \<Rightarrow> RunState \<Rightarrow> ChatMessage list
       \<Rightarrow> nat \<Rightarrow> ChatMessage list \<Rightarrow> RunState \<Rightarrow> bool" where
  "stepInv w runNum asRecord runAttempt withRetryContext retries st0 m0 attempt msgs st \<longleftrightarrow>
     (\<exists>reqs atts.
        requests st = requests st0 @ reqs \<and> RunState.attempts st = RunState.attempts st0 @ atts \<and>
        RunState.success st = RunState.success st0 \<and>
        RunState.finalResponse st = RunState.finalResponse st0 \<and>
        thrown st = None \<and> length reqs = length atts \<and>
        attempt = length atts + 1 \<and> attempt \<le> retries + 2 \<and>
        (\<forall>a \<in> set atts. \<not> AttemptResult.success a) \<and>
        stepTrace w runNum asRecord runAttempt withRetryContext (length (requests st0)) m0 reqs atts \<and>
        msgs = nextMessages withRetryContext m0 reqs atts)"

definition stepPost ::
    "World \<Rightarrow> nat \<Rightarrow> ('a \<Rightarrow> JsonObject)
       \<Rightarrow> (nat \<Rightarrow> ChatMessage list \<Rightarrow> Exception + 'a AttemptOutcome)
       \<Rightarrow> bool \<Rightarrow> nat \<Rightarrow> RunState \<Rightarrow> ChatMessage list
       \<Rightarrow> RunState \<times> 'a option \<Rightarrow> bool" where
  "stepPost w runNum asRecord runAttempt withRetryContext retries st0 m0 out \<longleftrightarrow>
     (case out of (st, stepResult) \<Rightarrow>
      \<exists>reqs atts.
        requests st = requests st0 @ reqs \<and> RunState.attempts st = RunState.attempts st0 @ atts \<and>
        RunState.success st = RunState.success st0 \<and>
        RunState.finalResponse st = RunState.finalResponse st0 \<and>
        reqs \<noteq> [] \<and> length atts \<le> retries + 1 \<and>
        (\<forall>a \<in> set (butlast atts). \<not> AttemptResult.success a) \<and>
        stepTrace w runNum asRecord runAttempt withRetryContext (length (requests st0)) m0 reqs atts \<and>
        (case thrown st of
           None \<Rightarrow>
             length reqs = length atts \<and>
             (stepResult \<noteq> None \<longrightarrow> AttemptResult.success (last atts)) \<and>
             (AttemptResult.success (last atts) \<longrightarrow>
                parsedResponse (last atts) = map_option asRecord stepResult) \<and>
             (\<not> AttemptResult.success (last atts) \<longrightarrow>
                stepResult = None \<and> length atts = retries + 1)
         | Some e \<Rightarrow>
             stepResult = None \<and> length reqs = length atts + 1 \<and>
             (\<forall>a \<in> set atts. \<not> AttemptResult.success a) \<and>
             runAttempt (length (requests st0) + length atts) (last reqs) = Inl e))"

section \<open>Concrete inputs\<close>

text \<open>
  The two helpers of the storage tests, with the object \<open>{ test: 'data' }\<close> as a list of
  pairs and a fixed timestamp, and the run lists built from them.
\<close>

definition createMockAttempt :: "bool \<Rightarrow> nat \<Rightarrow> nat \<Rightarrow> (string \<times> string) list AttemptResult" where
  "createMockAttempt ok inTokens outTokens =
     \<lparr> attemptNumber = 1,
       timestamp = ''2025-01-01T00:00:00.000Z'',
       AttemptResult.success = ok,
       durationMs = 1000,
       AttemptResult.inputTokens = Some inTokens,
       AttemptResult.outputTokens = Some outTokens,
       AttemptResult.prompt = ''mock prompt'',
       rawResponse = ''mock response'',
       parsedResponse = (if ok then Some [(''test'', ''data'')] else None),
       validationErrors = [],
       errorMessage = None \<rparr>"

definition createMockRun ::
    "(string \<times> string) list AttemptResult list \<Rightarrow> (string \<times> string) list RunResult" where
  "createMockRun as =
     \<lparr> runNumber = 1,
       RunResult.success = list_ex AttemptResult.success as,
       RunResult.attempts = as,
       totalDurationMs = 5000,
       RunResult.finalResponse =
         (if list_ex AttemptResult.success as then Some [(''test'', ''data'')] else None) \<rparr>"

text \<open>Three runs: success at the first attempt, success at the second, four failures.\<close>

definition threeRuns :: "(string \<times> string) list RunResult list" where
  "threeRuns =
     [createMockRun [createMockAttempt True 100 50],
      createMockRun [createMockAttempt False 100 50, createMockAttempt True 100 50],
      createMockRun [createMockAttempt False 100 50, createMockAttempt False 100 50,
                     createMockAttempt False 100 50, createMockAttempt False 100 50]]"

text \<open>The runs of the test of the token total.\<close>

definition tokenRuns :: "(string \<times> string) list RunResult list" where
  "tokenRuns =
     [createMockRun [createMockAttempt True 100 50],
      createMockRun [createMockAttempt False 80 40, createMockAttempt True 120 60]]"

text \<open>
  Short prompt texts, the default configuration of the runner, the same with a single run,
  and two worlds: one in which every generation fails (free text that does not parse, and a
  transport error from every \<open>generateObject\<close>), and one in which \<open>generateObject\<close> on the
  full schema is rejected with a validation issue.
\<close>

definition shortPrompts :: Prompts where
  "shortPrompts =
     \<lparr> systemPrompt = ''S'', conversationText = ''C'', oneShotPrompt = ''P1'',
       oneShotStrictPrompt = ''P2'', step1_nonStrict = ''N1'', step1_strict = ''T1'',
       step2_nonStrict = ''N2'', step2_strict = ''T2'', step3_nonStrict = ''N3'',
       step3_strict = ''T3'' \<rparr>"

definition DEFAULT_CONFIG :: TestConfig where
  "DEFAULT_CONFIG = \<lparr> temperature = 1 / 10, maxTokens = 1500, maxRetries = 3, runsPerScenario = 10 \<rparr>"

definition oneRun :: TestConfig where
  "oneRun = DEFAULT_CONFIG\<lparr> runsPerScenario := 1 \<rparr>"

definition failingWorld :: World where
  "failingWorld =
     \<lparr> generateText = (\<lambda>runNum i messages. TextResult ''oops'' None),
       generateObject_Response = (\<lambda>runNum i messages. ObjectThrows (Error ''timeout'')),
       generateObject_Part1 = (\<lambda>runNum i messages. ObjectThrows (Error ''timeout'')),
       generateObject_Part2 = (\<lambda>runNum i messages. ObjectThrows (Error ''timeout'')),
       generateObject_Part3 = (\<lambda>runNum i messages. ObjectThrows (Error ''timeout'')),
       parse_Response = (\<lambda>s. ParseThrows (SyntaxError ''Unexpected token'')),
       parse_Part1 = (\<lambda>s. ParseThrows (SyntaxError ''Unexpected token'')),
       parse_Part2 = (\<lambda>s. ParseThrows (SyntaxError ''Unexpected token'')),
       parse_Part3 = (\<lambda>s. ParseThrows (SyntaxError ''Unexpected token'')),
       trim = (\<lambda>s. s),
       stringify_Part1 = (\<lambda>x. ''{1}''),
       stringify_Part2 = (\<lambda>x. ''{2}''),
       stringify2_Response = (\<lambda>x. ''{r}''),
       stringify2_Part1 = (\<lambda>x. ''{1}''),
       stringify2_Part2 = (\<lambda>x. ''{2}''),
       stringify2_Part3 = (\<lambda>x. ''{3}''),
       zodMessage = (\<lambda>issues. ''zod''),
       responseIssues = (\<lambda>r. []),
       attemptDurationMs = (\<lambda>runNum i. 1),
       attemptTimestamp = (\<lambda>runNum i. ''t''),
       runDurationMs = (\<lambda>runNum. 1) \<rparr>"

definition zodWorld :: World where
  "zodWorld = failingWorld
     \<lparr> generateObject_Response :=
         (\<lambda>runNum i messages. ObjectThrows (ZodError
            [\<lparr> ZodIssue.path = [Key ''recommendation''], ZodIssue.message = ''Too small'',
               ZodIssue.code = ''too_small'' \<rparr>])) \<rparr>"

text \<open>
  Step outputs that satisfy their schemas, one of them with a null action, and three more
  worlds: step 1 succeeds and step 2 keeps failing; every step succeeds at once and step 1
  returns the null action (in guided mode the model answers the prompt of each step with a
  text that parses to the object of that step, written here without its quotation marks);
  \<open>generateText\<close> throws a transport error.
\<close>

definition goodPart1 :: SequentialPart1 where
  "goodPart1 = \<lparr> SequentialPart1.recommendation = ''I think you need to hire a DBA'',
                 SequentialPart1.action = Some ''create_actor'' \<rparr>"

definition nullPart1 :: SequentialPart1 where
  "nullPart1 = \<lparr> SequentialPart1.recommendation = ''No new team member is needed'',
                 SequentialPart1.action = None \<rparr>"

definition goodPart2 :: SequentialPart2 where
  "goodPart2 = \<lparr> SequentialPart2.title = ''DBA'',
                 SequentialPart2.reason = ''needs db help, long enough text'',
                 SequentialPart2.skills = [''PostgreSQL'', ''Indexing'', ''Tuning''] \<rparr>"

definition goodPart3 :: SequentialPart3 where
  "goodPart3 = \<lparr> SequentialPart3.prompt = ''You are a DBA expert with enough characters'',
                 SequentialPart3.model = reasoning \<rparr>"

definition stage2FailsWorld :: World where
  "stage2FailsWorld = failingWorld
     \<lparr> generateObject_Part1 := (\<lambda>runNum i messages. ObjectResult goodPart1 None) \<rparr>"

definition nullActionWorld :: World where
  "nullActionWorld = failingWorld
     \<lparr> generateText := (\<lambda>runNum i messages.
         TextResult (if content (last messages) = ''N1'' then ''{action:null}''
                     else if content (last messages) = ''N2'' then ''{title:DBA}''
                     else ''{model:reasoning}'') None),
       generateObject_Part1 := (\<lambda>runNum i messages. ObjectResult nullPart1 None),
       generateObject_Part2 := (\<lambda>runNum i messages. ObjectResult goodPart2 None),
       generateObject_Part3 := (\<lambda>runNum i messages. ObjectResult goodPart3 None),
       parse_Part1 := (\<lambda>s. if s = ''{action:null}'' then ParseResult nullPart1
                            else ParseThrows (SyntaxError ''Unexpected token'')),
       parse_Part2 := (\<lambda>s. if s = ''{title:DBA}'' then ParseResult goodPart2
                            else ParseThrows (SyntaxError ''Unexpected token'')),
       parse_Part3 := (\<lambda>s. if s = ''{model:reasoning}'' then ParseResult goodPart3
                            else ParseThrows (SyntaxError ''Unexpected token'')) \<rparr>"

definition throwingWorld :: World where
  "throwingWorld = failingWorld
     \<lparr> generateText := (\<lambda>runNum i messages. TextThrows (Error ''timeout'')) \<rparr>"

section \<open>The summary\<close>

lemma fold_add_sum_list: "fold (\<lambda>x s. s + f x) xs (a::nat) = a + sum_list (map f xs)"
  by (induction xs arbitrary: a) simp_all

lemma fold_attempt_tokens:
  "fold (\<lambda>a aSum. aSum + orZero (AttemptResult.inputTokens a)
                       + orZero (AttemptResult.outputTokens a)) as (n::nat)
     = n + (\<Sum>a\<leftarrow>as. orZero (AttemptResult.inputTokens a)
                     + orZero (AttemptResult.outputTokens a))"
  by (induction as arbitrary: n) simp_all

lemma fold_tierStep:
  "fold tierStep runs (a, b, c) =
     (a + sum_list (map (spec_tierIncrement 1) runs),
      b + sum_list (map (spec_tierIncrement 2) runs),
      c + sum_list (map (spec_tierIncrement 3) runs))"
  by (induction runs arbitrary: a b c) (simp_all add: tierStep_def spec_tierIncrement_def)

lemma attemptSucceeded_flags:
  "map AttemptResult.success as = fs \<Longrightarrow> attemptSucceeded as i \<longleftrightarrow> i < length fs \<and> fs ! i"
  by (auto simp: attemptSucceeded_def)

lemma summary_rates_nonempty:
  assumes "runs \<noteq> []"
  shows "successRate (calculateScenarioSummary runs)
           = of_nat (length (filter RunResult.success runs)) / of_nat (length runs) * 100"
    and "firstAttemptSuccessRate (calculateScenarioSummary runs)
           = spec_rate (spec_firstAttemptSuccesses runs) runs"
    and "afterRetry1SuccessRate (calculateScenarioSummary runs)
           = spec_rate (spec_afterTier 1 runs) runs"
    and "afterRetry2SuccessRate (calculateScenarioSummary runs)
           = spec_rate (spec_afterTier 2 runs) runs"
    and "afterRetry3SuccessRate (calculateScenarioSummary runs)
           = spec_rate (spec_afterTier 3 runs) runs"
  using assms
  by (simp_all add: calculateScenarioSummary_def Let_def fold_tierStep spec_rate_def
        spec_afterTier_def spec_firstAttemptSuccesses_def)

lemma example_shape:
  assumes "map (\<lambda>r. map AttemptResult.success (RunResult.attempts r)) runs
             = [[True], [False, True], [False, False, False, False]]"
      and "map RunResult.success runs = [True, True, False]"
  shows "length runs = 3"
    and "length (filter RunResult.success runs) = 2"
    and "spec_firstAttemptSuccesses runs = 1"
    and "spec_afterTier 1 runs = 2" and "spec_afterTier 2 runs = 2" and "spec_afterTier 3 runs = 2"
proof -
  from assms(1) obtain r1 r2 r3 where runs: "runs = [r1, r2, r3]"
    and f1: "map AttemptResult.success (RunResult.attempts r1) = [True]"
    and f2: "map AttemptResult.success (RunResult.attempts r2) = [False, True]"
    and f3: "map AttemptResult.success (RunResult.attempts r3) = [False, False, False, False]"
    by (auto simp: map_eq_Cons_conv)
  from assms(2) runs
  have s: "RunResult.success r1" "RunResult.success r2" "\<not> RunResult.success r3"
    by simp_all
  note a1 = attemptSucceeded_flags[OF f1] and a2 = attemptSucceeded_flags[OF f2]
    and a3 = attemptSucceeded_flags[OF f3]
  show "length runs = 3" by (simp add: runs)
  show "length (filter RunResult.success runs) = 2" by (simp add: runs s)
  show "spec_firstAttemptSuccesses runs = 1"
    by (simp add: runs spec_firstAttemptSuccesses_def a1 a2 a3)
  show "spec_afterTier 1 runs = 2" "spec_afterTier 2 runs = 2" "spec_afterTier 3 runs = 2"
    by (simp_all add: runs spec_afterTier_def spec_firstAttemptSuccesses_def
          spec_tierIncrement_def a1 a2 a3)
qed

text \<open>
  Claim C5. The rates that \<open>calculateScenarioSummary\<close> returns for a non-empty run list are
  those of the specified algorithm: the first-attempt rate is the count of runs whose first
  attempt succeeded, and tier \<open>k\<close> adds to that count one for each run not so counted whose
  first succeeding attempt among the second, third and fourth is at most the \<open>k\<close>-th retry;
  each count is divided by the number of runs and multiplied by 100. For three runs of which
  the first succeeds at attempt 1, the second at attempt 2 and the third fails four times, the
  success rate and the three tier rates are \<open>2 / 3 * 100\<close> and the first-attempt rate is
  \<open>1 / 3 * 100\<close>, which are 66.7 and 33.3 to one decimal place.
\<close>

theorem tier_rates_follow_spec:
  "(runs \<noteq> [] \<longrightarrow>
      firstAttemptSuccessRate (calculateScenarioSummary runs)
        = spec_rate (spec_firstAttemptSuccesses runs) runs \<and>
      afterRetry1SuccessRate (calculateScenarioSummary runs)
        = spec_rate (spec_afterTier 1 runs) runs \<and>
      afterRetry2SuccessRate (calculateScenarioSummary runs)
        = spec_rate (spec_afterTier 2 runs) runs \<and>
      afterRetry3SuccessRate (calculateScenarioSummary runs)
        = spec_rate (spec_afterTier 3 runs) runs)
   \<and>
   (map (\<lambda>r. map AttemptResult.success (RunResult.attempts r)) runs
        = [[True], [False, True], [False, False, False, False]] \<and>
    map RunResult.success runs = [True, True, False] \<longrightarrow>
      successRate (calculateScenarioSummary runs) = 2 / 3 * 100 \<and>
      firstAttemptSuccessRate (calculateScenarioSummary runs) = 1 / 3 * 100 \<and>
      afterRetry1SuccessRate (calculateScenarioSummary runs) = 2 / 3 * 100 \<and>
      afterRetry2SuccessRate (calculateScenarioSummary runs) = 2 / 3 * 100 \<and>
      afterRetry3SuccessRate (calculateScenarioSummary runs) = 2 / 3 * 100 \<and>
      \<bar>successRate (calculateScenarioSummary runs) - 667 / 10\<bar> < 1 / 20 \<and>
      \<bar>firstAttemptSuccessRate (calculateScenarioSummary runs) - 333 / 10\<bar> < 1 / 20)"
proof (intro conjI impI)
  assume ex: "map (\<lambda>r. map AttemptResult.success (RunResult.attempts r)) runs
        = [[True], [False, True], [False, False, False, False]] \<and>
    map RunResult.success runs = [True, True, False]"
  then have ne: "runs \<noteq> []" by auto
  note sh = example_shape[OF conjunct1[OF ex] conjunct2[OF ex]]
  show sr: "successRate (calculateScenarioSummary runs) = 2 / 3 * 100"
    by (simp add: summary_rates_nonempty(1)[OF ne] sh)
  show fr: "firstAttemptSuccessRate (calculateScenarioSummary runs) = 1 / 3 * 100"
    by (simp add: summary_rates_nonempty(2)[OF ne] sh spec_rate_def)
  show "afterRetry1SuccessRate (calculateScenarioSummary runs) = 2 / 3 * 100"
    using summary_rates_nonempty(3)[OF ne] sh by (simp add: spec_rate_def)
  show "afterRetry2SuccessRate (calculateScenarioSummary runs) = 2 / 3 * 100"
    using summary_rates_nonempty(4)[OF ne] sh by (simp add: spec_rate_def)
  show "afterRetry3SuccessRate (calculateScenarioSummary runs) = 2 / 3 * 100"
    using summary_rates_nonempty(5)[OF ne] sh by (simp add: spec_rate_def)
  show "\<bar>successRate (calculateScenarioSummary runs) - 667 / 10\<bar> < 1 / 20"
    by (simp add: sr)
  show "\<bar>firstAttemptSuccessRate (calculateScenarioSummary runs) - 333 / 10\<bar> < 1 / 20"
    by (simp add: fr)
qed (simp_all add: summary_rates_nonempty)

theorem tier_rates_follow_spec_witness:
  "threeRuns \<noteq> [] \<and>
   map (\<lambda>r. map AttemptResult.success (RunResult.attempts r)) threeRuns
     = [[True], [False, True], [False, False, False, False]] \<and>
   map RunResult.success threeRuns = [True, True, False] \<and>
   afterRetry1SuccessRate (calculateScenarioSummary threeRuns)
     = spec_rate (spec_afterTier 1 threeRuns) threeRuns \<and>
   successRate (calculateScenarioSummary threeRuns) = 2 / 3 * 100 \<and>
   firstAttemptSuccessRate (calculateScenarioSummary threeRuns) = 1 / 3 * 100 \<and>
   afterRetry3SuccessRate (calculateScenarioSummary threeRuns) = 2 / 3 * 100"
proof -
  have ne: "threeRuns \<noteq> []"
    by (simp add: threeRuns_def)
  have flags: "map (\<lambda>r. map AttemptResult.success (RunResult.attempts r)) threeRuns
                 = [[True], [False, True], [False, False, False, False]]"
    by (simp add: threeRuns_def createMockRun_def createMockAttempt_def)
  have finals: "map RunResult.success threeRuns = [True, True, False]"
    by (simp add: threeRuns_def createMockRun_def createMockAttempt_def)
  from tier_rates_follow_spec[of threeRuns] ne flags finals show ?thesis
    by blast
qed

text \<open>
  Claim C7. For every non-empty run list the summary's \<open>totalTokensUsed\<close> is the sum, over
  every attempt of every run, failed attempts included, of the input tokens (0 when absent)
  plus the output tokens (0 when absent).
\<close>

theorem totalTokensUsed_is_sum:
  "runs \<noteq> [] \<Longrightarrow>
     totalTokensUsed (calculateScenarioSummary runs) =
       (\<Sum>r\<leftarrow>runs. \<Sum>a\<leftarrow>RunResult.attempts r.
          orZero (AttemptResult.inputTokens a) + orZero (AttemptResult.outputTokens a))"
  by (simp add: calculateScenarioSummary_def Let_def fold_attempt_tokens fold_add_sum_list)

theorem totalTokensUsed_is_sum_witness:
  "tokenRuns \<noteq> [] \<and>
   totalTokensUsed (calculateScenarioSummary tokenRuns) =
     (\<Sum>r\<leftarrow>tokenRuns. \<Sum>a\<leftarrow>RunResult.attempts r.
        orZero (AttemptResult.inputTokens a) + orZero (AttemptResult.outputTokens a)) \<and>
   (\<Sum>r\<leftarrow>tokenRuns. \<Sum>a\<leftarrow>RunResult.attempts r.
        orZero (AttemptResult.inputTokens a) + orZero (AttemptResult.outputTokens a)) = 450"
proof -
  have ne: "tokenRuns \<noteq> []"
    by (simp add: tokenRuns_def)
  have total: "(\<Sum>r\<leftarrow>tokenRuns. \<Sum>a\<leftarrow>RunResult.attempts r.
        orZero (AttemptResult.inputTokens a) + orZero (AttemptResult.outputTokens a)) = 450"
    by (simp add: tokenRuns_def createMockRun_def createMockAttempt_def orZero_def)
  from totalTokensUsed_is_sum[OF ne] ne total show ?thesis
    by simp
qed


section \<open>The merge\<close>

text \<open>
  Claim C8. \<open>mergeSequentialParts\<close> on the three stage outputs of the specification's
  example returns exactly the nested response: the recommendation of part 1, the action type
  \<open>create_actor\<close>, and an actor with the title, reason and skills of part 2 and the prompt
  and model of part 3. The result type has no other field.
\<close>

theorem merge_example:
  "mergeSequentialParts
     \<lparr> SequentialPart1.recommendation = ''R'', SequentialPart1.action = Some ''create_actor'' \<rparr>
     \<lparr> SequentialPart2.title = ''DBA'',
       SequentialPart2.reason = ''needs db help, long enough text'',
       SequentialPart2.skills = [''PostgreSQL'', ''Indexing'', ''Tuning''] \<rparr>
     \<lparr> SequentialPart3.prompt = ''You are a DBA expert with enough characters'',
       SequentialPart3.model = reasoning \<rparr>
   = \<lparr> Response.recommendation = ''R'',
       Response.action = Some
         \<lparr> type = ''create_actor'',
           actor = \<lparr> Actor.title = ''DBA'',
                     Actor.reason = ''needs db help, long enough text'',
                     Actor.skills = [''PostgreSQL'', ''Indexing'', ''Tuning''],
                     Actor.prompt = ''You are a DBA expert with enough characters'',
                     Actor.model = reasoning \<rparr> \<rparr> \<rparr>"
  by (simp add: mergeSequentialParts_def)

section \<open>The retry loops\<close>

lemma toAttemptResult_sel [simp]:
  "AttemptResult.success (toAttemptResult f n ts d p r) = AttemptOutcome.success r"
  "rawResponse (toAttemptResult f n ts d p r) = raw r"
  "validationErrors (toAttemptResult f n ts d p r) = (case errors r of None \<Rightarrow> [] | Some es \<Rightarrow> es)"
  "errorMessage (toAttemptResult f n ts d p r) = None"
  "attemptNumber (toAttemptResult f n ts d p r) = n"
  "AttemptResult.prompt (toAttemptResult f n ts d p r) = p"
  by (simp_all add: toAttemptResult_def)

lemma recordsCalls_Nil: "recordsCalls w runNum bm ra [] []"
  by (simp add: recordsCalls_def)

lemma recordsCalls_throw:
  assumes "recordsCalls w runNum bm ra reqs atts" "length reqs = length atts"
  shows "recordsCalls w runNum bm ra (reqs @ [bm (length atts + 1) atts]) atts"
  using assms unfolding recordsCalls_def
  by (auto simp: nth_append less_Suc_eq)

lemma recordsCalls_snoc:
  assumes "recordsCalls w runNum bm ra reqs atts" "length reqs = length atts"
    and "ra (length reqs) (bm (length atts + 1) atts) = Inr result"
  shows "recordsCalls w runNum bm ra (reqs @ [bm (length atts + 1) atts])
           (atts @ [toAttemptResult ResponseObject (length atts + 1)
                      (attemptTimestamp w runNum (length reqs)) (attemptDurationMs w runNum (length reqs))
                      (promptTextOf (bm (length atts + 1) atts)) result])"
  using assms unfolding recordsCalls_def
  by (auto simp: nth_append less_Suc_eq)


lemma oneShotLoop_rule:
  assumes init: "I attempt st"
    and throws: "\<And>attempt st e. I attempt st \<Longrightarrow> attempt \<le> retries + 1 \<Longrightarrow>
          runAttempt (length (requests st)) (buildMessages attempt (RunState.attempts st)) = Inl e \<Longrightarrow>
          Q (st\<lparr> requests := requests st @ [buildMessages attempt (RunState.attempts st)],
                   thrown := Some e \<rparr>)"
    and succeeds: "\<And>attempt st result. I attempt st \<Longrightarrow> attempt \<le> retries + 1 \<Longrightarrow>
          runAttempt (length (requests st)) (buildMessages attempt (RunState.attempts st)) = Inr result \<Longrightarrow>
          AttemptOutcome.success result \<Longrightarrow>
          Q (st\<lparr> requests := requests st @ [buildMessages attempt (RunState.attempts st)],
                   RunState.attempts := RunState.attempts st @
                     [toAttemptResult ResponseObject attempt
                        (attemptTimestamp w runNum (length (requests st)))
                        (attemptDurationMs w runNum (length (requests st)))
                        (promptTextOf (buildMessages attempt (RunState.attempts st))) result],
                   RunState.success := True,
                   RunState.finalResponse := map_option ResponseObject (data result) \<rparr>)"
    and fails: "\<And>attempt st result. I attempt st \<Longrightarrow> attempt \<le> retries + 1 \<Longrightarrow>
          runAttempt (length (requests st)) (buildMessages attempt (RunState.attempts st)) = Inr result \<Longrightarrow>
          \<not> AttemptOutcome.success result \<Longrightarrow>
          I (attempt + 1)
            (st\<lparr> requests := requests st @ [buildMessages attempt (RunState.attempts st)],
                   RunState.attempts := RunState.attempts st @
                     [toAttemptResult ResponseObject attempt
                        (attemptTimestamp w runNum (length (requests st)))
                        (attemptDurationMs w runNum (length (requests st)))
                        (promptTextOf (buildMessages attempt (RunState.attempts st))) result] \<rparr>)"
    and exhausted: "\<And>attempt st. I attempt st \<Longrightarrow> \<not> attempt \<le> retries + 1 \<Longrightarrow> Q st"
  shows "Q (oneShotLoop w runNum buildMessages runAttempt retries attempt st)"
  using init
proof (induction "retries + 2 - attempt" arbitrary: attempt st)
  case 0
  then have "\<not> attempt \<le> retries + 1" by simp
  with exhausted[OF "0.prems"] show ?case
    by (subst oneShotLoop.simps) simp
next
  case (Suc n)
  show ?case
  proof (cases "attempt \<le> retries + 1")
    case False
    with exhausted[OF Suc.prems] show ?thesis
      by (subst oneShotLoop.simps) simp
  next
    case le: True
    show ?thesis
    proof (cases "runAttempt (length (requests st)) (buildMessages attempt (RunState.attempts st))")
      case (Inl e)
      with throws[OF Suc.prems le Inl] le show ?thesis
        by (subst oneShotLoop.simps) (simp add: Let_def)
    next
      case (Inr result)
      show ?thesis
      proof (cases "AttemptOutcome.success result")
        case True
        with succeeds[OF Suc.prems le Inr True] le Inr show ?thesis
          by (subst oneShotLoop.simps) (simp add: Let_def)
      next
        case False
        have n: "n = retries + 2 - (attempt + 1)"
          using Suc.hyps(2) by simp
        from Suc.hyps(1)[OF n fails[OF Suc.prems le Inr False]] le Inr False
        show ?thesis
          by (subst oneShotLoop.simps) (simp add: Let_def)
      qed
    qed
  qed
qed


lemma oneShotInv_initial: "oneShotInv w runNum bm ra retries 1 initialRunState"
  by (simp add: oneShotInv_def initialRunState_def recordsCalls_Nil)

lemma oneShotLoop_post:
  "oneShotPost w runNum bm ra retries (oneShotLoop w runNum bm ra retries 1 initialRunState)"
proof (rule oneShotLoop_rule[where I = "oneShotInv w runNum bm ra retries"])
  show "oneShotInv w runNum bm ra retries 1 initialRunState"
    by (rule oneShotInv_initial)
next
  fix attempt st e
  assume "oneShotInv w runNum bm ra retries attempt st" "attempt \<le> retries + 1"
    "ra (length (requests st)) (bm attempt (RunState.attempts st)) = Inl e"
  then show "oneShotPost w runNum bm ra retries
       (st\<lparr>requests := requests st @ [bm attempt (RunState.attempts st)], thrown := Some e\<rparr>)"
    using recordsCalls_throw[of w runNum bm ra "requests st" "RunState.attempts st"]
    by (auto simp: oneShotInv_def oneShotPost_def dest: in_set_butlastD)
next
  fix attempt st result
  assume "oneShotInv w runNum bm ra retries attempt st" "attempt \<le> retries + 1"
    "ra (length (requests st)) (bm attempt (RunState.attempts st)) = Inr result"
    "AttemptOutcome.success result"
  then show "oneShotPost w runNum bm ra retries
        (st\<lparr>requests := requests st @ [bm attempt (RunState.attempts st)],
              RunState.attempts := RunState.attempts st @
                [toAttemptResult ResponseObject attempt (attemptTimestamp w runNum (length (requests st)))
                  (attemptDurationMs w runNum (length (requests st)))
                  (promptTextOf (bm attempt (RunState.attempts st))) result],
              RunState.success := True, RunState.finalResponse := map_option ResponseObject (data result)\<rparr>)"
    using recordsCalls_snoc[of w runNum bm ra "requests st" "RunState.attempts st" result]
    by (auto simp: oneShotInv_def oneShotPost_def)
next
  fix attempt st result
  assume "oneShotInv w runNum bm ra retries attempt st" "attempt \<le> retries + 1"
    "ra (length (requests st)) (bm attempt (RunState.attempts st)) = Inr result"
    "\<not> AttemptOutcome.success result"
  then show "oneShotInv w runNum bm ra retries (attempt + 1)
        (st\<lparr>requests := requests st @ [bm attempt (RunState.attempts st)],
              RunState.attempts := RunState.attempts st @
                [toAttemptResult ResponseObject attempt (attemptTimestamp w runNum (length (requests st)))
                  (attemptDurationMs w runNum (length (requests st)))
                  (promptTextOf (bm attempt (RunState.attempts st))) result]\<rparr>)"
    using recordsCalls_snoc[of w runNum bm ra "requests st" "RunState.attempts st" result]
    by (auto simp: oneShotInv_def)
next
  fix attempt st
  assume inv: "oneShotInv w runNum bm ra retries attempt st" and gt: "\<not> attempt \<le> retries + 1"
  then have "RunState.attempts st \<noteq> []"
    by (auto simp: oneShotInv_def)
  then have "last (RunState.attempts st) \<in> set (RunState.attempts st)"
    by simp
  with inv gt show "oneShotPost w runNum bm ra retries st"
    by (auto simp: oneShotInv_def oneShotPost_def dest: in_set_butlastD)
qed

lemma toAttemptResult_parsed [simp]:
  "parsedResponse (toAttemptResult f n ts d p r) =
     (if AttemptOutcome.success r then map_option f (data r) else None)"
  by (simp add: toAttemptResult_def)

lemma stepTrace_Nil: "stepTrace w runNum asRecord ra rc n0 m0 [] []"
  by (simp add: stepTrace_def)

lemma stepTrace_throw:
  assumes "stepTrace w runNum asRecord ra rc n0 m0 reqs atts" "length reqs = length atts"
  shows "stepTrace w runNum asRecord ra rc n0 m0 (reqs @ [nextMessages rc m0 reqs atts]) atts"
  using assms unfolding stepTrace_def
  by (auto simp: nth_append less_Suc_eq)

lemma stepTrace_snoc:
  assumes "stepTrace w runNum asRecord ra rc n0 m0 reqs atts" "length reqs = length atts"
    and "ra (n0 + length reqs) (nextMessages rc m0 reqs atts) = Inr result"
  shows "stepTrace w runNum asRecord ra rc n0 m0 (reqs @ [nextMessages rc m0 reqs atts])
           (atts @ [toAttemptResult asRecord (length atts + 1)
                      (attemptTimestamp w runNum (n0 + length reqs))
                      (attemptDurationMs w runNum (n0 + length reqs))
                      (promptTextOf (nextMessages rc m0 reqs atts)) result])"
  using assms unfolding stepTrace_def
  by (auto simp: nth_append less_Suc_eq)

lemma nextMessages_snoc:
  "nextMessages rc m0 (reqs @ [m]) (atts @ [a]) =
     (if rc then m @ retryContext (rawResponse a) (validationErrors a) else m)"
  by (simp add: nextMessages_def)


lemma sequentialStep_rule:
  assumes init: "I attempt msgs st"
    and throws: "\<And>attempt msgs st e. I attempt msgs st \<Longrightarrow> attempt \<le> retries + 1 \<Longrightarrow>
          runAttempt (length (requests st)) msgs = Inl e \<Longrightarrow>
          Q (st\<lparr> requests := requests st @ [msgs], thrown := Some e \<rparr>, None)"
    and succeeds: "\<And>attempt msgs st result. I attempt msgs st \<Longrightarrow> attempt \<le> retries + 1 \<Longrightarrow>
          runAttempt (length (requests st)) msgs = Inr result \<Longrightarrow>
          AttemptOutcome.success result \<Longrightarrow>
          Q (st\<lparr> requests := requests st @ [msgs],
                   RunState.attempts := RunState.attempts st @
                     [toAttemptResult asRecord attempt
                        (attemptTimestamp w runNum (length (requests st)))
                        (attemptDurationMs w runNum (length (requests st)))
                        (promptTextOf msgs) result] \<rparr>, data result)"
    and fails: "\<And>attempt msgs st result. I attempt msgs st \<Longrightarrow> attempt \<le> retries + 1 \<Longrightarrow>
          runAttempt (length (requests st)) msgs = Inr result \<Longrightarrow>
          \<not> AttemptOutcome.success result \<Longrightarrow>
          I (attempt + 1)
            (if withRetryContext
             then msgs @ retryContext (raw result) (case errors result of None \<Rightarrow> [] | Some es \<Rightarrow> es)
             else msgs)
            (st\<lparr> requests := requests st @ [msgs],
                   RunState.attempts := RunState.attempts st @
                     [toAttemptResult asRecord attempt
                        (attemptTimestamp w runNum (length (requests st)))
                        (attemptDurationMs w runNum (length (requests st)))
                        (promptTextOf msgs) result] \<rparr>)"
    and exhausted: "\<And>attempt msgs st. I attempt msgs st \<Longrightarrow> \<not> attempt \<le> retries + 1 \<Longrightarrow> Q (st, None)"
  shows "Q (sequentialStep w runNum asRecord runAttempt withRetryContext retries attempt msgs st)"
  using init
proof (induction "retries + 2 - attempt" arbitrary: attempt msgs st)
  case 0
  then have "\<not> attempt \<le> retries + 1" by simp
  with exhausted[OF "0.prems"] show ?case
    by (subst sequentialStep.simps) simp
next
  case (Suc n)
  show ?case
  proof (cases "attempt \<le> retries + 1")
    case False
    with exhausted[OF Suc.prems] show ?thesis
      by (subst sequentialStep.simps) simp
  next
    case le: True
    show ?thesis
    proof (cases "runAttempt (length (requests st)) msgs")
      case (Inl e)
      with throws[OF Suc.prems le Inl] le show ?thesis
        by (subst sequentialStep.simps) (simp add: Let_def)
    next
      case (Inr result)
      show ?thesis
      proof (cases "AttemptOutcome.success result")
        case True
        with succeeds[OF Suc.prems le Inr True] le Inr show ?thesis
          by (subst sequentialStep.simps) (simp add: Let_def)
      next
        case False
        have n: "n = retries + 2 - (attempt + 1)"
          using Suc.hyps(2) by simp
        from Suc.hyps(1)[OF n fails[OF Suc.prems le Inr False]] le Inr False
        show ?thesis
          by (subst sequentialStep.simps) (simp add: Let_def)
      qed
    qed
  qed
qed


lemma sequentialStep_post:
  assumes "thrown st0 = None"
  shows "stepPost w runNum asRecord ra rc retries st0 m0
           (sequentialStep w runNum asRecord ra rc retries 1 m0 st0)"
proof (rule sequentialStep_rule[where I = "stepInv w runNum asRecord ra rc retries st0 m0"])
  show "stepInv w runNum asRecord ra rc retries st0 m0 1 m0 st0"
    using assms by (simp add: stepInv_def stepTrace_Nil nextMessages_def)
next
  fix attempt msgs st e
  assume inv: "stepInv w runNum asRecord ra rc retries st0 m0 attempt msgs st"
    and le: "attempt \<le> retries + 1"
    and call: "ra (length (requests st)) msgs = Inl e"
  from inv obtain reqs atts where
    sh: "requests st = requests st0 @ reqs" "RunState.attempts st = RunState.attempts st0 @ atts"
      "RunState.success st = RunState.success st0"
      "RunState.finalResponse st = RunState.finalResponse st0"
    and f: "thrown st = None" "length reqs = length atts" "attempt = length atts + 1"
      "\<forall>a \<in> set atts. \<not> AttemptResult.success a"
    and tr: "stepTrace w runNum asRecord ra rc (length (requests st0)) m0 reqs atts"
    and m: "msgs = nextMessages rc m0 reqs atts"
    unfolding stepInv_def by blast
  show "stepPost w runNum asRecord ra rc retries st0 m0
          (st\<lparr>requests := requests st @ [msgs], thrown := Some e\<rparr>, None)"
    unfolding stepPost_def prod.case
    apply (rule exI[of _ "reqs @ [msgs]"], rule exI[of _ atts])
    using sh f le call stepTrace_throw[OF tr f(2)] m
    by (auto dest: in_set_butlastD)
next
  fix attempt msgs st result
  assume inv: "stepInv w runNum asRecord ra rc retries st0 m0 attempt msgs st"
    and le: "attempt \<le> retries + 1"
    and call: "ra (length (requests st)) msgs = Inr result"
    and ok: "AttemptOutcome.success result"
  from inv obtain reqs atts where
    sh: "requests st = requests st0 @ reqs" "RunState.attempts st = RunState.attempts st0 @ atts"
      "RunState.success st = RunState.success st0"
      "RunState.finalResponse st = RunState.finalResponse st0"
    and f: "thrown st = None" "length reqs = length atts" "attempt = length atts + 1"
      "\<forall>a \<in> set atts. \<not> AttemptResult.success a"
    and tr: "stepTrace w runNum asRecord ra rc (length (requests st0)) m0 reqs atts"
    and m: "msgs = nextMessages rc m0 reqs atts"
    unfolding stepInv_def by blast
  from call sh m have call': "ra (length (requests st0) + length reqs) (nextMessages rc m0 reqs atts) = Inr result"
    by simp
  show "stepPost w runNum asRecord ra rc retries st0 m0
          (st\<lparr>requests := requests st @ [msgs],
                RunState.attempts := RunState.attempts st @
                  [toAttemptResult asRecord attempt (attemptTimestamp w runNum (length (requests st)))
                     (attemptDurationMs w runNum (length (requests st))) (promptTextOf msgs) result]\<rparr>,
           data result)"
    unfolding stepPost_def prod.case
    apply (rule exI[of _ "reqs @ [msgs]"])
    apply (rule exI[of _ "atts @ [toAttemptResult asRecord attempt (attemptTimestamp w runNum (length (requests st)))
                     (attemptDurationMs w runNum (length (requests st))) (promptTextOf msgs) result]"])
    using sh f le ok stepTrace_snoc[OF tr f(2) call'] m
    by auto
next
  fix attempt msgs st result
  assume inv: "stepInv w runNum asRecord ra rc retries st0 m0 attempt msgs st"
    and le: "attempt \<le> retries + 1"
    and call: "ra (length (requests st)) msgs = Inr result"
    and ok: "\<not> AttemptOutcome.success result"
  from inv obtain reqs atts where
    sh: "requests st = requests st0 @ reqs" "RunState.attempts st = RunState.attempts st0 @ atts"
      "RunState.success st = RunState.success st0"
      "RunState.finalResponse st = RunState.finalResponse st0"
    and f: "thrown st = None" "length reqs = length atts" "attempt = length atts + 1"
      "\<forall>a \<in> set atts. \<not> AttemptResult.success a"
    and tr: "stepTrace w runNum asRecord ra rc (length (requests st0)) m0 reqs atts"
    and m: "msgs = nextMessages rc m0 reqs atts"
    unfolding stepInv_def by blast
  from call sh m have call': "ra (length (requests st0) + length reqs) (nextMessages rc m0 reqs atts) = Inr result"
    by simp
  show "stepInv w runNum asRecord ra rc retries st0 m0 (attempt + 1)
          (if rc then msgs @ retryContext (raw result) (case errors result of None \<Rightarrow> [] | Some es \<Rightarrow> es)
           else msgs)
          (st\<lparr>requests := requests st @ [msgs],
                RunState.attempts := RunState.attempts st @
                  [toAttemptResult asRecord attempt (attemptTimestamp w runNum (length (requests st)))
                     (attemptDurationMs w runNum (length (requests st))) (promptTextOf msgs) result]\<rparr>)"
    unfolding stepInv_def
    apply (rule exI[of _ "reqs @ [msgs]"])
    apply (rule exI[of _ "atts @ [toAttemptResult asRecord attempt (attemptTimestamp w runNum (length (requests st)))
                     (attemptDurationMs w runNum (length (requests st))) (promptTextOf msgs) result]"])
    using sh f le ok stepTrace_snoc[OF tr f(2) call'] m
    by (auto simp: nextMessages_snoc)
next
  fix attempt msgs st
  assume inv: "stepInv w runNum asRecord ra rc retries st0 m0 attempt msgs st"
    and gt: "\<not> attempt \<le> retries + 1"
  from inv obtain reqs atts where
    sh: "requests st = requests st0 @ reqs" "RunState.attempts st = RunState.attempts st0 @ atts"
      "RunState.success st = RunState.success st0"
      "RunState.finalResponse st = RunState.finalResponse st0"
    and f: "thrown st = None" "length reqs = length atts" "attempt = length atts + 1"
      "attempt \<le> retries + 2"
      "\<forall>a \<in> set atts. \<not> AttemptResult.success a"
    and tr: "stepTrace w runNum asRecord ra rc (length (requests st0)) m0 reqs atts"
    unfolding stepInv_def by blast
  from f gt have ne: "atts \<noteq> []" by auto
  then have "last atts \<in> set atts" by simp
  with f have nl: "\<not> AttemptResult.success (last atts)" by blast
  show "stepPost w runNum asRecord ra rc retries st0 m0 (st, None)"
    unfolding stepPost_def prod.case
    apply (rule exI[of _ reqs], rule exI[of _ atts])
    using sh f gt tr ne nl
    by (auto dest: in_set_butlastD)
qed

section \<open>The loop over runs\<close>

lemma runsLoop_Inr:
  "runsLoop w body count runNum acc = Inr runs \<Longrightarrow>
     runs = acc @ map (\<lambda>j. toRunResult w j (body j)) [runNum..<Suc count] \<and>
     (\<forall>j. runNum \<le> j \<and> j \<le> count \<longrightarrow> thrown (body j) = None)"
proof (induction "count + 1 - runNum" arbitrary: runNum acc)
  case 0
  then have gt: "\<not> runNum \<le> count" by simp
  with "0.prems" have "runs = acc"
    by (simp add: runsLoop.simps)
  with gt show ?case by auto
next
  case (Suc n)
  from Suc.hyps(2) have le: "runNum \<le> count" by simp
  from Suc.prems le have t: "thrown (body runNum) = None"
    and rest: "runsLoop w body count (runNum + 1) (acc @ [toRunResult w runNum (body runNum)]) = Inr runs"
    by (subst (asm) runsLoop.simps, simp add: Let_def split: option.splits)+
  have n: "n = count + 1 - (runNum + 1)" using Suc.hyps(2) by simp
  from Suc.hyps(1)[OF n rest] t le show ?case
    by (auto simp: upt_conv_Cons simp del: upt_Suc) (metis Suc_leI le_neq_implies_less)
qed

lemma runsLoop_total:
  "(\<And>j. thrown (body j) = None) \<Longrightarrow>
     runsLoop w body count runNum acc
       = Inr (acc @ map (\<lambda>j. toRunResult w j (body j)) [runNum..<Suc count])"
proof (induction "count + 1 - runNum" arbitrary: runNum acc)
  case 0
  then show ?case
    by (subst runsLoop.simps) auto
next
  case (Suc n)
  from Suc.hyps(2) have le: "runNum \<le> count" by simp
  have n: "n = count + 1 - (runNum + 1)" using Suc.hyps(2) by simp
  from Suc.hyps(1)[OF n Suc.prems] le Suc.prems show ?case
    by (subst runsLoop.simps) (simp add: Let_def upt_conv_Cons del: upt_Suc)
qed

section \<open>Requests of the retry attempts\<close>

lemma last_take_nth: "0 < j \<Longrightarrow> j \<le> length xs \<Longrightarrow> last (take j xs) = xs ! (j - 1)"
proof -
  assume a: "0 < j" "j \<le> length xs"
  then have "take j xs \<noteq> []" by auto
  then have "last (take j xs) = take j xs ! (length (take j xs) - 1)"
    by (rule last_conv_nth)
  with a show ?thesis by (simp add: min_absorb2)
qed

lemma scenario1Messages_retry:
  assumes "0 < j" "j \<le> length atts"
  shows "scenario1Messages ps (j + 1) (take j atts) =
           scenario1Base ps @
           retryContext (rawResponse (atts ! (j - 1))) (validationErrors (atts ! (j - 1)))"
  using assms by (simp add: scenario1Messages_def Let_def min_absorb2)

lemma runScenario1_run_post:
  "oneShotPost w runNum (scenario1Messages ps)
     (\<lambda>i messages. runNonStrictAttempt (generateText w runNum i) (trim w) (parse_Response w) messages)
     (maxRetries config) (runScenario1_run w ps config runNum)"
  unfolding runScenario1_run_def by (rule oneShotLoop_post)

lemma runScenario2_run_post:
  "oneShotPost w runNum (scenario2Messages ps)
     (\<lambda>i messages. Inr (runStrictAttempt (generateObject_Response w runNum i)
                             (stringify2_Response w) (zodMessage w) messages))
     (maxRetries config) (runScenario2_run w ps config runNum)"
  unfolding runScenario2_run_def by (rule oneShotLoop_post)

lemma oneShotPost_lengths:
  assumes "oneShotPost w runNum bm ra retries st"
  shows "length (requests st) \<le> length (RunState.attempts st) + 1"
    and "length (RunState.attempts st) \<le> length (requests st)"
  using assms by (auto simp: oneShotPost_def split: option.splits)

lemma oneShotPost_request:
  assumes "oneShotPost w runNum bm ra retries st" "j < length (requests st)"
  shows "requests st ! j = bm (j + 1) (take j (RunState.attempts st))"
  using assms by (auto simp: oneShotPost_def recordsCalls_def)

lemma scenario1_request:
  assumes "0 < j" "j < length (requests (runScenario1_run w ps config runNum))"
  shows "j - 1 < length (RunState.attempts (runScenario1_run w ps config runNum))"
    and "requests (runScenario1_run w ps config runNum) ! j =
           scenario1Base ps @
           retryContext (rawResponse (RunState.attempts (runScenario1_run w ps config runNum) ! (j - 1)))
             (validationErrors (RunState.attempts (runScenario1_run w ps config runNum) ! (j - 1)))"
proof -
  let ?st = "runScenario1_run w ps config runNum"
  note post = runScenario1_run_post[of w runNum ps config]
  from oneShotPost_lengths(1)[OF post] assms
  have le: "j \<le> length (RunState.attempts ?st)" by simp
  with assms show "j - 1 < length (RunState.attempts ?st)" by simp
  from oneShotPost_request[OF post assms(2)] scenario1Messages_retry[OF assms(1) le]
  show "requests ?st ! j = scenario1Base ps @
           retryContext (rawResponse (RunState.attempts ?st ! (j - 1)))
             (validationErrors (RunState.attempts ?st ! (j - 1)))"
    by simp
qed

lemma stepTrace_first:
  assumes "stepTrace w runNum f ra rc n0 m0 reqs atts" "reqs \<noteq> []"
  shows "reqs ! 0 = m0"
  using assms by (auto simp: stepTrace_def nextMessages_def)

lemma stepTrace_retry:
  assumes "stepTrace w runNum f ra True n0 m0 reqs atts" "0 < j" "j < length reqs" "j \<le> length atts"
  shows "reqs ! j = reqs ! (j - 1) @
           retryContext (rawResponse (atts ! (j - 1))) (validationErrors (atts ! (j - 1)))"
proof -
  from assms have "reqs ! j = nextMessages True m0 (take j reqs) (take j atts)"
    by (simp add: stepTrace_def)
  moreover from assms have "take j reqs \<noteq> []" by auto
  ultimately show ?thesis
    using assms by (simp add: nextMessages_def last_take_nth)
qed

lemma stepTrace_same:
  assumes "stepTrace w runNum f ra False n0 m0 reqs atts" "j < length reqs"
  shows "reqs ! j = m0"
  using assms(2)
proof (induction j)
  case 0
  with assms(1) show ?case by (auto simp: stepTrace_def nextMessages_def)
next
  case (Suc j)
  from assms(1) Suc.prems have "reqs ! Suc j = nextMessages False m0 (take (Suc j) reqs) (take (Suc j) atts)"
    by (simp add: stepTrace_def)
  also from Suc.prems have "\<dots> = reqs ! j"
    by (auto simp: nextMessages_def last_take_nth)
  finally show ?case using Suc by simp
qed



lemma nonStrictStep_post:
  "thrown st0 = None \<Longrightarrow>
     stepPost w runNum f
       (\<lambda>i messages. runNonStrictAttempt (generateText w runNum i) (trim w) parse messages)
       True retries st0 m0 (nonStrictStep w runNum f parse retries m0 st0)"
  unfolding nonStrictStep_def by (rule sequentialStep_post)

lemma strictStep_post:
  "thrown st0 = None \<Longrightarrow>
     stepPost w runNum f
       (\<lambda>i messages. Inr (runStrictAttempt (gen runNum i) str (zodMessage w) messages))
       False retries st0 m0 (strictStep w runNum f gen str retries m0 st0)"
  unfolding strictStep_def by (rule sequentialStep_post)

lemma stepTrace_retry_Suc:
  assumes "stepTrace w runNum f ra True n0 m0 reqs atts" "Suc j < length reqs" "j < length atts"
  shows "reqs ! Suc j = reqs ! j @
           retryContext (rawResponse (atts ! j)) (validationErrors (atts ! j))"
  using stepTrace_retry[OF assms(1), of "Suc j"] assms(2,3) by simp

lemma stepPost_retry_request:
  assumes post: "stepPost w runNum f ra True retries st0 m0 out"
    and j: "length (requests st0) + Suc j < length (requests (fst out))"
  shows "length (RunState.attempts st0) + j < length (RunState.attempts (fst out)) \<and>
         requests (fst out) ! (length (requests st0) + Suc j) =
           requests (fst out) ! (length (requests st0) + j) @
           retryContext (rawResponse (RunState.attempts (fst out) ! (length (RunState.attempts st0) + j)))
             (validationErrors (RunState.attempts (fst out) ! (length (RunState.attempts st0) + j)))"
proof -
  obtain st result where out: "out = (st, result)" by (cases out)
  from post out obtain reqs atts where
    sh: "requests st = requests st0 @ reqs" "RunState.attempts st = RunState.attempts st0 @ atts"
    and tr: "stepTrace w runNum f ra True (length (requests st0)) m0 reqs atts"
    and len: "length reqs \<le> length atts + 1"
    unfolding stepPost_def by (auto split: option.splits)
  from j sh out have jl: "Suc j < length reqs" by simp
  with len have ja: "j < length atts" by simp
  from stepTrace_retry_Suc[OF tr jl ja] sh out jl ja show ?thesis
    by (simp add: nth_append)
qed

lemma stepPost_same_request:
  assumes post: "stepPost w runNum f ra False retries st0 m0 out"
    and j: "length (requests st0) + j < length (requests (fst out))"
  shows "requests (fst out) ! (length (requests st0) + j) = m0"
proof -
  obtain st result where out: "out = (st, result)" by (cases out)
  from post out obtain reqs atts where
    sh: "requests st = requests st0 @ reqs"
    and tr: "stepTrace w runNum f ra False (length (requests st0)) m0 reqs atts"
    unfolding stepPost_def by (auto split: option.splits)
  from j sh out have jl: "j < length reqs" by simp
  from stepTrace_same[OF tr jl] sh out show ?thesis
    by (simp add: nth_append)
qed

text \<open>
  Claim C10. In scenario 1 the message list of every retry attempt \<open>k > 1\<close> is the three
  base messages (system prompt, conversation, one-shot prompt) followed by one assistant turn
  holding the raw response of attempt \<open>k - 1\<close> and one user turn holding the retry prompt
  built from the raw response and the validation errors of attempt \<open>k - 1\<close>; nothing of
  earlier attempts is in it. In a step of scenario 3 the message list of attempt \<open>k > 1\<close> is
  the message list of attempt \<open>k - 1\<close> of that step extended by the same two turns, so the
  context accumulates. Requests and attempts are counted from 0 in the lists; \<open>st0\<close> is the
  state in which the step starts.
\<close>

theorem retry_context_not_accumulated:
  fixes w :: World and parse :: "string \<Rightarrow> 'a ParseReply"
  defines "run1 \<equiv> \<lambda>ps config runNum. runScenario1_run w ps config runNum"
    and "step3 \<equiv> \<lambda>runNum asRecord retries m0 st0.
                     fst (nonStrictStep w runNum asRecord parse retries m0 st0)"
  shows
  "scenario1Base ps =
     [\<lparr> role = system, content = systemPrompt ps \<rparr>,
      \<lparr> role = user,
        content = ''Here is a conversation between team members:\<newline>\<newline>'' @ conversationText ps \<rparr>,
      \<lparr> role = user, content = oneShotPrompt ps \<rparr>]
   \<and>
   (1 < k \<and> k \<le> length (requests (run1 ps config runNum)) \<longrightarrow>
      k - 2 < length (RunState.attempts (run1 ps config runNum)) \<and>
      requests (run1 ps config runNum) ! (k - 1) =
        scenario1Base ps @
        [\<lparr> role = assistant,
           content = rawResponse (RunState.attempts (run1 ps config runNum) ! (k - 2)) \<rparr>,
         \<lparr> role = user,
           content = getRetryPrompt
                       (rawResponse (RunState.attempts (run1 ps config runNum) ! (k - 2)))
                       (validationErrors (RunState.attempts (run1 ps config runNum) ! (k - 2))) \<rparr>])
   \<and>
   (thrown st0 = None \<and> 1 < k \<and>
    length (requests st0) + k \<le> length (requests (step3 runNum asRecord retries m0 st0)) \<longrightarrow>
      length (RunState.attempts st0) + k - 2
        < length (RunState.attempts (step3 runNum asRecord retries m0 st0)) \<and>
      requests (step3 runNum asRecord retries m0 st0) ! (length (requests st0) + k - 1) =
        requests (step3 runNum asRecord retries m0 st0) ! (length (requests st0) + k - 2) @
        [\<lparr> role = assistant,
           content = rawResponse (RunState.attempts (step3 runNum asRecord retries m0 st0)
                                    ! (length (RunState.attempts st0) + k - 2)) \<rparr>,
         \<lparr> role = user,
           content = getRetryPrompt
                       (rawResponse (RunState.attempts (step3 runNum asRecord retries m0 st0)
                                       ! (length (RunState.attempts st0) + k - 2)))
                       (validationErrors (RunState.attempts (step3 runNum asRecord retries m0 st0)
                                            ! (length (RunState.attempts st0) + k - 2))) \<rparr>])"
proof (intro conjI impI)
  show "scenario1Base ps =
     [\<lparr> role = system, content = systemPrompt ps \<rparr>,
      \<lparr> role = user,
        content = ''Here is a conversation between team members:\<newline>\<newline>'' @ conversationText ps \<rparr>,
      \<lparr> role = user, content = oneShotPrompt ps \<rparr>]"
    by (simp add: scenario1Base_def)
next
  assume k: "1 < k \<and> k \<le> length (requests (run1 ps config runNum))"
  then obtain j where kj: "k = Suc (Suc j)"
    by (cases k; cases "k - 1") auto
  with k have j: "0 < Suc j" "Suc j < length (requests (runScenario1_run w ps config runNum))"
    by (simp_all add: run1_def)
  from scenario1_request(1)[OF j]
  show "k - 2 < length (RunState.attempts (run1 ps config runNum))"
    by (simp add: run1_def kj)
  from scenario1_request(2)[OF j]
  show "requests (run1 ps config runNum) ! (k - 1) =
        scenario1Base ps @
        [\<lparr> role = assistant,
           content = rawResponse (RunState.attempts (run1 ps config runNum) ! (k - 2)) \<rparr>,
         \<lparr> role = user,
           content = getRetryPrompt
                       (rawResponse (RunState.attempts (run1 ps config runNum) ! (k - 2)))
                       (validationErrors (RunState.attempts (run1 ps config runNum) ! (k - 2))) \<rparr>]"
    by (simp add: run1_def retryContext_def kj)
next
  assume a: "thrown st0 = None \<and> 1 < k \<and>
    length (requests st0) + k \<le> length (requests (step3 runNum asRecord retries m0 st0))"
  let ?out = "nonStrictStep w runNum asRecord parse retries m0 st0"
  from a obtain j where kj: "k = Suc (Suc j)"
    by (cases k; cases "k - 1") auto
  from a kj have t: "thrown st0 = None"
    and j: "length (requests st0) + Suc j < length (requests (fst ?out))"
    by (simp_all add: step3_def)
  note r = stepPost_retry_request[OF nonStrictStep_post[OF t] j]
  from r show "length (RunState.attempts st0) + k - 2
        < length (RunState.attempts (step3 runNum asRecord retries m0 st0))"
    by (simp add: step3_def kj)
  from r show "requests (step3 runNum asRecord retries m0 st0) ! (length (requests st0) + k - 1) =
        requests (step3 runNum asRecord retries m0 st0) ! (length (requests st0) + k - 2) @
        [\<lparr> role = assistant,
           content = rawResponse (RunState.attempts (step3 runNum asRecord retries m0 st0)
                                    ! (length (RunState.attempts st0) + k - 2)) \<rparr>,
         \<lparr> role = user,
           content = getRetryPrompt
                       (rawResponse (RunState.attempts (step3 runNum asRecord retries m0 st0)
                                       ! (length (RunState.attempts st0) + k - 2)))
                       (validationErrors (RunState.attempts (step3 runNum asRecord retries m0 st0)
                                            ! (length (RunState.attempts st0) + k - 2))) \<rparr>]"
    by (simp add: step3_def kj retryContext_def)
qed

lemmas eval_world = failingWorld_def zodWorld_def shortPrompts_def oneRun_def DEFAULT_CONFIG_def
  initialRunState_def runNonStrictAttempt_def runStrictAttempt_def Let_def toAttemptResult_def
  errorMessageOf_def parseZodErrors_def String_def

theorem retry_context_not_accumulated_witness:
  "1 < (3::nat) \<and>
   3 \<le> length (requests (runScenario1_run failingWorld shortPrompts oneRun 1)) \<and>
   requests (runScenario1_run failingWorld shortPrompts oneRun 1) ! (3 - 1) =
     scenario1Base shortPrompts @
     [\<lparr> role = assistant,
        content = rawResponse (RunState.attempts (runScenario1_run failingWorld shortPrompts oneRun 1) ! (3 - 2)) \<rparr>,
      \<lparr> role = user,
        content = getRetryPrompt
          (rawResponse (RunState.attempts (runScenario1_run failingWorld shortPrompts oneRun 1) ! (3 - 2)))
          (validationErrors (RunState.attempts (runScenario1_run failingWorld shortPrompts oneRun 1) ! (3 - 2))) \<rparr>] \<and>
   length (requests (runScenario1_run failingWorld shortPrompts oneRun 1) ! (3 - 1)) = 5 \<and>
   thrown initialRunState = None \<and>
   length (requests initialRunState) + 3
     \<le> length (requests (fst (nonStrictStep failingWorld 1 Part1Object (parse_Part1 failingWorld) 3
                                (step1Messages shortPrompts ''N1'') initialRunState))) \<and>
   length (requests (fst (nonStrictStep failingWorld 1 Part1Object (parse_Part1 failingWorld) 3
                            (step1Messages shortPrompts ''N1'') initialRunState))
             ! (length (requests initialRunState) + 3 - 1)) =
   length (requests (fst (nonStrictStep failingWorld 1 Part1Object (parse_Part1 failingWorld) 3
                            (step1Messages shortPrompts ''N1'') initialRunState))
             ! (length (requests initialRunState) + 3 - 2)) + 2"
proof -
  have h1: "1 < (3::nat) \<and> 3 \<le> length (requests (runScenario1_run failingWorld shortPrompts oneRun 1))"
    by (simp add: runScenario1_run_def oneShotLoop.simps eval_world)
  have h2: "thrown initialRunState = None \<and> 1 < (3::nat) \<and>
     length (requests initialRunState) + 3
     \<le> length (requests (fst (nonStrictStep failingWorld 1 Part1Object (parse_Part1 failingWorld) 3
                                (step1Messages shortPrompts ''N1'') initialRunState)))"
    by (simp add: nonStrictStep_def sequentialStep.simps eval_world)
  note inst = retry_context_not_accumulated[where w = failingWorld and ps = shortPrompts
      and config = oneRun and runNum = 1 and k = 3 and ?st0.0 = initialRunState
      and parse = "parse_Part1 failingWorld" and asRecord = Part1Object and retries = 3
      and ?m0.0 = "step1Messages shortPrompts ''N1''"]
  from inst h1 have a: "requests (runScenario1_run failingWorld shortPrompts oneRun 1) ! (3 - 1) =
     scenario1Base shortPrompts @
     [\<lparr> role = assistant,
        content = rawResponse (RunState.attempts (runScenario1_run failingWorld shortPrompts oneRun 1) ! (3 - 2)) \<rparr>,
      \<lparr> role = user,
        content = getRetryPrompt
          (rawResponse (RunState.attempts (runScenario1_run failingWorld shortPrompts oneRun 1) ! (3 - 2)))
          (validationErrors (RunState.attempts (runScenario1_run failingWorld shortPrompts oneRun 1) ! (3 - 2))) \<rparr>]"
    by blast
  from inst have base: "length (scenario1Base shortPrompts) = 3"
    by simp
  from a base have b: "length (requests (runScenario1_run failingWorld shortPrompts oneRun 1) ! (3 - 1)) = 5"
    by simp
  from inst h2 have c: "length (requests (fst (nonStrictStep failingWorld 1 Part1Object (parse_Part1 failingWorld) 3
                            (step1Messages shortPrompts ''N1'') initialRunState))
             ! (length (requests initialRunState) + 3 - 1)) =
   length (requests (fst (nonStrictStep failingWorld 1 Part1Object (parse_Part1 failingWorld) 3
                            (step1Messages shortPrompts ''N1'') initialRunState))
             ! (length (requests initialRunState) + 3 - 2)) + 2"
    by simp
  from h1 h2 a b c show ?thesis by blast
qed

section \<open>The corrective message\<close>

lemma sublist_join: "x \<in> set xs \<Longrightarrow> sublist x (join sep xs)"
proof (induction sep xs rule: join.induct)
  case (3 sep y z zs)
  show ?case
  proof (cases "x = y")
    case True
    have "join sep (y # z # zs) = [] @ y @ (sep @ join sep (z # zs))" by simp
    with True show ?thesis unfolding sublist_def by blast
  next
    case False
    with 3 have "sublist x (join sep (z # zs))" by simp
    then obtain ps ss where "join sep (z # zs) = ps @ x @ ss"
      unfolding sublist_def by blast
    then have "join sep (y # z # zs) = (y @ sep @ ps) @ x @ ss" by simp
    then show ?thesis unfolding sublist_def by blast
  qed
qed simp_all

lemma errorLine_contains:
  "sublist (errorPath e) (errorLine e)" "sublist (ValidationError.message e) (errorLine e)"
proof -
  have "errorLine e = (bullet @ '' '') @ errorPath e @ ('': '' @ ValidationError.message e)"
    by (simp add: errorLine_def)
  then show "sublist (errorPath e) (errorLine e)"
    unfolding sublist_def by blast
  have "errorLine e = (bullet @ '' '' @ errorPath e @ '': '') @ ValidationError.message e @ []"
    by (simp add: errorLine_def)
  then show "sublist (ValidationError.message e) (errorLine e)"
    unfolding sublist_def by blast
qed

lemma getRetryPrompt_shape:
  "\<exists>a b c. \<forall>prev errs. getRetryPrompt prev errs
      = a @ prev @ b @ join ''\<newline>'' (map errorLine errs) @ c"
  unfolding getRetryPrompt_def Let_def by blast

lemma getRetryPrompt_contains:
  shows "sublist prev (getRetryPrompt prev errs)"
    and "e \<in> set errs \<Longrightarrow> sublist (errorPath e) (getRetryPrompt prev errs)"
    and "e \<in> set errs \<Longrightarrow> sublist (ValidationError.message e) (getRetryPrompt prev errs)"
proof -
  from getRetryPrompt_shape obtain a b c where
    g: "getRetryPrompt prev errs = a @ prev @ b @ join ''\<newline>'' (map errorLine errs) @ c"
    by blast
  then show "sublist prev (getRetryPrompt prev errs)"
    unfolding sublist_def by blast
  from g have g': "getRetryPrompt prev errs = (a @ prev @ b) @ join ''\<newline>'' (map errorLine errs) @ c"
    by simp
  have lines: "sublist (join ''\<newline>'' (map errorLine errs)) (getRetryPrompt prev errs)"
    unfolding sublist_def using g' by blast
  {
    assume "e \<in> set errs"
    then have "sublist (errorLine e) (join ''\<newline>'' (map errorLine errs))"
      by (intro sublist_join) simp
    with lines have "sublist (errorLine e) (getRetryPrompt prev errs)"
      by (rule sublist_order.order.trans[rotated])
  }
  note line = this
  show "e \<in> set errs \<Longrightarrow> sublist (errorPath e) (getRetryPrompt prev errs)"
    using line errorLine_contains(1) by (blast intro: sublist_order.order.trans)
  show "e \<in> set errs \<Longrightarrow> sublist (ValidationError.message e) (getRetryPrompt prev errs)"
    using line errorLine_contains(2) by (blast intro: sublist_order.order.trans)
qed

lemma oneShotPost_first_failed:
  assumes "oneShotPost w runNum bm ra retries st" "1 < length (requests st)"
  shows "0 < length (RunState.attempts st)" "\<not> AttemptResult.success (RunState.attempts st ! 0)"
proof -
  from assms show pos: "0 < length (RunState.attempts st)"
    by (auto simp: oneShotPost_def split: option.splits)
  show "\<not> AttemptResult.success (RunState.attempts st ! 0)"
  proof (cases "thrown st")
    case None
    with assms have "1 < length (RunState.attempts st)"
      by (auto simp: oneShotPost_def)
    then have "RunState.attempts st ! 0 \<in> set (butlast (RunState.attempts st))"
      by (metis One_nat_def length_butlast nth_butlast nth_mem zero_less_diff)
    with assms show ?thesis by (auto simp: oneShotPost_def)
  next
    case (Some e)
    with assms pos show ?thesis by (auto simp: oneShotPost_def)
  qed
qed

lemma stepPost_first_failed:
  assumes post: "stepPost w runNum f ra rc retries st0 m0 out"
    and two: "length (requests st0) + 1 < length (requests (fst out))"
  shows "length (RunState.attempts st0) < length (RunState.attempts (fst out))"
    and "\<not> AttemptResult.success (RunState.attempts (fst out) ! length (RunState.attempts st0))"
proof -
  obtain st result where out: "out = (st, result)" by (cases out)
  from post out obtain reqs atts where
    sh: "requests st = requests st0 @ reqs" "RunState.attempts st = RunState.attempts st0 @ atts"
    and bl: "\<forall>a \<in> set (butlast atts). \<not> AttemptResult.success a"
    and th: "case thrown st of None \<Rightarrow> length reqs = length atts
              | Some e \<Rightarrow> length reqs = length atts + 1 \<and> (\<forall>a \<in> set atts. \<not> AttemptResult.success a)"
    unfolding stepPost_def by (auto split: option.splits)
  from two sh out have r: "1 < length reqs" by simp
  with th have pos: "0 < length atts" by (auto split: option.splits)
  with sh out show "length (RunState.attempts st0) < length (RunState.attempts (fst out))" by simp
  have "\<not> AttemptResult.success (atts ! 0)"
  proof (cases "thrown st")
    case None
    with th r have "1 < length atts" by simp
    then have "atts ! 0 \<in> set (butlast atts)"
      by (metis One_nat_def length_butlast nth_butlast nth_mem zero_less_diff)
    with bl show ?thesis by blast
  next
    case (Some e)
    with th pos show ?thesis by auto
  qed
  with sh out show "\<not> AttemptResult.success (RunState.attempts (fst out) ! length (RunState.attempts st0))"
    by (simp add: nth_append)
qed

lemma scenario2_request:
  assumes "j < length (requests (runScenario2_run w ps config runNum))"
  shows "requests (runScenario2_run w ps config runNum) ! j = scenario2Messages ps 1 []"
  using oneShotPost_request[OF runScenario2_run_post assms]
  by (simp add: scenario2Messages_def)

lemma retryContext_last:
  "last (ms @ retryContext prev errs) = \<lparr> role = user, content = getRetryPrompt prev errs \<rparr>"
  by (simp add: retryContext_def)

text \<open>
  Guided mode. For every run of scenario 1 and for every step of a scenario 3 run in which a
  second attempt is sent, the first attempt failed and the last message of the second attempt
  is a user turn that contains, as substrings, the full raw response of the first attempt
  and, for every validation error of the first attempt, its field path (joined by dots, or
  \<open>root\<close> when empty) and its message. Enforced mode. In scenarios 2 and 4 the second
  attempt is sent the message list of the first.
\<close>

theorem corrective_message_in_guided_mode:
  fixes w :: World and parse :: "string \<Rightarrow> 'a ParseReply"
    and gen :: "nat \<Rightarrow> nat \<Rightarrow> ChatMessage list \<Rightarrow> 'b ObjectReply"
  defines "st1 \<equiv> \<lambda>ps config runNum. runScenario1_run w ps config runNum"
    and "st2 \<equiv> \<lambda>ps config runNum. runScenario2_run w ps config runNum"
    and "st3 \<equiv> \<lambda>runNum asRecord retries m0 st0.
                   fst (nonStrictStep w runNum asRecord parse retries m0 st0)"
    and "st4 \<equiv> \<lambda>runNum asRecord str retries m0 st0.
                   fst (strictStep w runNum asRecord gen str retries m0 st0)"
  shows
  "(1 < length (requests (st1 ps config runNum)) \<longrightarrow>
      \<not> AttemptResult.success (RunState.attempts (st1 ps config runNum) ! 0) \<and>
      role (last (requests (st1 ps config runNum) ! 1)) = user \<and>
      sublist (rawResponse (RunState.attempts (st1 ps config runNum) ! 0))
              (content (last (requests (st1 ps config runNum) ! 1))) \<and>
      (\<forall>e \<in> set (validationErrors (RunState.attempts (st1 ps config runNum) ! 0)).
         sublist (errorPath e) (content (last (requests (st1 ps config runNum) ! 1))) \<and>
         sublist (ValidationError.message e)
                 (content (last (requests (st1 ps config runNum) ! 1)))))
   \<and>
   (thrown st0 = None \<and>
    length (requests st0) + 1 < length (requests (st3 runNum asRecord retries m0 st0)) \<longrightarrow>
      \<not> AttemptResult.success
          (RunState.attempts (st3 runNum asRecord retries m0 st0) ! length (RunState.attempts st0)) \<and>
      role (last (requests (st3 runNum asRecord retries m0 st0) ! (length (requests st0) + 1))) = user \<and>
      sublist (rawResponse (RunState.attempts (st3 runNum asRecord retries m0 st0)
                              ! length (RunState.attempts st0)))
              (content (last (requests (st3 runNum asRecord retries m0 st0)
                                ! (length (requests st0) + 1)))) \<and>
      (\<forall>e \<in> set (validationErrors (RunState.attempts (st3 runNum asRecord retries m0 st0)
                                       ! length (RunState.attempts st0))).
         sublist (errorPath e)
                 (content (last (requests (st3 runNum asRecord retries m0 st0)
                                   ! (length (requests st0) + 1)))) \<and>
         sublist (ValidationError.message e)
                 (content (last (requests (st3 runNum asRecord retries m0 st0)
                                   ! (length (requests st0) + 1))))))
   \<and>
   (1 < length (requests (st2 ps config runNum)) \<longrightarrow>
      requests (st2 ps config runNum) ! 1 = requests (st2 ps config runNum) ! 0)
   \<and>
   (thrown st0' = None \<and>
    length (requests st0') + 1 < length (requests (st4 runNum asRecord' str retries m0' st0')) \<longrightarrow>
      requests (st4 runNum asRecord' str retries m0' st0') ! (length (requests st0') + 1) =
      requests (st4 runNum asRecord' str retries m0' st0') ! length (requests st0'))"
proof (intro conjI impI)
  assume a: "1 < length (requests (st1 ps config runNum))"
  let ?st = "runScenario1_run w ps config runNum"
  from a have two: "1 < length (requests ?st)" by (simp add: st1_def)
  have j: "0 < (1::nat)" by simp
  from scenario1_request(2)[OF j two]
  have req: "requests ?st ! 1 = scenario1Base ps @
      retryContext (rawResponse (RunState.attempts ?st ! 0)) (validationErrors (RunState.attempts ?st ! 0))"
    by simp
  from oneShotPost_first_failed(2)[OF runScenario1_run_post two]
  show "\<not> AttemptResult.success (RunState.attempts (st1 ps config runNum) ! 0)"
    by (simp add: st1_def)
  show "role (last (requests (st1 ps config runNum) ! 1)) = user"
    unfolding st1_def req by (simp add: retryContext_last)
  show "sublist (rawResponse (RunState.attempts (st1 ps config runNum) ! 0))
              (content (last (requests (st1 ps config runNum) ! 1)))"
    unfolding st1_def req by (simp add: retryContext_last getRetryPrompt_contains(1))
  show "\<forall>e \<in> set (validationErrors (RunState.attempts (st1 ps config runNum) ! 0)).
         sublist (errorPath e) (content (last (requests (st1 ps config runNum) ! 1))) \<and>
         sublist (ValidationError.message e)
                 (content (last (requests (st1 ps config runNum) ! 1)))"
    unfolding st1_def req by (simp add: retryContext_last getRetryPrompt_contains(2,3))
next
  assume a: "thrown st0 = None \<and>
    length (requests st0) + 1 < length (requests (st3 runNum asRecord retries m0 st0))"
  let ?out = "nonStrictStep w runNum asRecord parse retries m0 st0"
  from a have t: "thrown st0 = None"
    and two: "length (requests st0) + 1 < length (requests (fst ?out))"
    and two': "length (requests st0) + Suc 0 < length (requests (fst ?out))"
    by (simp_all add: st3_def)
  note post = nonStrictStep_post[OF t, of w runNum asRecord parse retries m0]
  from stepPost_retry_request[OF post two']
  have req: "requests (fst ?out) ! (length (requests st0) + 1) =
      requests (fst ?out) ! length (requests st0) @
      retryContext (rawResponse (RunState.attempts (fst ?out) ! length (RunState.attempts st0)))
        (validationErrors (RunState.attempts (fst ?out) ! length (RunState.attempts st0)))"
    by simp
  from stepPost_first_failed(2)[OF post two]
  show "\<not> AttemptResult.success
          (RunState.attempts (st3 runNum asRecord retries m0 st0) ! length (RunState.attempts st0))"
    by (simp add: st3_def)
  show "role (last (requests (st3 runNum asRecord retries m0 st0) ! (length (requests st0) + 1))) = user"
    unfolding st3_def req by (simp add: retryContext_last)
  show "sublist (rawResponse (RunState.attempts (st3 runNum asRecord retries m0 st0)
                              ! length (RunState.attempts st0)))
              (content (last (requests (st3 runNum asRecord retries m0 st0)
                                ! (length (requests st0) + 1))))"
    unfolding st3_def req by (simp add: retryContext_last getRetryPrompt_contains(1))
  show "\<forall>e \<in> set (validationErrors (RunState.attempts (st3 runNum asRecord retries m0 st0)
                                       ! length (RunState.attempts st0))).
         sublist (errorPath e)
                 (content (last (requests (st3 runNum asRecord retries m0 st0)
                                   ! (length (requests st0) + 1)))) \<and>
         sublist (ValidationError.message e)
                 (content (last (requests (st3 runNum asRecord retries m0 st0)
                                   ! (length (requests st0) + 1))))"
    unfolding st3_def req by (simp add: retryContext_last getRetryPrompt_contains(2,3))
next
  assume a: "1 < length (requests (st2 ps config runNum))"
  then have "1 < length (requests (runScenario2_run w ps config runNum))"
    "0 < length (requests (runScenario2_run w ps config runNum))"
    by (auto simp: st2_def)
  from scenario2_request[OF this(1)] scenario2_request[OF this(2)]
  show "requests (st2 ps config runNum) ! 1 = requests (st2 ps config runNum) ! 0"
    by (simp add: st2_def)
next
  assume a: "thrown st0' = None \<and>
    length (requests st0') + 1 < length (requests (st4 runNum asRecord' str retries m0' st0'))"
  let ?out = "strictStep w runNum asRecord' gen str retries m0' st0'"
  from a have t: "thrown st0' = None"
    and two: "length (requests st0') + 1 < length (requests (fst ?out))"
    and one: "length (requests st0') + 0 < length (requests (fst ?out))"
    by (simp_all add: st4_def)
  note post = strictStep_post[OF t, of w runNum asRecord' gen str retries m0']
  from stepPost_same_request[OF post two] stepPost_same_request[OF post one]
  show "requests (st4 runNum asRecord' str retries m0' st0') ! (length (requests st0') + 1) =
      requests (st4 runNum asRecord' str retries m0' st0') ! length (requests st0')"
    by (simp add: st4_def)
qed

theorem corrective_message_in_guided_mode_witness:
  "1 < length (requests (runScenario1_run failingWorld shortPrompts oneRun 1)) \<and>
   \<lparr> ValidationError.path = [], ValidationError.message = ''Invalid JSON: Unexpected token'',
     ValidationError.code = ''invalid_json'' \<rparr>
     \<in> set (validationErrors (RunState.attempts (runScenario1_run failingWorld shortPrompts oneRun 1) ! 0)) \<and>
   sublist ''root''
     (content (last (requests (runScenario1_run failingWorld shortPrompts oneRun 1) ! 1))) \<and>
   sublist ''Invalid JSON: Unexpected token''
     (content (last (requests (runScenario1_run failingWorld shortPrompts oneRun 1) ! 1))) \<and>
   thrown initialRunState = None \<and>
   length (requests initialRunState) + 1
     < length (requests (fst (nonStrictStep failingWorld 1 Part1Object (parse_Part1 failingWorld) 3
                                (step1Messages shortPrompts ''N1'') initialRunState))) \<and>
   role (last (requests (fst (nonStrictStep failingWorld 1 Part1Object (parse_Part1 failingWorld) 3
                                (step1Messages shortPrompts ''N1'') initialRunState))
                 ! (length (requests initialRunState) + 1))) = user \<and>
   1 < length (requests (runScenario2_run failingWorld shortPrompts oneRun 1)) \<and>
   requests (runScenario2_run failingWorld shortPrompts oneRun 1) ! 1
     = requests (runScenario2_run failingWorld shortPrompts oneRun 1) ! 0 \<and>
   length (requests initialRunState) + 1
     < length (requests (fst (strictStep failingWorld 1 Part1Object (generateObject_Part1 failingWorld)
                                (stringify2_Part1 failingWorld) 3
                                (step1Messages shortPrompts ''T1'') initialRunState))) \<and>
   requests (fst (strictStep failingWorld 1 Part1Object (generateObject_Part1 failingWorld)
                    (stringify2_Part1 failingWorld) 3
                    (step1Messages shortPrompts ''T1'') initialRunState))
     ! (length (requests initialRunState) + 1)
   = requests (fst (strictStep failingWorld 1 Part1Object (generateObject_Part1 failingWorld)
                      (stringify2_Part1 failingWorld) 3
                      (step1Messages shortPrompts ''T1'') initialRunState))
     ! length (requests initialRunState)"
proof -
  have h1: "1 < length (requests (runScenario1_run failingWorld shortPrompts oneRun 1))"
    by (simp add: runScenario1_run_def oneShotLoop.simps eval_world)
  have e0: "validationErrors (RunState.attempts (runScenario1_run failingWorld shortPrompts oneRun 1) ! 0)
              = [\<lparr> ValidationError.path = [], ValidationError.message = ''Invalid JSON: Unexpected token'',
                   ValidationError.code = ''invalid_json'' \<rparr>]"
    by (simp add: runScenario1_run_def oneShotLoop.simps eval_world)
  have p0: "errorPath \<lparr> ValidationError.path = [], ValidationError.message = ''Invalid JSON: Unexpected token'',
                   ValidationError.code = ''invalid_json'' \<rparr> = ''root''"
    by (simp add: errorPath_def)
  have h2: "thrown initialRunState = None"
    by (simp add: initialRunState_def)
  have h3: "length (requests initialRunState) + 1
     < length (requests (fst (nonStrictStep failingWorld 1 Part1Object (parse_Part1 failingWorld) 3
                                (step1Messages shortPrompts ''N1'') initialRunState)))"
    by (simp add: nonStrictStep_def sequentialStep.simps eval_world)
  have h4: "1 < length (requests (runScenario2_run failingWorld shortPrompts oneRun 1))"
    by (simp add: runScenario2_run_def oneShotLoop.simps eval_world)
  have h5: "length (requests initialRunState) + 1
     < length (requests (fst (strictStep failingWorld 1 Part1Object (generateObject_Part1 failingWorld)
                                (stringify2_Part1 failingWorld) 3
                                (step1Messages shortPrompts ''T1'') initialRunState)))"
    by (simp add: strictStep_def sequentialStep.simps eval_world)
  note inst = corrective_message_in_guided_mode[where w = failingWorld and ps = shortPrompts
      and config = oneRun and runNum = 1 and ?st0.0 = initialRunState
      and parse = "parse_Part1 failingWorld" and asRecord = Part1Object and retries = 3
      and ?m0.0 = "step1Messages shortPrompts ''N1''"
      and gen = "generateObject_Part1 failingWorld" and asRecord' = Part1Object
      and str = "stringify2_Part1 failingWorld" and st0' = initialRunState
      and m0' = "step1Messages shortPrompts ''T1''"]
  from inst h1 h2 h3 h4 h5 e0 p0 show ?thesis
    by simp
qed

text \<open>
  Claim C6, evaluated at an input where it fails. The claim asks, for every run of every
  scenario in which attempt 1 fails, that the corrective message of attempt 2 contain the raw
  response of attempt 1 and the field path and message of each of its validation errors.
  Scenario 2, one run: the first call is rejected with the issue \<open>recommendation: Too
  small\<close>. Attempt 1 fails with that validation error, and attempt 2 is sent the message
  list of attempt 1 again: the three base messages, none of which contains the message of
  the error (nor, with these short prompts, its path).
\<close>

theorem strict_retry_without_corrective_message:
  "\<not> AttemptResult.success (RunState.attempts (runScenario2_run zodWorld shortPrompts oneRun 1) ! 0) \<and>
   validationErrors (RunState.attempts (runScenario2_run zodWorld shortPrompts oneRun 1) ! 0)
     = [\<lparr> ValidationError.path = [''recommendation''], ValidationError.message = ''Too small'',
          ValidationError.code = ''too_small'' \<rparr>] \<and>
   length (requests (runScenario2_run zodWorld shortPrompts oneRun 1)) = 4 \<and>
   requests (runScenario2_run zodWorld shortPrompts oneRun 1) ! 1
     = requests (runScenario2_run zodWorld shortPrompts oneRun 1) ! 0 \<and>
   map content (requests (runScenario2_run zodWorld shortPrompts oneRun 1) ! 1)
     = [''S'', ''Here is a conversation between team members:\<newline>\<newline>C'', ''P2''] \<and>
   \<not> sublist ''Too small'' ''S'' \<and>
   \<not> sublist ''Too small'' ''Here is a conversation between team members:\<newline>\<newline>C'' \<and>
   \<not> sublist ''Too small'' ''P2'' \<and>
   \<not> sublist ''recommendation'' ''S'' \<and>
   \<not> sublist ''recommendation'' ''Here is a conversation between team members:\<newline>\<newline>C'' \<and>
   \<not> sublist ''recommendation'' ''P2''"
proof -
  have run: "\<not> AttemptResult.success (RunState.attempts (runScenario2_run zodWorld shortPrompts oneRun 1) ! 0)"
    "validationErrors (RunState.attempts (runScenario2_run zodWorld shortPrompts oneRun 1) ! 0)
     = [\<lparr> ValidationError.path = [''recommendation''], ValidationError.message = ''Too small'',
          ValidationError.code = ''too_small'' \<rparr>]"
    "length (requests (runScenario2_run zodWorld shortPrompts oneRun 1)) = 4"
    "requests (runScenario2_run zodWorld shortPrompts oneRun 1) ! 1
     = requests (runScenario2_run zodWorld shortPrompts oneRun 1) ! 0"
    "map content (requests (runScenario2_run zodWorld shortPrompts oneRun 1) ! 1)
     = [''S'', ''Here is a conversation between team members:\<newline>\<newline>C'', ''P2'']"
    by (simp_all add: runScenario2_run_def oneShotLoop.simps eval_world scenario2Messages_def)
  have no: "\<not> sublist ''Too small'' ''S''"
    "\<not> sublist ''Too small'' ''Here is a conversation between team members:\<newline>\<newline>C''"
    "\<not> sublist ''Too small'' ''P2''"
    "\<not> sublist ''recommendation'' ''S''"
    "\<not> sublist ''recommendation'' ''Here is a conversation between team members:\<newline>\<newline>C''"
    "\<not> sublist ''recommendation'' ''P2''"
    by (simp_all add: sublist_Cons_right)
  from run no show ?thesis by blast
qed

section \<open>Three-stage runs\<close>

lemma stepPost_facts:
  assumes "stepPost w runNum f ra rc retries st0 m0 (st, res)"
  obtains reqs atts where
    "requests st = requests st0 @ reqs" "RunState.attempts st = RunState.attempts st0 @ atts"
    "RunState.success st = RunState.success st0"
    "RunState.finalResponse st = RunState.finalResponse st0"
    "reqs \<noteq> []" "reqs ! 0 = m0" "length atts \<le> retries + 1"
    "thrown st = None \<Longrightarrow> length reqs = length atts"
    "thrown st = None \<Longrightarrow> res \<noteq> None \<Longrightarrow> AttemptResult.success (last atts)"
    "thrown st \<noteq> None \<Longrightarrow> res = None"
proof -
  from assms obtain reqs atts where
    a: "requests st = requests st0 @ reqs" "RunState.attempts st = RunState.attempts st0 @ atts"
    "RunState.success st = RunState.success st0"
    "RunState.finalResponse st = RunState.finalResponse st0"
    "reqs \<noteq> []" "length atts \<le> retries + 1"
    and tr: "stepTrace w runNum f ra rc (length (requests st0)) m0 reqs atts"
    and th: "case thrown st of
           None \<Rightarrow>
             length reqs = length atts \<and>
             (res \<noteq> None \<longrightarrow> AttemptResult.success (last atts)) \<and>
             (AttemptResult.success (last atts) \<longrightarrow>
                parsedResponse (last atts) = map_option f res) \<and>
             (\<not> AttemptResult.success (last atts) \<longrightarrow>
                res = None \<and> length atts = retries + 1)
         | Some e \<Rightarrow>
             res = None \<and> length reqs = length atts + 1 \<and>
             (\<forall>a \<in> set atts. \<not> AttemptResult.success a) \<and>
             ra (length (requests st0) + length atts) (last reqs) = Inl e"
    unfolding stepPost_def by auto
  show ?thesis
  proof (rule that[of reqs atts])
    show "reqs ! 0 = m0" using stepTrace_first[OF tr a(5)] .
    show "thrown st = None \<Longrightarrow> length reqs = length atts" using th by simp
    show "thrown st = None \<Longrightarrow> res \<noteq> None \<Longrightarrow> AttemptResult.success (last atts)"
      using th by simp
    show "thrown st \<noteq> None \<Longrightarrow> res = None" using th by auto
  qed (use a in simp_all)
qed


lemma sequentialTry_cases:
  fixes w step1 step2 step3
  defines "final \<equiv> sequentialTry w step1 step2 step3"
  obtains
    (stops1) st1 r1 where "step1 initialRunState = (st1, r1)" "thrown st1 \<noteq> None \<or> r1 = None"
      "RunState.attempts final = RunState.attempts st1" "requests final = requests st1"
      "RunState.success final = RunState.success st1"
      "RunState.finalResponse final = RunState.finalResponse st1"
  | (stops2) st1 part1 st2 r2 where "step1 initialRunState = (st1, Some part1)" "thrown st1 = None"
      "step2 part1 st1 = (st2, r2)" "thrown st2 \<noteq> None \<or> r2 = None"
      "RunState.attempts final = RunState.attempts st2" "requests final = requests st2"
      "RunState.success final = RunState.success st2"
      "RunState.finalResponse final = RunState.finalResponse st2"
  | (stops3) st1 part1 st2 part2 st3 r3 where "step1 initialRunState = (st1, Some part1)"
      "thrown st1 = None" "step2 part1 st1 = (st2, Some part2)" "thrown st2 = None"
      "step3 part1 part2 st2 = (st3, r3)" "thrown st3 \<noteq> None \<or> r3 = None"
      "RunState.attempts final = RunState.attempts st3" "requests final = requests st3"
      "RunState.success final = RunState.success st3"
      "RunState.finalResponse final = RunState.finalResponse st3"
  | (merges) st1 part1 st2 part2 st3 part3 where "step1 initialRunState = (st1, Some part1)"
      "thrown st1 = None" "step2 part1 st1 = (st2, Some part2)" "thrown st2 = None"
      "step3 part1 part2 st2 = (st3, Some part3)" "thrown st3 = None"
      "RunState.attempts final = RunState.attempts st3" "requests final = requests st3"
      "RunState.success final \<longleftrightarrow>
         RunState.success st3 \<or> ResponseSchema_accepts (mergeSequentialParts part1 part2 part3)"
      "ResponseSchema_accepts (mergeSequentialParts part1 part2 part3) \<Longrightarrow>
         RunState.finalResponse final
           = Some (ResponseObject (mergeSequentialParts part1 part2 part3))"
      "\<not> ResponseSchema_accepts (mergeSequentialParts part1 part2 part3) \<Longrightarrow>
         RunState.finalResponse final = RunState.finalResponse st3"
proof -
  obtain st1 r1 where s1: "step1 initialRunState = (st1, r1)" by (cases "step1 initialRunState")
  show ?thesis
  proof (cases "thrown st1 \<noteq> None \<or> r1 = None")
    case True
    with s1 show ?thesis
      by (intro stops1[of st1 r1]) (auto simp: final_def sequentialTry_def)
  next
    case False
    then obtain part1 where r1: "r1 = Some part1" and t1: "thrown st1 = None" by auto
    obtain st2 r2 where s2: "step2 part1 st1 = (st2, r2)" by (cases "step2 part1 st1")
    show ?thesis
    proof (cases "thrown st2 \<noteq> None \<or> r2 = None")
      case True
      with s1 r1 t1 s2 show ?thesis
        by (intro stops2[of st1 part1 st2 r2]) (auto simp: final_def sequentialTry_def)
    next
      case False
      then obtain part2 where r2: "r2 = Some part2" and t2: "thrown st2 = None" by auto
      obtain st3 r3 where s3: "step3 part1 part2 st2 = (st3, r3)"
        by (cases "step3 part1 part2 st2")
      show ?thesis
      proof (cases "thrown st3 \<noteq> None \<or> r3 = None")
        case True
        with s1 r1 t1 s2 r2 t2 s3 show ?thesis
          by (intro stops3[of st1 part1 st2 part2 st3 r3]) (auto simp: final_def sequentialTry_def)
      next
        case False
        then obtain part3 where r3: "r3 = Some part3" and t3: "thrown st3 = None" by auto
        with s1 r1 t1 s2 r2 t2 s3 show ?thesis
          by (intro merges[of st1 part1 st2 part2 st3 part3])
             (auto simp: final_def sequentialTry_def Let_def)
      qed
    qed
  qed
qed


lemma initialRunState_sel [simp]:
  "RunState.attempts initialRunState = []" "requests initialRunState = []"
  "\<not> RunState.success initialRunState" "RunState.finalResponse initialRunState = None"
  "thrown initialRunState = None"
  by (simp_all add: initialRunState_def)

lemma mergeSequentialParts_null:
  "SequentialPart1.action part1 = None \<Longrightarrow>
     mergeSequentialParts part1 part2 part3 =
       \<lparr> Response.recommendation = SequentialPart1.recommendation part1, Response.action = None \<rparr>"
  by (simp add: mergeSequentialParts_def)

lemma stepPost_attempts_le:
  "stepPost w runNum f ra rc retries st0 m0 (st, res) \<Longrightarrow>
     length (RunState.attempts st) \<le> length (RunState.attempts st0) + (retries + 1)"
  by (erule stepPost_facts) simp

lemma stepPost_success:
  "stepPost w runNum f ra rc retries st0 m0 (st, res) \<Longrightarrow>
     RunState.success st = RunState.success st0"
  by (erule stepPost_facts) simp

lemma stepPost_thrown:
  assumes "stepPost w runNum f ra rc retries st0 m0 (st, Some part)"
  shows "thrown st = None"
proof (rule ccontr)
  assume "thrown st \<noteq> None"
  with assms show False
    by (elim stepPost_facts) simp
qed

lemma stepPost_grows:
  assumes "stepPost w runNum f ra rc retries st0 m0 (st, res)"
  shows "length (requests st0) < length (requests st)"
    and "requests st ! length (requests st0) = m0"
    and "n < length (requests st0) \<Longrightarrow> requests st ! n = requests st0 ! n"
    and "length (RunState.attempts st0) \<le> length (RunState.attempts st)"
  using assms by (elim stepPost_facts; simp add: nth_append)+

lemma stepPost_some:
  assumes "stepPost w runNum f ra rc retries st0 m0 (st, Some part)"
  shows "length (RunState.attempts st0) < length (RunState.attempts st)"
    and "length (requests st0) < length (requests st)"
    and "AttemptResult.success (last (RunState.attempts st))"
proof -
  note t = stepPost_thrown[OF assms]
  from assms t show "length (RunState.attempts st0) < length (RunState.attempts st)"
    by (elim stepPost_facts) (cases "RunState.attempts st"; auto)
  from assms show "length (requests st0) < length (requests st)"
    by (rule stepPost_grows)
  from assms t show "AttemptResult.success (last (RunState.attempts st))"
    by (elim stepPost_facts) (metis last_appendR length_0_conv option.distinct(1))
qed

lemma sequentialTry_post:
  fixes w step1 step2 step3
  assumes p1: "stepPost w runNum f1 ra1 rc retries initialRunState m1 (step1 initialRunState)"
    and p2: "\<And>part1 st0. thrown st0 = None \<Longrightarrow>
               stepPost w runNum f2 ra2 rc retries st0 (m2 part1) (step2 part1 st0)"
    and p3: "\<And>part1 part2 st0. thrown st0 = None \<Longrightarrow>
               stepPost w runNum f3 ra3 rc retries st0 (m3 part1 part2) (step3 part1 part2 st0)"
  shows "length (RunState.attempts (sequentialTry w step1 step2 step3)) \<le> 3 * (retries + 1)"
    and "RunState.success (sequentialTry w step1 step2 step3) \<Longrightarrow>
           RunState.attempts (sequentialTry w step1 step2 step3) \<noteq> [] \<and>
           AttemptResult.success (last (RunState.attempts (sequentialTry w step1 step2 step3)))"
    and "step1 initialRunState = (st1, Some part1) \<Longrightarrow>
           length (requests st1) < length (requests (sequentialTry w step1 step2 step3)) \<and>
           requests (sequentialTry w step1 step2 step3) ! length (requests st1) = m2 part1 \<and>
           (RunState.success (sequentialTry w step1 step2 step3) \<longrightarrow>
              length (RunState.attempts st1) + 2
                \<le> length (RunState.attempts (sequentialTry w step1 step2 step3)) \<and>
              length (requests st1) + 2 \<le> length (requests (sequentialTry w step1 step2 step3)) \<and>
              (SequentialPart1.action part1 = None \<longrightarrow>
                 RunState.finalResponse (sequentialTry w step1 step2 step3) =
                   Some (ResponseObject \<lparr> Response.recommendation = SequentialPart1.recommendation part1,
                                           Response.action = None \<rparr>)))"
proof -
  let ?final = "sequentialTry w step1 step2 step3"
  note cases = sequentialTry_cases[where w = w and ?step1.0 = step1 and ?step2.0 = step2
      and ?step3.0 = step3]
  show "length (RunState.attempts ?final) \<le> 3 * (retries + 1)"
  proof (cases rule: cases)
    case (stops1 st1 r1)
    from stepPost_attempts_le[OF p1[unfolded stops1(1)]] show ?thesis
      by (simp add: stops1(3))
  next
    case (stops2 st1 part1 st2 r2)
    from stepPost_attempts_le[OF p1[unfolded stops2(1)]]
      stepPost_attempts_le[OF p2[OF stops2(2), of part1, unfolded stops2(3)]]
    show ?thesis
      by (simp add: stops2(5))
  next
    case (stops3 st1 part1 st2 part2 st3 r3)
    from stepPost_attempts_le[OF p1[unfolded stops3(1)]]
      stepPost_attempts_le[OF p2[OF stops3(2), of part1, unfolded stops3(3)]]
      stepPost_attempts_le[OF p3[OF stops3(4), of part1 part2, unfolded stops3(5)]]
    show ?thesis
      by (simp add: stops3(7))
  next
    case (merges st1 part1 st2 part2 st3 part3)
    from stepPost_attempts_le[OF p1[unfolded merges(1)]]
      stepPost_attempts_le[OF p2[OF merges(2), of part1, unfolded merges(3)]]
      stepPost_attempts_le[OF p3[OF merges(4), of part1 part2, unfolded merges(5)]]
    show ?thesis
      by (simp add: merges(7))
  qed
next
  let ?final = "sequentialTry w step1 step2 step3"
  note cases = sequentialTry_cases[where w = w and ?step1.0 = step1 and ?step2.0 = step2
      and ?step3.0 = step3]
  assume ok: "RunState.success ?final"
  show "RunState.attempts ?final \<noteq> [] \<and> AttemptResult.success (last (RunState.attempts ?final))"
  proof (cases rule: cases)
    case (stops1 st1 r1)
    from stepPost_success[OF p1[unfolded stops1(1)]] stops1(5) ok show ?thesis by simp
  next
    case (stops2 st1 part1 st2 r2)
    from stepPost_success[OF p1[unfolded stops2(1)]]
      stepPost_success[OF p2[OF stops2(2), of part1, unfolded stops2(3)]] stops2(7) ok
    show ?thesis by simp
  next
    case (stops3 st1 part1 st2 part2 st3 r3)
    from stepPost_success[OF p1[unfolded stops3(1)]]
      stepPost_success[OF p2[OF stops3(2), of part1, unfolded stops3(3)]]
      stepPost_success[OF p3[OF stops3(4), of part1 part2, unfolded stops3(5)]] stops3(9) ok
    show ?thesis by simp
  next
    case (merges st1 part1 st2 part2 st3 part3)
    note s3 = stepPost_some[OF p3[OF merges(4), of part1 part2, unfolded merges(5)]]
    from s3(1) have "RunState.attempts st3 \<noteq> []" by auto
    with s3(3) show ?thesis
      by (simp add: merges(7))
  qed
next
  let ?final = "sequentialTry w step1 step2 step3"
  note cases = sequentialTry_cases[where w = w and ?step1.0 = step1 and ?step2.0 = step2
      and ?step3.0 = step3]
  assume s1: "step1 initialRunState = (st1, Some part1)"
  from stepPost_thrown[OF p1[unfolded s1]] have t1: "thrown st1 = None" .
  from stepPost_success[OF p1[unfolded s1]] have f1: "\<not> RunState.success st1" by simp
  show "length (requests st1) < length (requests ?final) \<and>
           requests ?final ! length (requests st1) = m2 part1 \<and>
           (RunState.success ?final \<longrightarrow>
              length (RunState.attempts st1) + 2 \<le> length (RunState.attempts ?final) \<and>
              length (requests st1) + 2 \<le> length (requests ?final) \<and>
              (SequentialPart1.action part1 = None \<longrightarrow>
                 RunState.finalResponse ?final =
                   Some (ResponseObject \<lparr> Response.recommendation = SequentialPart1.recommendation part1,
                                           Response.action = None \<rparr>)))"
  proof (cases rule: cases)
    case (stops1 st1' r1)
    with s1 t1 show ?thesis by auto
  next
    case (stops2 st1' part1' st2 r2)
    with s1 have e: "st1' = st1" "part1' = part1" by auto
    note g2 = stepPost_grows[OF p2[OF t1, of part1, unfolded stops2(3)[unfolded e]]]
    note u2 = stepPost_success[OF p2[OF t1, of part1, unfolded stops2(3)[unfolded e]]]
    from g2(1,2) u2 f1 show ?thesis
      by (simp add: stops2(6,7))
  next
    case (stops3 st1' part1' st2 part2 st3 r3)
    with s1 have e: "st1' = st1" "part1' = part1" by auto
    note g2 = stepPost_grows[OF p2[OF t1, of part1, unfolded stops3(3)[unfolded e]]]
    note u2 = stepPost_success[OF p2[OF t1, of part1, unfolded stops3(3)[unfolded e]]]
    note g3 = stepPost_grows[OF p3[OF stops3(4), of part1' part2, unfolded stops3(5)]]
    note u3 = stepPost_success[OF p3[OF stops3(4), of part1' part2, unfolded stops3(5)]]
    from g2(1,2) g3(1) g3(3)[OF g2(1)] u2 u3 f1 show ?thesis
      by (simp add: stops3(8,9))
  next
    case (merges st1' part1' st2 part2 st3 part3)
    with s1 have e: "st1' = st1" "part1' = part1" by auto
    note q2 = p2[OF t1, of part1, unfolded merges(3)[unfolded e]]
    note q3 = p3[OF merges(4), of part1' part2, unfolded merges(5)]
    note g2 = stepPost_grows[OF q2] and u2 = stepPost_success[OF q2] and o2 = stepPost_some[OF q2]
    note g3 = stepPost_grows[OF q3] and u3 = stepPost_success[OF q3] and o3 = stepPost_some[OF q3]
    from u2 u3 f1 have ns: "\<not> RunState.success st3" by simp
    have fin: "RunState.success ?final \<Longrightarrow>
        SequentialPart1.action part1 = None \<Longrightarrow>
        RunState.finalResponse ?final =
          Some (ResponseObject \<lparr> Response.recommendation = SequentialPart1.recommendation part1,
                                  Response.action = None \<rparr>)"
      using merges(9,10) ns e by (simp add: mergeSequentialParts_null)
    from g2(1,2) g3(1) g3(3)[OF g2(1)] o2(1) o3(1) fin show ?thesis
      by (simp add: merges(7,8))
  qed
qed

lemma stepPost_first_attempt:
  assumes post: "stepPost w runNum f ra rc retries st0 m0 (st, res)"
    and call: "ra (length (requests st0)) m0 = Inr result"
  shows "length (RunState.attempts st0) < length (RunState.attempts st)"
    and "RunState.attempts st ! length (RunState.attempts st0) =
           toAttemptResult f 1 (attemptTimestamp w runNum (length (requests st0)))
             (attemptDurationMs w runNum (length (requests st0))) (promptTextOf m0) result"
proof -
  from post obtain reqs atts where
    sh: "requests st = requests st0 @ reqs" "RunState.attempts st = RunState.attempts st0 @ atts"
    and ne: "reqs \<noteq> []"
    and tr: "stepTrace w runNum f ra rc (length (requests st0)) m0 reqs atts"
    and th: "case thrown st of None \<Rightarrow> length reqs = length atts
             | Some e \<Rightarrow> length reqs = length atts + 1 \<and>
                 ra (length (requests st0) + length atts) (last reqs) = Inl e"
    unfolding stepPost_def by (auto split: option.splits)
  note first = stepTrace_first[OF tr ne]
  have atts: "atts \<noteq> []"
  proof
    assume e: "atts = []"
    show False
    proof (cases "thrown st")
      case None
      with th e ne show False by simp
    next
      case (Some x)
      with th e have "length reqs = 1" "ra (length (requests st0)) (last reqs) = Inl x"
        by simp_all
      with first call show False
        by (cases reqs) auto
    qed
  qed
  then have zero: "0 < length atts" by simp
  from tr zero obtain result' where
    "ra (length (requests st0) + 0) (reqs ! 0) = Inr result'"
    "atts ! 0 = toAttemptResult f (0 + 1) (attemptTimestamp w runNum (length (requests st0) + 0))
                  (attemptDurationMs w runNum (length (requests st0) + 0)) (promptTextOf (reqs ! 0)) result'"
    unfolding stepTrace_def by blast
  with first call have a0: "atts ! 0 = toAttemptResult f 1 (attemptTimestamp w runNum (length (requests st0)))
             (attemptDurationMs w runNum (length (requests st0))) (promptTextOf m0) result"
    by simp
  from atts sh show "length (RunState.attempts st0) < length (RunState.attempts st)"
    by simp
  from a0 sh show "RunState.attempts st ! length (RunState.attempts st0) =
           toAttemptResult f 1 (attemptTimestamp w runNum (length (requests st0)))
             (attemptDurationMs w runNum (length (requests st0))) (promptTextOf m0) result"
    by (simp add: nth_append)
qed

lemma stepPost_prefix:
  assumes "stepPost w runNum f ra rc retries st0 m0 (st, res)"
  shows "n < length (RunState.attempts st0) \<Longrightarrow> RunState.attempts st ! n = RunState.attempts st0 ! n"
  using assms by (elim stepPost_facts) (simp add: nth_append)

lemma stepPost_parsed:
  assumes post: "stepPost w runNum f ra rc retries st0 m0 (st, Some part)"
  shows "parsedResponse (last (RunState.attempts st)) = Some (f part)"
proof -
  note t = stepPost_thrown[OF post]
  from post t have "\<exists>atts. RunState.attempts st = RunState.attempts st0 @ atts \<and>
      atts \<noteq> [] \<and> parsedResponse (last atts) = Some (f part)"
    unfolding stepPost_def by fastforce
  then show ?thesis by auto
qed

lemma sequentialTry_stages:
  fixes w step1 step2 step3
  defines "final \<equiv> sequentialTry w step1 step2 step3"
  assumes p1: "stepPost w runNum f1 ra1 rc retries initialRunState m1 (step1 initialRunState)"
    and p2': "\<forall>part1 st0. thrown st0 = None \<longrightarrow>
               stepPost w runNum f2 ra2 rc retries st0 (m2 part1) (step2 part1 st0)"
    and p3': "\<forall>part1 part2 st0. thrown st0 = None \<longrightarrow>
               stepPost w runNum f3 ra3 rc retries st0 (m3 part1 part2) (step3 part1 part2 st0)"
    and s1: "step1 initialRunState = (st1, Some part1)"
  shows "ra2 (length (requests st1)) (m2 part1) = Inr result2 \<Longrightarrow>
           length (RunState.attempts st1) < length (RunState.attempts final) \<and>
           RunState.attempts final ! length (RunState.attempts st1) =
             toAttemptResult f2 1 (attemptTimestamp w runNum (length (requests st1)))
               (attemptDurationMs w runNum (length (requests st1))) (promptTextOf (m2 part1)) result2"
    and "step2 part1 st1 = (st2, Some part2) \<Longrightarrow>
           length (RunState.attempts st1) < length (RunState.attempts st2) \<and>
           parsedResponse (last (RunState.attempts st2)) = Some (f2 part2) \<and>
           length (requests st2) < length (requests final) \<and>
           requests final ! length (requests st2) = m3 part1 part2"
    and "step2 part1 st1 = (st2, Some part2) \<Longrightarrow>
         ra3 (length (requests st2)) (m3 part1 part2) = Inr result3 \<Longrightarrow>
           length (RunState.attempts st2) < length (RunState.attempts final) \<and>
           RunState.attempts final ! length (RunState.attempts st2) =
             toAttemptResult f3 1 (attemptTimestamp w runNum (length (requests st2)))
               (attemptDurationMs w runNum (length (requests st2)))
               (promptTextOf (m3 part1 part2)) result3"
    and "RunState.success final \<Longrightarrow>
           \<exists>st2 part2 st3 part3.
             step2 part1 st1 = (st2, Some part2) \<and> step3 part1 part2 st2 = (st3, Some part3) \<and>
             RunState.attempts final = RunState.attempts st3 \<and> requests final = requests st3 \<and>
             length (RunState.attempts st2) < length (RunState.attempts st3) \<and>
             parsedResponse (last (RunState.attempts st3)) = Some (f3 part3) \<and>
             RunState.finalResponse final
               = Some (ResponseObject (mergeSequentialParts part1 part2 part3))"
proof -
  note cases = sequentialTry_cases[where w = w and ?step1.0 = step1 and ?step2.0 = step2
      and ?step3.0 = step3, folded final_def, case_names stops1 stops2 stops3 merges]
  from p2' have p2: "\<And>part1 st0. thrown st0 = None \<Longrightarrow>
               stepPost w runNum f2 ra2 rc retries st0 (m2 part1) (step2 part1 st0)"
    by blast
  from p3' have p3: "\<And>part1 part2 st0. thrown st0 = None \<Longrightarrow>
               stepPost w runNum f3 ra3 rc retries st0 (m3 part1 part2) (step3 part1 part2 st0)"
    by blast
  from stepPost_thrown[OF p1[unfolded s1]] have t1: "thrown st1 = None" .
  from stepPost_success[OF p1[unfolded s1]] have f1: "\<not> RunState.success st1" by simp
  {
    assume call: "ra2 (length (requests st1)) (m2 part1) = Inr result2"
    obtain st2' r2 where s2: "step2 part1 st1 = (st2', r2)" by (cases "step2 part1 st1")
    note q2 = p2[OF t1, of part1, unfolded s2]
    note a2 = stepPost_first_attempt[OF q2 call]
    show "length (RunState.attempts st1) < length (RunState.attempts final) \<and>
           RunState.attempts final ! length (RunState.attempts st1) =
             toAttemptResult f2 1 (attemptTimestamp w runNum (length (requests st1)))
               (attemptDurationMs w runNum (length (requests st1))) (promptTextOf (m2 part1)) result2"
    proof (cases rule: cases)
      case (stops1 st1' r1)
      with s1 t1 show ?thesis by auto
    next
      case (stops2 st1' part1' st2 r2')
      with s1 s2 have "st2 = st2'" by auto
      with a2 stops2(5) show ?thesis by simp
    next
      case (stops3 st1' part1' st2 part2 st3 r3)
      with s1 s2 have e: "st1' = st1" "part1' = part1" "st2 = st2'" by auto
      note q3 = p3[OF stops3(4), of part1' part2, unfolded stops3(5)]
      from stepPost_grows(4)[OF q3] stepPost_prefix[OF q3, of "length (RunState.attempts st1)"] a2 e
      show ?thesis by (simp add: stops3(7))
    next
      case (merges st1' part1' st2 part2 st3 part3)
      with s1 s2 have e: "st1' = st1" "part1' = part1" "st2 = st2'" by auto
      note q3 = p3[OF merges(4), of part1' part2, unfolded merges(5)]
      from stepPost_grows(4)[OF q3] stepPost_prefix[OF q3, of "length (RunState.attempts st1)"] a2 e
      show ?thesis by (simp add: merges(7))
    qed
  }
  {
    assume s2: "step2 part1 st1 = (st2, Some part2)"
    note q2 = p2[OF t1, of part1, unfolded s2]
    note t2 = stepPost_thrown[OF q2]
    obtain st3' r3' where s3: "step3 part1 part2 st2 = (st3', r3')"
      by (cases "step3 part1 part2 st2")
    note q3 = p3[OF t2, of part1 part2, unfolded s3]
    have fin: "RunState.attempts final = RunState.attempts st3' \<and> requests final = requests st3'"
    proof (cases rule: cases)
      case (stops1 st1' r1)
      with s1 t1 show ?thesis by auto
    next
      case (stops2 st1' part1' st2' r2')
      with s1 s2 t2 show ?thesis by auto
    next
      case (stops3 st1' part1' st2' part2' st3 r3)
      with s1 s2 s3 show ?thesis by auto
    next
      case (merges st1' part1' st2' part2' st3 part3)
      with s1 s2 s3 show ?thesis by auto
    qed
    from stepPost_some(1)[OF q2] stepPost_parsed[OF q2] stepPost_grows(1,2)[OF q3] fin
    show "length (RunState.attempts st1) < length (RunState.attempts st2) \<and>
           parsedResponse (last (RunState.attempts st2)) = Some (f2 part2) \<and>
           length (requests st2) < length (requests final) \<and>
           requests final ! length (requests st2) = m3 part1 part2"
      by simp
    {
      assume call: "ra3 (length (requests st2)) (m3 part1 part2) = Inr result3"
      from stepPost_first_attempt[OF q3 call] fin
      show "length (RunState.attempts st2) < length (RunState.attempts final) \<and>
           RunState.attempts final ! length (RunState.attempts st2) =
             toAttemptResult f3 1 (attemptTimestamp w runNum (length (requests st2)))
               (attemptDurationMs w runNum (length (requests st2)))
               (promptTextOf (m3 part1 part2)) result3"
        by simp
    }
  }
  {
    assume ok: "RunState.success final"
    show "\<exists>st2 part2 st3 part3.
             step2 part1 st1 = (st2, Some part2) \<and> step3 part1 part2 st2 = (st3, Some part3) \<and>
             RunState.attempts final = RunState.attempts st3 \<and> requests final = requests st3 \<and>
             length (RunState.attempts st2) < length (RunState.attempts st3) \<and>
             parsedResponse (last (RunState.attempts st3)) = Some (f3 part3) \<and>
             RunState.finalResponse final
               = Some (ResponseObject (mergeSequentialParts part1 part2 part3))"
    proof (cases rule: cases)
      case (stops1 st1' r1)
      with s1 t1 show ?thesis by auto
    next
      case (stops2 st1' part1' st2 r2)
      with s1 have e: "st1' = st1" "part1' = part1" by auto
      from stepPost_success[OF p2[OF t1, of part1, unfolded stops2(3)[unfolded e]]] f1 stops2(7) ok
      show ?thesis by simp
    next
      case (stops3 st1' part1' st2 part2 st3 r3)
      with s1 have e: "st1' = st1" "part1' = part1" by auto
      from stepPost_success[OF p2[OF t1, of part1, unfolded stops3(3)[unfolded e]]]
        stepPost_success[OF p3[OF stops3(4), of part1' part2, unfolded stops3(5)]] f1 stops3(9) ok
      show ?thesis by simp
    next
      case (merges st1' part1' st2 part2 st3 part3)
      with s1 have e: "st1' = st1" "part1' = part1" by auto
      note q2 = p2[OF t1, of part1, unfolded merges(3)[unfolded e]]
      note q3 = p3[OF merges(4), of part1 part2, unfolded merges(5)[unfolded e]]
      from stepPost_success[OF q2] stepPost_success[OF q3] f1 have ns: "\<not> RunState.success st3"
        by simp
      with merges(9) ok have acc: "ResponseSchema_accepts (mergeSequentialParts part1' part2 part3)"
        by simp
      from merges(10)[OF acc] e have fr: "RunState.finalResponse final
               = Some (ResponseObject (mergeSequentialParts part1 part2 part3))" by simp
      from merges(3,5,7,8) e stepPost_some(1)[OF q3] stepPost_parsed[OF q3] fr
      show ?thesis by blast
    qed
  }
qed

lemma catchAll_sel [simp]:
  "RunState.attempts (catchAll st) = RunState.attempts st"
  "requests (catchAll st) = requests st"
  "RunState.success (catchAll st) = RunState.success st"
  "RunState.finalResponse (catchAll st) = RunState.finalResponse st"
  "thrown (catchAll st) = None"
  by (simp_all add: catchAll_def)

lemma toRunResult_sel [simp]:
  "RunResult.attempts (toRunResult w runNum st) = RunState.attempts st"
  "RunResult.success (toRunResult w runNum st) = RunState.success st"
  "RunResult.finalResponse (toRunResult w runNum st) = RunState.finalResponse st"
  "runNumber (toRunResult w runNum st) = runNum"
  by (simp_all add: toRunResult_def)

lemma runScenario3_try_post:
  shows "length (RunState.attempts (runScenario3_try w ps config runNum)) \<le> 3 * (maxRetries config + 1)"
    and "RunState.success (runScenario3_try w ps config runNum) \<Longrightarrow>
           RunState.attempts (runScenario3_try w ps config runNum) \<noteq> [] \<and>
           AttemptResult.success (last (RunState.attempts (runScenario3_try w ps config runNum)))"
    and "nonStrictStep w runNum Part1Object (parse_Part1 w) (maxRetries config)
           (step1Messages ps (step1_nonStrict ps)) initialRunState = (st1, Some part1) \<Longrightarrow>
           length (requests st1) < length (requests (runScenario3_try w ps config runNum)) \<and>
           requests (runScenario3_try w ps config runNum) ! length (requests st1)
             = step2Messages w ps (step2_nonStrict ps) part1 \<and>
           (RunState.success (runScenario3_try w ps config runNum) \<longrightarrow>
              length (RunState.attempts st1) + 2
                \<le> length (RunState.attempts (runScenario3_try w ps config runNum)) \<and>
              length (requests st1) + 2 \<le> length (requests (runScenario3_try w ps config runNum)) \<and>
              (SequentialPart1.action part1 = None \<longrightarrow>
                 RunState.finalResponse (runScenario3_try w ps config runNum) =
                   Some (ResponseObject \<lparr> Response.recommendation = SequentialPart1.recommendation part1,
                                           Response.action = None \<rparr>)))"
  unfolding runScenario3_try_def
  by (rule sequentialTry_post[where ?m2.0 = "step2Messages w ps (step2_nonStrict ps)"
          and ?m3.0 = "step3Messages w ps (step3_nonStrict ps)"];
      (rule nonStrictStep_post)?; simp)+

lemma runScenario4_try_post:
  shows "length (RunState.attempts (runScenario4_try w ps config runNum)) \<le> 3 * (maxRetries config + 1)"
    and "RunState.success (runScenario4_try w ps config runNum) \<Longrightarrow>
           RunState.attempts (runScenario4_try w ps config runNum) \<noteq> [] \<and>
           AttemptResult.success (last (RunState.attempts (runScenario4_try w ps config runNum)))"
    and "strictStep w runNum Part1Object (generateObject_Part1 w) (stringify2_Part1 w)
           (maxRetries config) (step1Messages ps (step1_strict ps)) initialRunState
             = (st1, Some part1) \<Longrightarrow>
           length (requests st1) < length (requests (runScenario4_try w ps config runNum)) \<and>
           requests (runScenario4_try w ps config runNum) ! length (requests st1)
             = step2Messages w ps (step2_strict ps) part1 \<and>
           (RunState.success (runScenario4_try w ps config runNum) \<longrightarrow>
              length (RunState.attempts st1) + 2
                \<le> length (RunState.attempts (runScenario4_try w ps config runNum)) \<and>
              length (requests st1) + 2 \<le> length (requests (runScenario4_try w ps config runNum)) \<and>
              (SequentialPart1.action part1 = None \<longrightarrow>
                 RunState.finalResponse (runScenario4_try w ps config runNum) =
                   Some (ResponseObject \<lparr> Response.recommendation = SequentialPart1.recommendation part1,
                                           Response.action = None \<rparr>)))"
  unfolding runScenario4_try_def
  by (rule sequentialTry_post[where ?m2.0 = "step2Messages w ps (step2_strict ps)"
          and ?m3.0 = "step3Messages w ps (step3_strict ps)"];
      (rule strictStep_post)?; simp)+

lemma runScenario4_try_stages:
  assumes s1: "scenario4_step1 w ps config runNum = (st1, Some part1)"
  shows "length (RunState.attempts st1) < length (RunState.attempts (runScenario4_try w ps config runNum)) \<and>
         RunState.attempts (runScenario4_try w ps config runNum) ! length (RunState.attempts st1) =
           toAttemptResult Part2Object 1 (attemptTimestamp w runNum (length (requests st1)))
             (attemptDurationMs w runNum (length (requests st1)))
             (promptTextOf (step2Messages w ps (step2_strict ps) part1))
             (runStrictAttempt (generateObject_Part2 w runNum (length (requests st1)))
                (stringify2_Part2 w) (zodMessage w) (step2Messages w ps (step2_strict ps) part1))"
    and "scenario4_step2 w ps config runNum part1 st1 = (st2, Some part2) \<Longrightarrow>
           length (RunState.attempts st1) < length (RunState.attempts st2) \<and>
           parsedResponse (last (RunState.attempts st2)) = Some (Part2Object part2) \<and>
           length (requests st2) < length (requests (runScenario4_try w ps config runNum)) \<and>
           requests (runScenario4_try w ps config runNum) ! length (requests st2)
             = step3Messages w ps (step3_strict ps) part1 part2 \<and>
           length (RunState.attempts st2) < length (RunState.attempts (runScenario4_try w ps config runNum)) \<and>
           RunState.attempts (runScenario4_try w ps config runNum) ! length (RunState.attempts st2) =
             toAttemptResult Part3Object 1 (attemptTimestamp w runNum (length (requests st2)))
               (attemptDurationMs w runNum (length (requests st2)))
               (promptTextOf (step3Messages w ps (step3_strict ps) part1 part2))
               (runStrictAttempt (generateObject_Part3 w runNum (length (requests st2)))
                  (stringify2_Part3 w) (zodMessage w)
                  (step3Messages w ps (step3_strict ps) part1 part2))"
    and "RunState.success (runScenario4_try w ps config runNum) \<Longrightarrow>
           \<exists>st2 part2 st3 part3.
             scenario4_step2 w ps config runNum part1 st1 = (st2, Some part2) \<and>
             scenario4_step3 w ps config runNum part1 part2 st2 = (st3, Some part3) \<and>
             RunState.attempts (runScenario4_try w ps config runNum) = RunState.attempts st3 \<and>
             requests (runScenario4_try w ps config runNum) = requests st3 \<and>
             length (RunState.attempts st2) < length (RunState.attempts st3) \<and>
             parsedResponse (last (RunState.attempts st3)) = Some (Part3Object part3) \<and>
             RunState.finalResponse (runScenario4_try w ps config runNum)
               = Some (ResponseObject (mergeSequentialParts part1 part2 part3))"
proof -
  have p1: "stepPost w runNum Part1Object
       (\<lambda>i messages. Inr (runStrictAttempt (generateObject_Part1 w runNum i) (stringify2_Part1 w)
                             (zodMessage w) messages))
       False (maxRetries config) initialRunState (step1Messages ps (step1_strict ps))
       (scenario4_step1 w ps config runNum)"
    by (rule strictStep_post) simp
  have p2: "\<forall>part1 st0. thrown st0 = None \<longrightarrow> stepPost w runNum Part2Object
       (\<lambda>i messages. Inr (runStrictAttempt (generateObject_Part2 w runNum i) (stringify2_Part2 w)
                             (zodMessage w) messages))
       False (maxRetries config) st0 (step2Messages w ps (step2_strict ps) part1)
       (scenario4_step2 w ps config runNum part1 st0)"
    by (intro allI impI) (rule strictStep_post)
  have p3: "\<forall>part1 part2 st0. thrown st0 = None \<longrightarrow> stepPost w runNum Part3Object
       (\<lambda>i messages. Inr (runStrictAttempt (generateObject_Part3 w runNum i) (stringify2_Part3 w)
                             (zodMessage w) messages))
       False (maxRetries config) st0 (step3Messages w ps (step3_strict ps) part1 part2)
       (scenario4_step3 w ps config runNum part1 part2 st0)"
    by (intro allI impI) (rule strictStep_post)
  note st = sequentialTry_stages[where w = w
      and ?step1.0 = "strictStep w runNum Part1Object (generateObject_Part1 w) (stringify2_Part1 w)
                        (maxRetries config) (step1Messages ps (step1_strict ps))"
      and ?step2.0 = "scenario4_step2 w ps config runNum"
      and ?step3.0 = "scenario4_step3 w ps config runNum"
      and ?m2.0 = "step2Messages w ps (step2_strict ps)"
      and ?m3.0 = "step3Messages w ps (step3_strict ps)",
      OF p1 p2 p3 s1, folded runScenario4_try_def]
  from st(1)[OF refl]
  show "length (RunState.attempts st1) < length (RunState.attempts (runScenario4_try w ps config runNum)) \<and>
         RunState.attempts (runScenario4_try w ps config runNum) ! length (RunState.attempts st1) =
           toAttemptResult Part2Object 1 (attemptTimestamp w runNum (length (requests st1)))
             (attemptDurationMs w runNum (length (requests st1)))
             (promptTextOf (step2Messages w ps (step2_strict ps) part1))
             (runStrictAttempt (generateObject_Part2 w runNum (length (requests st1)))
                (stringify2_Part2 w) (zodMessage w) (step2Messages w ps (step2_strict ps) part1))" .
  {
    assume s2: "scenario4_step2 w ps config runNum part1 st1 = (st2, Some part2)"
    from st(2)[OF s2] st(3)[OF s2 refl]
    show "length (RunState.attempts st1) < length (RunState.attempts st2) \<and>
           parsedResponse (last (RunState.attempts st2)) = Some (Part2Object part2) \<and>
           length (requests st2) < length (requests (runScenario4_try w ps config runNum)) \<and>
           requests (runScenario4_try w ps config runNum) ! length (requests st2)
             = step3Messages w ps (step3_strict ps) part1 part2 \<and>
           length (RunState.attempts st2) < length (RunState.attempts (runScenario4_try w ps config runNum)) \<and>
           RunState.attempts (runScenario4_try w ps config runNum) ! length (RunState.attempts st2) =
             toAttemptResult Part3Object 1 (attemptTimestamp w runNum (length (requests st2)))
               (attemptDurationMs w runNum (length (requests st2)))
               (promptTextOf (step3Messages w ps (step3_strict ps) part1 part2))
               (runStrictAttempt (generateObject_Part3 w runNum (length (requests st2)))
                  (stringify2_Part3 w) (zodMessage w)
                  (step3Messages w ps (step3_strict ps) part1 part2))"
      by blast
  }
  {
    assume ok: "RunState.success (runScenario4_try w ps config runNum)"
    from st(4)[OF ok]
    show "\<exists>st2 part2 st3 part3.
             scenario4_step2 w ps config runNum part1 st1 = (st2, Some part2) \<and>
             scenario4_step3 w ps config runNum part1 part2 st2 = (st3, Some part3) \<and>
             RunState.attempts (runScenario4_try w ps config runNum) = RunState.attempts st3 \<and>
             requests (runScenario4_try w ps config runNum) = requests st3 \<and>
             length (RunState.attempts st2) < length (RunState.attempts st3) \<and>
             parsedResponse (last (RunState.attempts st3)) = Some (Part3Object part3) \<and>
             RunState.finalResponse (runScenario4_try w ps config runNum)
               = Some (ResponseObject (mergeSequentialParts part1 part2 part3))" .
  }
qed

lemma runScenario3_try_stages:
  assumes s1: "scenario3_step1 w ps config runNum = (st1, Some part1)"
  shows "runNonStrictAttempt (generateText w runNum (length (requests st1))) (trim w) (parse_Part2 w)
           (step2Messages w ps (step2_nonStrict ps) part1) = Inr result2 \<Longrightarrow>
         length (RunState.attempts st1) < length (RunState.attempts (runScenario3_try w ps config runNum)) \<and>
         RunState.attempts (runScenario3_try w ps config runNum) ! length (RunState.attempts st1) =
           toAttemptResult Part2Object 1 (attemptTimestamp w runNum (length (requests st1)))
             (attemptDurationMs w runNum (length (requests st1)))
             (promptTextOf (step2Messages w ps (step2_nonStrict ps) part1)) result2"
    and "scenario3_step2 w ps config runNum part1 st1 = (st2, Some part2) \<Longrightarrow>
           length (RunState.attempts st1) < length (RunState.attempts st2) \<and>
           parsedResponse (last (RunState.attempts st2)) = Some (Part2Object part2) \<and>
           length (requests st2) < length (requests (runScenario3_try w ps config runNum)) \<and>
           requests (runScenario3_try w ps config runNum) ! length (requests st2)
             = step3Messages w ps (step3_nonStrict ps) part1 part2"
    and "scenario3_step2 w ps config runNum part1 st1 = (st2, Some part2) \<Longrightarrow>
         runNonStrictAttempt (generateText w runNum (length (requests st2))) (trim w) (parse_Part3 w)
           (step3Messages w ps (step3_nonStrict ps) part1 part2) = Inr result3 \<Longrightarrow>
           length (RunState.attempts st2) < length (RunState.attempts (runScenario3_try w ps config runNum)) \<and>
           RunState.attempts (runScenario3_try w ps config runNum) ! length (RunState.attempts st2) =
             toAttemptResult Part3Object 1 (attemptTimestamp w runNum (length (requests st2)))
               (attemptDurationMs w runNum (length (requests st2)))
               (promptTextOf (step3Messages w ps (step3_nonStrict ps) part1 part2)) result3"
    and "RunState.success (runScenario3_try w ps config runNum) \<Longrightarrow>
           \<exists>st2 part2 st3 part3.
             scenario3_step2 w ps config runNum part1 st1 = (st2, Some part2) \<and>
             scenario3_step3 w ps config runNum part1 part2 st2 = (st3, Some part3) \<and>
             RunState.attempts (runScenario3_try w ps config runNum) = RunState.attempts st3 \<and>
             requests (runScenario3_try w ps config runNum) = requests st3 \<and>
             length (RunState.attempts st2) < length (RunState.attempts st3) \<and>
             parsedResponse (last (RunState.attempts st3)) = Some (Part3Object part3) \<and>
             RunState.finalResponse (runScenario3_try w ps config runNum)
               = Some (ResponseObject (mergeSequentialParts part1 part2 part3))"
proof -
  have p1: "stepPost w runNum Part1Object
       (\<lambda>i messages. runNonStrictAttempt (generateText w runNum i) (trim w) (parse_Part1 w) messages)
       True (maxRetries config) initialRunState (step1Messages ps (step1_nonStrict ps))
       (scenario3_step1 w ps config runNum)"
    by (rule nonStrictStep_post) simp
  have p2: "\<forall>part1 st0. thrown st0 = None \<longrightarrow> stepPost w runNum Part2Object
       (\<lambda>i messages. runNonStrictAttempt (generateText w runNum i) (trim w) (parse_Part2 w) messages)
       True (maxRetries config) st0 (step2Messages w ps (step2_nonStrict ps) part1)
       (scenario3_step2 w ps config runNum part1 st0)"
    by (intro allI impI) (rule nonStrictStep_post)
  have p3: "\<forall>part1 part2 st0. thrown st0 = None \<longrightarrow> stepPost w runNum Part3Object
       (\<lambda>i messages. runNonStrictAttempt (generateText w runNum i) (trim w) (parse_Part3 w) messages)
       True (maxRetries config) st0 (step3Messages w ps (step3_nonStrict ps) part1 part2)
       (scenario3_step3 w ps config runNum part1 part2 st0)"
    by (intro allI impI) (rule nonStrictStep_post)
  note st = sequentialTry_stages[where w = w
      and ?step1.0 = "nonStrictStep w runNum Part1Object (parse_Part1 w) (maxRetries config)
                        (step1Messages ps (step1_nonStrict ps))"
      and ?step2.0 = "scenario3_step2 w ps config runNum"
      and ?step3.0 = "scenario3_step3 w ps config runNum"
      and ?m2.0 = "step2Messages w ps (step2_nonStrict ps)"
      and ?m3.0 = "step3Messages w ps (step3_nonStrict ps)",
      OF p1 p2 p3 s1, folded runScenario3_try_def]
  {
    assume "runNonStrictAttempt (generateText w runNum (length (requests st1))) (trim w) (parse_Part2 w)
           (step2Messages w ps (step2_nonStrict ps) part1) = Inr result2"
    from st(1)[OF this]
    show "length (RunState.attempts st1) < length (RunState.attempts (runScenario3_try w ps config runNum)) \<and>
         RunState.attempts (runScenario3_try w ps config runNum) ! length (RunState.attempts st1) =
           toAttemptResult Part2Object 1 (attemptTimestamp w runNum (length (requests st1)))
             (attemptDurationMs w runNum (length (requests st1)))
             (promptTextOf (step2Messages w ps (step2_nonStrict ps) part1)) result2" .
  }
  {
    assume s2: "scenario3_step2 w ps config runNum part1 st1 = (st2, Some part2)"
    from st(2)[OF s2]
    show "length (RunState.attempts st1) < length (RunState.attempts st2) \<and>
           parsedResponse (last (RunState.attempts st2)) = Some (Part2Object part2) \<and>
           length (requests st2) < length (requests (runScenario3_try w ps config runNum)) \<and>
           requests (runScenario3_try w ps config runNum) ! length (requests st2)
             = step3Messages w ps (step3_nonStrict ps) part1 part2" .
    {
      assume "runNonStrictAttempt (generateText w runNum (length (requests st2))) (trim w) (parse_Part3 w)
           (step3Messages w ps (step3_nonStrict ps) part1 part2) = Inr result3"
      from st(3)[OF s2 this]
      show "length (RunState.attempts st2) < length (RunState.attempts (runScenario3_try w ps config runNum)) \<and>
           RunState.attempts (runScenario3_try w ps config runNum) ! length (RunState.attempts st2) =
             toAttemptResult Part3Object 1 (attemptTimestamp w runNum (length (requests st2)))
               (attemptDurationMs w runNum (length (requests st2)))
               (promptTextOf (step3Messages w ps (step3_nonStrict ps) part1 part2)) result3" .
    }
  }
  {
    assume ok: "RunState.success (runScenario3_try w ps config runNum)"
    from st(4)[OF ok]
    show "\<exists>st2 part2 st3 part3.
             scenario3_step2 w ps config runNum part1 st1 = (st2, Some part2) \<and>
             scenario3_step3 w ps config runNum part1 part2 st2 = (st3, Some part3) \<and>
             RunState.attempts (runScenario3_try w ps config runNum) = RunState.attempts st3 \<and>
             requests (runScenario3_try w ps config runNum) = requests st3 \<and>
             length (RunState.attempts st2) < length (RunState.attempts st3) \<and>
             parsedResponse (last (RunState.attempts st3)) = Some (Part3Object part3) \<and>
             RunState.finalResponse (runScenario3_try w ps config runNum)
               = Some (ResponseObject (mergeSequentialParts part1 part2 part3))" .
  }
qed

section \<open>The retry budget\<close>

lemmas eval_parts = goodPart1_def nullPart1_def goodPart2_def goodPart3_def
  stage2FailsWorld_def nullActionWorld_def

lemma runsLoop_member:
  assumes "runsLoop w body count 1 [] = Inr runs" "r \<in> set runs"
  shows "\<exists>j. r = toRunResult w j (body j) \<and> thrown (body j) = None"
proof -
  from runsLoop_Inr[OF assms(1)] assms(2) obtain j where
    "r = toRunResult w j (body j)" "1 \<le> j \<and> j \<le> count"
    "\<forall>j. 1 \<le> j \<and> j \<le> count \<longrightarrow> thrown (body j) = None"
    by auto
  then show ?thesis by blast
qed





lemma oneRun_sel: "runsPerScenario oneRun = 1" "maxRetries oneRun = 3"
  by (simp_all add: oneRun_def DEFAULT_CONFIG_def)

lemmas eval_seq = runScenario4_run_def runScenario4_try_def runScenario3_run_def
  runScenario3_try_def sequentialTry_def strictStep_def nonStrictStep_def sequentialStep.simps
  catchAll_def step1Messages_def step2Messages_def step3Messages_def
  mergeSequentialParts_def ResponseSchema_accepts_def ActionSchema_accepts_def
  ActorSchema_accepts_def

lemmas eval_text = extractJson_def suffix_to_prefix usageTokens_def orZero_def



section \<open>A null action in step 1\<close>

text \<open>
  Claim C3, as amended. In a three-stage run, when step 1 returns a validated object whose
  \<open>action\<close> is null, no stage is skipped. Step 2 is invoked: the next call of the generator
  is made with the step 2 message list built from that object, and the record of that call is
  appended to the run's attempts as attempt 1 of step 2 (in guided mode, where a call can
  throw, whenever the call returns a result). When step 2 returns an object, it has appended
  at least one attempt, the last of which holds that object, and step 3 is invoked: the next
  call is made with the step 3 message list built from the two objects, and its record is
  appended as attempt 1 of step 3. If the run succeeds, steps 2 and 3 have both returned an
  object, the attempts and the requests of the run are those after step 3, each of the two
  steps has added at least one attempt, and the merged final object is the recommendation of
  step 1 with \<open>action\<close> null. Stated for scenario 4 and for scenario 3; \<open>st1\<close> and
  \<open>st2\<close> are the states of the run after step 1 and after step 2.
\<close>

theorem null_action_runs_all_stages:
  "(scenario4_step1 w ps config runNum = (st1, Some part1) \<and>
    SequentialPart1.action part1 = None \<longrightarrow>
      length (requests st1) < length (requests (runScenario4_run w ps config runNum)) \<and>
      requests (runScenario4_run w ps config runNum) ! length (requests st1)
        = step2Messages w ps (step2_strict ps) part1 \<and>
      length (RunState.attempts st1) < length (RunState.attempts (runScenario4_run w ps config runNum)) \<and>
      RunState.attempts (runScenario4_run w ps config runNum) ! length (RunState.attempts st1) =
        toAttemptResult Part2Object 1 (attemptTimestamp w runNum (length (requests st1)))
          (attemptDurationMs w runNum (length (requests st1)))
          (promptTextOf (step2Messages w ps (step2_strict ps) part1))
          (runStrictAttempt (generateObject_Part2 w runNum (length (requests st1)))
             (stringify2_Part2 w) (zodMessage w) (step2Messages w ps (step2_strict ps) part1)) \<and>
      (scenario4_step2 w ps config runNum part1 st1 = (st2, Some part2) \<longrightarrow>
         length (RunState.attempts st1) < length (RunState.attempts st2) \<and>
         parsedResponse (last (RunState.attempts st2)) = Some (Part2Object part2) \<and>
         length (requests st2) < length (requests (runScenario4_run w ps config runNum)) \<and>
         requests (runScenario4_run w ps config runNum) ! length (requests st2)
           = step3Messages w ps (step3_strict ps) part1 part2 \<and>
         length (RunState.attempts st2)
           < length (RunState.attempts (runScenario4_run w ps config runNum)) \<and>
         RunState.attempts (runScenario4_run w ps config runNum) ! length (RunState.attempts st2) =
           toAttemptResult Part3Object 1 (attemptTimestamp w runNum (length (requests st2)))
             (attemptDurationMs w runNum (length (requests st2)))
             (promptTextOf (step3Messages w ps (step3_strict ps) part1 part2))
             (runStrictAttempt (generateObject_Part3 w runNum (length (requests st2)))
                (stringify2_Part3 w) (zodMessage w)
                (step3Messages w ps (step3_strict ps) part1 part2))) \<and>
      (RunState.success (runScenario4_run w ps config runNum) \<longrightarrow>
         (\<exists>st2 part2 st3 part3.
            scenario4_step2 w ps config runNum part1 st1 = (st2, Some part2) \<and>
            scenario4_step3 w ps config runNum part1 part2 st2 = (st3, Some part3) \<and>
            RunState.attempts (runScenario4_run w ps config runNum) = RunState.attempts st3 \<and>
            requests (runScenario4_run w ps config runNum) = requests st3 \<and>
            length (RunState.attempts st1) < length (RunState.attempts st2) \<and>
            length (RunState.attempts st2) < length (RunState.attempts st3) \<and>
            parsedResponse (last (RunState.attempts st3)) = Some (Part3Object part3)) \<and>
         length (RunState.attempts st1) + 2
           \<le> length (RunState.attempts (runScenario4_run w ps config runNum)) \<and>
         length (requests st1) + 2 \<le> length (requests (runScenario4_run w ps config runNum)) \<and>
         RunState.finalResponse (runScenario4_run w ps config runNum) =
           Some (ResponseObject \<lparr> Response.recommendation = SequentialPart1.recommendation part1,
                                   Response.action = None \<rparr>)))
   \<and>
   (scenario3_step1 w ps config runNum = (st1', Some part1') \<and>
    SequentialPart1.action part1' = None \<longrightarrow>
      length (requests st1') < length (requests (runScenario3_run w ps config runNum)) \<and>
      requests (runScenario3_run w ps config runNum) ! length (requests st1')
        = step2Messages w ps (step2_nonStrict ps) part1' \<and>
      (runNonStrictAttempt (generateText w runNum (length (requests st1'))) (trim w) (parse_Part2 w)
         (step2Messages w ps (step2_nonStrict ps) part1') = Inr result2 \<longrightarrow>
         length (RunState.attempts st1')
           < length (RunState.attempts (runScenario3_run w ps config runNum)) \<and>
         RunState.attempts (runScenario3_run w ps config runNum) ! length (RunState.attempts st1') =
           toAttemptResult Part2Object 1 (attemptTimestamp w runNum (length (requests st1')))
             (attemptDurationMs w runNum (length (requests st1')))
             (promptTextOf (step2Messages w ps (step2_nonStrict ps) part1')) result2) \<and>
      (scenario3_step2 w ps config runNum part1' st1' = (st2', Some part2') \<longrightarrow>
         length (RunState.attempts st1') < length (RunState.attempts st2') \<and>
         parsedResponse (last (RunState.attempts st2')) = Some (Part2Object part2') \<and>
         length (requests st2') < length (requests (runScenario3_run w ps config runNum)) \<and>
         requests (runScenario3_run w ps config runNum) ! length (requests st2')
           = step3Messages w ps (step3_nonStrict ps) part1' part2' \<and>
         (runNonStrictAttempt (generateText w runNum (length (requests st2'))) (trim w)
            (parse_Part3 w) (step3Messages w ps (step3_nonStrict ps) part1' part2') = Inr result3 \<longrightarrow>
            length (RunState.attempts st2')
              < length (RunState.attempts (runScenario3_run w ps config runNum)) \<and>
            RunState.attempts (runScenario3_run w ps config runNum) ! length (RunState.attempts st2') =
              toAttemptResult Part3Object 1 (attemptTimestamp w runNum (length (requests st2')))
                (attemptDurationMs w runNum (length (requests st2')))
                (promptTextOf (step3Messages w ps (step3_nonStrict ps) part1' part2')) result3)) \<and>
      (RunState.success (runScenario3_run w ps config runNum) \<longrightarrow>
         (\<exists>st2 part2 st3 part3.
            scenario3_step2 w ps config runNum part1' st1' = (st2, Some part2) \<and>
            scenario3_step3 w ps config runNum part1' part2 st2 = (st3, Some part3) \<and>
            RunState.attempts (runScenario3_run w ps config runNum) = RunState.attempts st3 \<and>
            requests (runScenario3_run w ps config runNum) = requests st3 \<and>
            length (RunState.attempts st1') < length (RunState.attempts st2) \<and>
            length (RunState.attempts st2) < length (RunState.attempts st3) \<and>
            parsedResponse (last (RunState.attempts st3)) = Some (Part3Object part3)) \<and>
         length (RunState.attempts st1') + 2
           \<le> length (RunState.attempts (runScenario3_run w ps config runNum)) \<and>
         length (requests st1') + 2 \<le> length (requests (runScenario3_run w ps config runNum)) \<and>
         RunState.finalResponse (runScenario3_run w ps config runNum) =
           Some (ResponseObject \<lparr> Response.recommendation = SequentialPart1.recommendation part1',
                                   Response.action = None \<rparr>)))"
proof (intro conjI impI; (elim conjE)?)
  assume s1: "scenario4_step1 w ps config runNum = (st1, Some part1)"
    and n: "SequentialPart1.action part1 = None"
  
  note new = runScenario4_try_stages[OF s1]
  show "length (requests st1) < length (requests (runScenario4_run w ps config runNum))"
    "requests (runScenario4_run w ps config runNum) ! length (requests st1)
        = step2Messages w ps (step2_strict ps) part1"
    using runScenario4_try_post(3)[OF s1] by (simp_all add: runScenario4_run_def)
  show "length (RunState.attempts st1) < length (RunState.attempts (runScenario4_run w ps config runNum))"
    "RunState.attempts (runScenario4_run w ps config runNum) ! length (RunState.attempts st1) =
        toAttemptResult Part2Object 1 (attemptTimestamp w runNum (length (requests st1)))
          (attemptDurationMs w runNum (length (requests st1)))
          (promptTextOf (step2Messages w ps (step2_strict ps) part1))
          (runStrictAttempt (generateObject_Part2 w runNum (length (requests st1)))
             (stringify2_Part2 w) (zodMessage w) (step2Messages w ps (step2_strict ps) part1))"
    using new(1) by (simp_all add: runScenario4_run_def)
  {
    assume s2: "scenario4_step2 w ps config runNum part1 st1 = (st2, Some part2)"
    note b = new(2)[OF s2]
    from b show "length (RunState.attempts st1) < length (RunState.attempts st2)" by simp
    from b show "parsedResponse (last (RunState.attempts st2)) = Some (Part2Object part2)" by simp
    from b show "length (requests st2) < length (requests (runScenario4_run w ps config runNum))"
      by (simp add: runScenario4_run_def)
    from b show "requests (runScenario4_run w ps config runNum) ! length (requests st2)
           = step3Messages w ps (step3_strict ps) part1 part2"
      by (simp add: runScenario4_run_def)
    from b show "length (RunState.attempts st2)
           < length (RunState.attempts (runScenario4_run w ps config runNum))"
      by (simp add: runScenario4_run_def)
    from b show "RunState.attempts (runScenario4_run w ps config runNum) ! length (RunState.attempts st2) =
           toAttemptResult Part3Object 1 (attemptTimestamp w runNum (length (requests st2)))
             (attemptDurationMs w runNum (length (requests st2)))
             (promptTextOf (step3Messages w ps (step3_strict ps) part1 part2))
             (runStrictAttempt (generateObject_Part3 w runNum (length (requests st2)))
                (stringify2_Part3 w) (zodMessage w)
                (step3Messages w ps (step3_strict ps) part1 part2))"
      by (simp add: runScenario4_run_def)
  }
  {
    assume ok: "RunState.success (runScenario4_run w ps config runNum)"
    then have ok': "RunState.success (runScenario4_try w ps config runNum)"
      by (simp add: runScenario4_run_def)
    from new(3)[OF ok'] obtain st2 part2 st3 part3 where
      e: "scenario4_step2 w ps config runNum part1 st1 = (st2, Some part2)"
         "scenario4_step3 w ps config runNum part1 part2 st2 = (st3, Some part3)"
         "RunState.attempts (runScenario4_try w ps config runNum) = RunState.attempts st3"
         "requests (runScenario4_try w ps config runNum) = requests st3"
         "length (RunState.attempts st2) < length (RunState.attempts st3)"
         "parsedResponse (last (RunState.attempts st3)) = Some (Part3Object part3)"
      by blast
    from new(2)[OF e(1)] have "length (RunState.attempts st1) < length (RunState.attempts st2)"
      by simp
    with e show "\<exists>st2 part2 st3 part3.
            scenario4_step2 w ps config runNum part1 st1 = (st2, Some part2) \<and>
            scenario4_step3 w ps config runNum part1 part2 st2 = (st3, Some part3) \<and>
            RunState.attempts (runScenario4_run w ps config runNum) = RunState.attempts st3 \<and>
            requests (runScenario4_run w ps config runNum) = requests st3 \<and>
            length (RunState.attempts st1) < length (RunState.attempts st2) \<and>
            length (RunState.attempts st2) < length (RunState.attempts st3) \<and>
            parsedResponse (last (RunState.attempts st3)) = Some (Part3Object part3)"
      unfolding runScenario4_run_def catchAll_sel by blast
    from runScenario4_try_post(3)[OF s1] ok' n
    show "length (RunState.attempts st1) + 2
           \<le> length (RunState.attempts (runScenario4_run w ps config runNum))"
      "length (requests st1) + 2 \<le> length (requests (runScenario4_run w ps config runNum))"
      "RunState.finalResponse (runScenario4_run w ps config runNum) =
           Some (ResponseObject \<lparr> Response.recommendation = SequentialPart1.recommendation part1,
                                   Response.action = None \<rparr>)"
      by (simp_all add: runScenario4_run_def)
  }
next
  assume s1: "scenario3_step1 w ps config runNum = (st1', Some part1')"
    and n: "SequentialPart1.action part1' = None"
  note new = runScenario3_try_stages[OF s1]
  show "length (requests st1') < length (requests (runScenario3_run w ps config runNum))"
    "requests (runScenario3_run w ps config runNum) ! length (requests st1')
        = step2Messages w ps (step2_nonStrict ps) part1'"
    using runScenario3_try_post(3)[OF s1] by (simp_all add: runScenario3_run_def)
  {
    assume "runNonStrictAttempt (generateText w runNum (length (requests st1'))) (trim w) (parse_Part2 w)
         (step2Messages w ps (step2_nonStrict ps) part1') = Inr result2"
    from new(1)[OF this]
    show "length (RunState.attempts st1')
           < length (RunState.attempts (runScenario3_run w ps config runNum))"
      "RunState.attempts (runScenario3_run w ps config runNum) ! length (RunState.attempts st1') =
           toAttemptResult Part2Object 1 (attemptTimestamp w runNum (length (requests st1')))
             (attemptDurationMs w runNum (length (requests st1')))
             (promptTextOf (step2Messages w ps (step2_nonStrict ps) part1')) result2"
      by (simp_all add: runScenario3_run_def)
  }
  {
    assume s2: "scenario3_step2 w ps config runNum part1' st1' = (st2', Some part2')"
    note b = new(2)[OF s2]
    from b show "length (RunState.attempts st1') < length (RunState.attempts st2')" by simp
    from b show "parsedResponse (last (RunState.attempts st2')) = Some (Part2Object part2')" by simp
    from b show "length (requests st2') < length (requests (runScenario3_run w ps config runNum))"
      by (simp add: runScenario3_run_def)
    from b show "requests (runScenario3_run w ps config runNum) ! length (requests st2')
           = step3Messages w ps (step3_nonStrict ps) part1' part2'"
      by (simp add: runScenario3_run_def)
    {
      assume "runNonStrictAttempt (generateText w runNum (length (requests st2'))) (trim w)
            (parse_Part3 w) (step3Messages w ps (step3_nonStrict ps) part1' part2') = Inr result3"
      from new(3)[OF s2 this]
      show "length (RunState.attempts st2')
              < length (RunState.attempts (runScenario3_run w ps config runNum))"
        "RunState.attempts (runScenario3_run w ps config runNum) ! length (RunState.attempts st2') =
              toAttemptResult Part3Object 1 (attemptTimestamp w runNum (length (requests st2')))
                (attemptDurationMs w runNum (length (requests st2')))
                (promptTextOf (step3Messages w ps (step3_nonStrict ps) part1' part2')) result3"
        by (simp_all add: runScenario3_run_def)
    }
  }
  {
    assume ok: "RunState.success (runScenario3_run w ps config runNum)"
    then have ok': "RunState.success (runScenario3_try w ps config runNum)"
      by (simp add: runScenario3_run_def)
    from new(4)[OF ok'] obtain st2 part2 st3 part3 where
      e: "scenario3_step2 w ps config runNum part1' st1' = (st2, Some part2)"
         "scenario3_step3 w ps config runNum part1' part2 st2 = (st3, Some part3)"
         "RunState.attempts (runScenario3_try w ps config runNum) = RunState.attempts st3"
         "requests (runScenario3_try w ps config runNum) = requests st3"
         "length (RunState.attempts st2) < length (RunState.attempts st3)"
         "parsedResponse (last (RunState.attempts st3)) = Some (Part3Object part3)"
      by blast
    from new(2)[OF e(1)] have "length (RunState.attempts st1') < length (RunState.attempts st2)"
      by simp
    with e show "\<exists>st2 part2 st3 part3.
            scenario3_step2 w ps config runNum part1' st1' = (st2, Some part2) \<and>
            scenario3_step3 w ps config runNum part1' part2 st2 = (st3, Some part3) \<and>
            RunState.attempts (runScenario3_run w ps config runNum) = RunState.attempts st3 \<and>
            requests (runScenario3_run w ps config runNum) = requests st3 \<and>
            length (RunState.attempts st1') < length (RunState.attempts st2) \<and>
            length (RunState.attempts st2) < length (RunState.attempts st3) \<and>
            parsedResponse (last (RunState.attempts st3)) = Some (Part3Object part3)"
      unfolding runScenario3_run_def catchAll_sel by blast
    from runScenario3_try_post(3)[OF s1] ok' n
    show "length (RunState.attempts st1') + 2
           \<le> length (RunState.attempts (runScenario3_run w ps config runNum))"
      "length (requests st1') + 2 \<le> length (requests (runScenario3_run w ps config runNum))"
      "RunState.finalResponse (runScenario3_run w ps config runNum) =
           Some (ResponseObject \<lparr> Response.recommendation = SequentialPart1.recommendation part1',
                                   Response.action = None \<rparr>)"
      by (simp_all add: runScenario3_run_def)
  }
qed

theorem null_action_runs_all_stages_witness:
  "snd (scenario4_step1 nullActionWorld shortPrompts oneRun 1) = Some nullPart1 \<and>
   SequentialPart1.action nullPart1 = None \<and>
   snd (scenario4_step2 nullActionWorld shortPrompts oneRun 1 nullPart1
          (fst (scenario4_step1 nullActionWorld shortPrompts oneRun 1))) = Some goodPart2 \<and>
   RunState.success (runScenario4_run nullActionWorld shortPrompts oneRun 1) \<and>
   requests (runScenario4_run nullActionWorld shortPrompts oneRun 1) ! 1
     = step2Messages nullActionWorld shortPrompts (step2_strict shortPrompts) nullPart1 \<and>
   requests (runScenario4_run nullActionWorld shortPrompts oneRun 1) ! 2
     = step3Messages nullActionWorld shortPrompts (step3_strict shortPrompts) nullPart1 goodPart2 \<and>
   2 < length (RunState.attempts (runScenario4_run nullActionWorld shortPrompts oneRun 1)) \<and>
   attemptNumber (RunState.attempts (runScenario4_run nullActionWorld shortPrompts oneRun 1) ! 1) = 1 \<and>
   attemptNumber (RunState.attempts (runScenario4_run nullActionWorld shortPrompts oneRun 1) ! 2) = 1 \<and>
   RunState.finalResponse (runScenario4_run nullActionWorld shortPrompts oneRun 1) =
     Some (ResponseObject \<lparr> Response.recommendation = SequentialPart1.recommendation nullPart1,
                             Response.action = None \<rparr>) \<and>
   snd (scenario3_step1 nullActionWorld shortPrompts oneRun 1) = Some nullPart1 \<and>
   snd (scenario3_step2 nullActionWorld shortPrompts oneRun 1 nullPart1
          (fst (scenario3_step1 nullActionWorld shortPrompts oneRun 1))) = Some goodPart2 \<and>
   runNonStrictAttempt (generateText nullActionWorld 1 1) (trim nullActionWorld)
       (parse_Part2 nullActionWorld)
       (step2Messages nullActionWorld shortPrompts (step2_nonStrict shortPrompts) nullPart1)
     = Inr \<lparr> AttemptOutcome.success = True, data = Some goodPart2, raw = ''{title:DBA}'',
             errors = None, tokens = Some \<lparr> tk_input = 0, tk_output = 0 \<rparr> \<rparr> \<and>
   runNonStrictAttempt (generateText nullActionWorld 1 2) (trim nullActionWorld)
       (parse_Part3 nullActionWorld)
       (step3Messages nullActionWorld shortPrompts (step3_nonStrict shortPrompts) nullPart1 goodPart2)
     = Inr \<lparr> AttemptOutcome.success = True, data = Some goodPart3, raw = ''{model:reasoning}'',
             errors = None, tokens = Some \<lparr> tk_input = 0, tk_output = 0 \<rparr> \<rparr> \<and>
   RunState.success (runScenario3_run nullActionWorld shortPrompts oneRun 1) \<and>
   requests (runScenario3_run nullActionWorld shortPrompts oneRun 1) ! 1
     = step2Messages nullActionWorld shortPrompts (step2_nonStrict shortPrompts) nullPart1 \<and>
   requests (runScenario3_run nullActionWorld shortPrompts oneRun 1) ! 2
     = step3Messages nullActionWorld shortPrompts (step3_nonStrict shortPrompts) nullPart1 goodPart2 \<and>
   2 < length (RunState.attempts (runScenario3_run nullActionWorld shortPrompts oneRun 1)) \<and>
   rawResponse (RunState.attempts (runScenario3_run nullActionWorld shortPrompts oneRun 1) ! 1)
     = ''{title:DBA}'' \<and>
   rawResponse (RunState.attempts (runScenario3_run nullActionWorld shortPrompts oneRun 1) ! 2)
     = ''{model:reasoning}'' \<and>
   RunState.finalResponse (runScenario3_run nullActionWorld shortPrompts oneRun 1) =
     Some (ResponseObject \<lparr> Response.recommendation = SequentialPart1.recommendation nullPart1,
                             Response.action = None \<rparr>)"
proof -
  let ?w = nullActionWorld and ?ps = shortPrompts
  let ?run4 = "runScenario4_run ?w ?ps oneRun 1"
  let ?run3 = "runScenario3_run ?w ?ps oneRun 1"
  let ?st1 = "fst (scenario4_step1 ?w ?ps oneRun 1)"
  let ?st2 = "fst (scenario4_step2 ?w ?ps oneRun 1 nullPart1 ?st1)"
  let ?st1' = "fst (scenario3_step1 ?w ?ps oneRun 1)"
  let ?st2' = "fst (scenario3_step2 ?w ?ps oneRun 1 nullPart1 ?st1')"
  let ?result2 = "\<lparr> AttemptOutcome.success = True, data = Some goodPart2, raw = ''{title:DBA}'',
             errors = None, tokens = Some \<lparr> tk_input = 0, tk_output = 0 \<rparr> \<rparr>"
  let ?result3 = "\<lparr> AttemptOutcome.success = True, data = Some goodPart3, raw = ''{model:reasoning}'',
             errors = None, tokens = Some \<lparr> tk_input = 0, tk_output = 0 \<rparr> \<rparr>"
  have r4: "snd (scenario4_step1 ?w ?ps oneRun 1) = Some nullPart1"
    by (simp add: eval_seq eval_world eval_parts)
  then have h4: "scenario4_step1 ?w ?ps oneRun 1 = (?st1, Some nullPart1)"
    by (metis prod.collapse)
  have l4: "length (requests ?st1) = 1" "length (RunState.attempts ?st1) = 1"
    by (simp_all add: eval_seq eval_world eval_parts)
  have q4: "snd (scenario4_step2 ?w ?ps oneRun 1 nullPart1 ?st1) = Some goodPart2"
    by (simp add: eval_seq eval_world eval_parts)
  then have g4: "scenario4_step2 ?w ?ps oneRun 1 nullPart1 ?st1 = (?st2, Some goodPart2)"
    by (metis prod.collapse)
  have m4: "length (requests ?st2) = 2" "length (RunState.attempts ?st2) = 2"
    by (simp_all add: eval_seq eval_world eval_parts)
  have s4: "RunState.success ?run4"
    by (simp add: eval_seq eval_world eval_parts)
  have r3: "snd (scenario3_step1 ?w ?ps oneRun 1) = Some nullPart1"
    by (simp add: eval_seq eval_world eval_parts eval_text)
  then have h3: "scenario3_step1 ?w ?ps oneRun 1 = (?st1', Some nullPart1)"
    by (metis prod.collapse)
  have l3: "length (requests ?st1') = 1" "length (RunState.attempts ?st1') = 1"
    by (simp_all add: eval_seq eval_world eval_parts eval_text)
  have q3: "snd (scenario3_step2 ?w ?ps oneRun 1 nullPart1 ?st1') = Some goodPart2"
    by (simp add: eval_seq eval_world eval_parts eval_text)
  then have g3: "scenario3_step2 ?w ?ps oneRun 1 nullPart1 ?st1' = (?st2', Some goodPart2)"
    by (metis prod.collapse)
  have m3: "length (requests ?st2') = 2" "length (RunState.attempts ?st2') = 2"
    by (simp_all add: eval_seq eval_world eval_parts eval_text)
  have s3: "RunState.success ?run3"
    by (simp add: eval_seq eval_world eval_parts eval_text)
  have a2: "runNonStrictAttempt (generateText ?w 1 1) (trim ?w) (parse_Part2 ?w)
       (step2Messages ?w ?ps (step2_nonStrict ?ps) nullPart1) = Inr ?result2"
    by (simp add: eval_world eval_parts step2Messages_def eval_text)
  have a3: "runNonStrictAttempt (generateText ?w 1 2) (trim ?w) (parse_Part3 ?w)
       (step3Messages ?w ?ps (step3_nonStrict ?ps) nullPart1 goodPart2) = Inr ?result3"
    by (simp add: eval_world eval_parts step3Messages_def eval_text)
  have n: "SequentialPart1.action nullPart1 = None"
    by (simp add: nullPart1_def)
  note inst = null_action_runs_all_stages[where w = ?w and ps = ?ps and config = oneRun
      and runNum = 1 and ?st1.0 = ?st1 and ?part1.0 = nullPart1 and ?st2.0 = ?st2
      and ?part2.0 = goodPart2 and st1' = ?st1' and part1' = nullPart1 and st2' = ?st2'
      and part2' = goodPart2 and ?result2.0 = ?result2 and ?result3.0 = ?result3,
      unfolded l4 m4 l3 m3]
  note c4 = inst[THEN conjunct1, rule_format, OF conjI[OF h4 n]]
  note c3 = inst[THEN conjunct2, rule_format, OF conjI[OF h3 n]]
  from c4 g4 s4 have d4:
    "requests ?run4 ! 1 = step2Messages ?w ?ps (step2_strict ?ps) nullPart1"
    "requests ?run4 ! 2 = step3Messages ?w ?ps (step3_strict ?ps) nullPart1 goodPart2"
    "2 < length (RunState.attempts ?run4)"
    "attemptNumber (RunState.attempts ?run4 ! 1) = 1"
    "attemptNumber (RunState.attempts ?run4 ! 2) = 1"
    "RunState.finalResponse ?run4 =
       Some (ResponseObject \<lparr> Response.recommendation = SequentialPart1.recommendation nullPart1,
                               Response.action = None \<rparr>)"
    by simp_all
  from c3 g3 s3 a2 a3 have d3:
    "requests ?run3 ! 1 = step2Messages ?w ?ps (step2_nonStrict ?ps) nullPart1"
    "requests ?run3 ! 2 = step3Messages ?w ?ps (step3_nonStrict ?ps) nullPart1 goodPart2"
    "2 < length (RunState.attempts ?run3)"
    "rawResponse (RunState.attempts ?run3 ! 1) = ''{title:DBA}''"
    "rawResponse (RunState.attempts ?run3 ! 2) = ''{model:reasoning}''"
    "RunState.finalResponse ?run3 =
       Some (ResponseObject \<lparr> Response.recommendation = SequentialPart1.recommendation nullPart1,
                               Response.action = None \<rparr>)"
    by simp_all
  from r4 n q4 s4 d4 r3 q3 a2 a3 s3 d3 show ?thesis
    by blast
qed

text \<open>
  The claim as stated fails in scenario 4: step 1 returns an object with a null action, and
  the run still makes three calls and records the attempts of steps 2 and 3.
\<close>

theorem null_action_counterexample:
  "snd (strictStep nullActionWorld 1 Part1Object (generateObject_Part1 nullActionWorld)
          (stringify2_Part1 nullActionWorld) (maxRetries oneRun)
          (step1Messages shortPrompts (step1_strict shortPrompts)) initialRunState)
     = Some nullPart1 \<and>
   SequentialPart1.action nullPart1 = None \<and>
   length (requests (runScenario4_run nullActionWorld shortPrompts oneRun 1)) = 3 \<and>
   map parsedResponse (RunState.attempts (runScenario4_run nullActionWorld shortPrompts oneRun 1))
     = [Some (Part1Object nullPart1), Some (Part2Object goodPart2), Some (Part3Object goodPart3)]"
  by (simp add: eval_seq eval_world eval_parts)

section \<open>Transport failures\<close>

lemma runStrictAttempt_transport:
  assumes "generateObject messages = ObjectThrows e" "\<forall>issues. e \<noteq> ZodError issues"
  shows "runStrictAttempt generateObject stringify2 zm messages =
           \<lparr> AttemptOutcome.success = False, data = None, raw = [],
             errors = Some [\<lparr> ValidationError.path = [],
                              ValidationError.message = errorMessageOf zm e,
                              ValidationError.code = ''api_error'' \<rparr>],
             tokens = None \<rparr>"
  using assms by (cases e) (simp_all add: runStrictAttempt_def)

lemma strict_run_never_throws:
  "thrown (runScenario2_run w ps config runNum) = None"
proof (cases "thrown (runScenario2_run w ps config runNum)")
  case (Some e)
  with runScenario2_run_post[of w runNum ps config] show ?thesis
    by (simp add: oneShotPost_def)
qed simp

lemma strict_run_all_transport_failures:
  assumes all: "\<forall>i messages. \<exists>e. generateObject_Response w runNum i messages = ObjectThrows e \<and>
                   (\<forall>issues. e \<noteq> ZodError issues)"
  shows "length (RunState.attempts (runScenario2_run w ps config runNum)) = maxRetries config + 1"
    and "\<forall>a \<in> set (RunState.attempts (runScenario2_run w ps config runNum)).
           \<not> AttemptResult.success a \<and> errorMessage a = None \<and> rawResponse a = [] \<and>
           (\<exists>e. validationErrors a =
                  [\<lparr> ValidationError.path = [],
                     ValidationError.message = errorMessageOf (zodMessage w) e,
                     ValidationError.code = ''api_error'' \<rparr>])"
proof -
  let ?st = "runScenario2_run w ps config runNum"
  note post = runScenario2_run_post[of w runNum ps config]
  note t = strict_run_never_throws[of w ps config runNum]
  show each: "\<forall>a \<in> set (RunState.attempts ?st).
           \<not> AttemptResult.success a \<and> errorMessage a = None \<and> rawResponse a = [] \<and>
           (\<exists>e. validationErrors a =
                  [\<lparr> ValidationError.path = [],
                     ValidationError.message = errorMessageOf (zodMessage w) e,
                     ValidationError.code = ''api_error'' \<rparr>])"
  proof
    fix a assume "a \<in> set (RunState.attempts ?st)"
    then obtain j where j: "j < length (RunState.attempts ?st)" "a = RunState.attempts ?st ! j"
      by (auto simp: in_set_conv_nth)
    with post obtain result where
      r: "Inr (runStrictAttempt (generateObject_Response w runNum j) (stringify2_Response w)
                 (zodMessage w) (requests ?st ! j)) = (Inr result :: Exception + Response AttemptOutcome)"
      and a: "a = toAttemptResult ResponseObject (j + 1) (attemptTimestamp w runNum j)
                    (attemptDurationMs w runNum j) (promptTextOf (requests ?st ! j)) result"
      unfolding oneShotPost_def recordsCalls_def by blast
    from all obtain e where e: "generateObject_Response w runNum j (requests ?st ! j) = ObjectThrows e"
      "\<forall>issues. e \<noteq> ZodError issues" by blast
    from r runStrictAttempt_transport[of "generateObject_Response w runNum j" "requests ?st ! j" e, OF e] have
      "result = \<lparr> AttemptOutcome.success = False, data = None, raw = [],
             errors = Some [\<lparr> ValidationError.path = [],
                              ValidationError.message = errorMessageOf (zodMessage w) e,
                              ValidationError.code = ''api_error'' \<rparr>],
             tokens = None \<rparr>"
      by simp
    with a show "\<not> AttemptResult.success a \<and> errorMessage a = None \<and> rawResponse a = [] \<and>
           (\<exists>e. validationErrors a =
                  [\<lparr> ValidationError.path = [],
                     ValidationError.message = errorMessageOf (zodMessage w) e,
                     ValidationError.code = ''api_error'' \<rparr>])"
      by auto
  qed
  from post t have ne: "RunState.attempts ?st \<noteq> []"
    and fin: "RunState.success ?st = AttemptResult.success (last (RunState.attempts ?st))"
    and ex: "RunState.success ?st \<or> length (RunState.attempts ?st) = maxRetries config + 1"
    by (auto simp: oneShotPost_def)
  from ne each have "\<not> AttemptResult.success (last (RunState.attempts ?st))"
    by (meson last_in_set)
  with fin ex show "length (RunState.attempts ?st) = maxRetries config + 1"
    by simp
qed

lemma strict_executors_return:
  "runScenario2 w ps config
     = Inr (map (\<lambda>j. toRunResult w j (runScenario2_run w ps config j)) [1..<Suc (runsPerScenario config)])"
  "runScenario4 w ps config
     = Inr (map (\<lambda>j. toRunResult w j (runScenario4_run w ps config j)) [1..<Suc (runsPerScenario config)])"
  unfolding runScenario2_def runScenario4_def
  by (subst runsLoop_total; simp add: strict_run_never_throws runScenario4_run_def)+

lemma transport_record:
  assumes "generateObject messages = ObjectThrows e" "\<forall>issues. e \<noteq> ZodError issues"
  shows "toAttemptResult asRecord n stamp duration promptText
           (runStrictAttempt generateObject stringify2 zm messages) =
         \<lparr> attemptNumber = n, timestamp = stamp, AttemptResult.success = False,
           durationMs = duration, AttemptResult.inputTokens = None,
           AttemptResult.outputTokens = None, AttemptResult.prompt = promptText,
           rawResponse = [], parsedResponse = None,
           validationErrors = [\<lparr> ValidationError.path = [],
                                  ValidationError.message = errorMessageOf zm e,
                                  ValidationError.code = ''api_error'' \<rparr>],
           errorMessage = None \<rparr>"
  using runStrictAttempt_transport[of generateObject messages e stringify2 zm, OF assms]
  by (simp add: toAttemptResult_def)

lemma strict_run_shape:
  "thrown (runScenario2_run w ps config runNum) = None"
  "length (requests (runScenario2_run w ps config runNum))
     = length (RunState.attempts (runScenario2_run w ps config runNum))"
  "1 \<le> length (RunState.attempts (runScenario2_run w ps config runNum))"
  "length (RunState.attempts (runScenario2_run w ps config runNum)) \<le> maxRetries config + 1"
  "RunState.success (runScenario2_run w ps config runNum)
     = AttemptResult.success (last (RunState.attempts (runScenario2_run w ps config runNum)))"
  "RunState.success (runScenario2_run w ps config runNum) \<or>
     length (RunState.attempts (runScenario2_run w ps config runNum)) = maxRetries config + 1"
proof -
  let ?st = "runScenario2_run w ps config runNum"
  note post = runScenario2_run_post[of w runNum ps config]
  note t = strict_run_never_throws[of w ps config runNum]
  show "thrown ?st = None" by (rule t)
  from post t have ne: "RunState.attempts ?st \<noteq> []"
    by (simp add: oneShotPost_def)
  then show "1 \<le> length (RunState.attempts ?st)"
    by (cases "RunState.attempts ?st") simp_all
  from post t show "length (requests ?st) = length (RunState.attempts ?st)"
    "length (RunState.attempts ?st) \<le> maxRetries config + 1"
    "RunState.success ?st = AttemptResult.success (last (RunState.attempts ?st))"
    "RunState.success ?st \<or> length (RunState.attempts ?st) = maxRetries config + 1"
    by (auto simp: oneShotPost_def)
qed

lemma strict_run_transport_attempt:
  assumes j: "j < length (RunState.attempts (runScenario2_run w ps config runNum))"
    and e: "generateObject_Response w runNum j (requests (runScenario2_run w ps config runNum) ! j)
              = ObjectThrows e" "\<forall>issues. e \<noteq> ZodError issues"
  shows "RunState.attempts (runScenario2_run w ps config runNum) ! j =
           \<lparr> attemptNumber = j + 1, timestamp = attemptTimestamp w runNum j,
             AttemptResult.success = False, durationMs = attemptDurationMs w runNum j,
             AttemptResult.inputTokens = None, AttemptResult.outputTokens = None,
             AttemptResult.prompt = promptTextOf (requests (runScenario2_run w ps config runNum) ! j),
             rawResponse = [], parsedResponse = None,
             validationErrors = [\<lparr> ValidationError.path = [],
                                    ValidationError.message = errorMessageOf (zodMessage w) e,
                                    ValidationError.code = ''api_error'' \<rparr>],
             errorMessage = None \<rparr>"
    and "j < maxRetries config \<Longrightarrow>
           Suc j < length (RunState.attempts (runScenario2_run w ps config runNum))"
    and "j = maxRetries config \<Longrightarrow> \<not> RunState.success (runScenario2_run w ps config runNum)"
proof -
  let ?st = "runScenario2_run w ps config runNum"
  note post = runScenario2_run_post[of w runNum ps config]
  note sh = strict_run_shape[of w ps config runNum]
  from post j obtain result where
    r: "Inr (runStrictAttempt (generateObject_Response w runNum j) (stringify2_Response w)
               (zodMessage w) (requests ?st ! j)) = (Inr result :: Exception + Response AttemptOutcome)"
    and a: "RunState.attempts ?st ! j =
              toAttemptResult ResponseObject (j + 1) (attemptTimestamp w runNum j)
                (attemptDurationMs w runNum j) (promptTextOf (requests ?st ! j)) result"
    unfolding oneShotPost_def recordsCalls_def by blast
  from r have "result = runStrictAttempt (generateObject_Response w runNum j) (stringify2_Response w)
               (zodMessage w) (requests ?st ! j)" by simp
  with a transport_record[of "generateObject_Response w runNum j" "requests ?st ! j" e, OF e]
  show rec: "RunState.attempts ?st ! j =
           \<lparr> attemptNumber = j + 1, timestamp = attemptTimestamp w runNum j,
             AttemptResult.success = False, durationMs = attemptDurationMs w runNum j,
             AttemptResult.inputTokens = None, AttemptResult.outputTokens = None,
             AttemptResult.prompt = promptTextOf (requests ?st ! j),
             rawResponse = [], parsedResponse = None,
             validationErrors = [\<lparr> ValidationError.path = [],
                                    ValidationError.message = errorMessageOf (zodMessage w) e,
                                    ValidationError.code = ''api_error'' \<rparr>],
             errorMessage = None \<rparr>"
    by simp
  then have nj: "\<not> AttemptResult.success (RunState.attempts ?st ! j)" by simp
  have lastj: "Suc j = length (RunState.attempts ?st) \<Longrightarrow> \<not> RunState.success ?st"
  proof -
    assume l: "Suc j = length (RunState.attempts ?st)"
    then have "RunState.attempts ?st \<noteq> []" by auto
    then have "last (RunState.attempts ?st) = RunState.attempts ?st ! (length (RunState.attempts ?st) - 1)"
      by (rule last_conv_nth)
    with l have "last (RunState.attempts ?st) = RunState.attempts ?st ! j"
      by (metis diff_Suc_1)
    with nj sh(5) show ?thesis by simp
  qed
  {
    assume lt: "j < maxRetries config"
    show "Suc j < length (RunState.attempts ?st)"
    proof (rule ccontr)
      assume "\<not> Suc j < length (RunState.attempts ?st)"
      with j have l: "Suc j = length (RunState.attempts ?st)" by simp
      from lastj[OF l] sh(6) l lt show False by simp
    qed
  }
  {
    assume eq: "j = maxRetries config"
    with j sh(4) have "Suc j = length (RunState.attempts ?st)" by simp
    from lastj[OF this] show "\<not> RunState.success ?st" .
  }
qed

lemma strictStep_transport_attempt:
  assumes t: "thrown st0 = None"
    and out: "strictStep w runNum f gen str retries m0 st0 = (st, res)"
  shows "thrown st = None"
    and "length (requests st) - length (requests st0)
           = length (RunState.attempts st) - length (RunState.attempts st0)"
    and "length (RunState.attempts st0) + k < length (RunState.attempts st) \<Longrightarrow>
         gen runNum (length (requests st0) + k) m0 = ObjectThrows e \<Longrightarrow>
         \<forall>issues. e \<noteq> ZodError issues \<Longrightarrow>
           RunState.attempts st ! (length (RunState.attempts st0) + k) =
             \<lparr> attemptNumber = k + 1,
               timestamp = attemptTimestamp w runNum (length (requests st0) + k),
               AttemptResult.success = False,
               durationMs = attemptDurationMs w runNum (length (requests st0) + k),
               AttemptResult.inputTokens = None, AttemptResult.outputTokens = None,
               AttemptResult.prompt = promptTextOf m0,
               rawResponse = [], parsedResponse = None,
               validationErrors = [\<lparr> ValidationError.path = [],
                                      ValidationError.message = errorMessageOf (zodMessage w) e,
                                      ValidationError.code = ''api_error'' \<rparr>],
               errorMessage = None \<rparr> \<and>
           (k < retries \<longrightarrow>
              length (RunState.attempts st0) + Suc k < length (RunState.attempts st)) \<and>
           (k = retries \<longrightarrow> res = None)"
proof -
  let ?ra = "\<lambda>i messages. Inr (runStrictAttempt (gen runNum i) str (zodMessage w) messages)
               :: Exception + 'a AttemptOutcome"
  note post = strictStep_post[OF t, of w runNum f gen str retries m0, unfolded out]
  from post obtain reqs atts where
    sh: "requests st = requests st0 @ reqs" "RunState.attempts st = RunState.attempts st0 @ atts"
    and ne: "reqs \<noteq> []" and le: "length atts \<le> retries + 1"
    and tr: "stepTrace w runNum f ?ra False (length (requests st0)) m0 reqs atts"
    and th: "case thrown st of
           None \<Rightarrow>
             length reqs = length atts \<and>
             (res \<noteq> None \<longrightarrow> AttemptResult.success (last atts)) \<and>
             (\<not> AttemptResult.success (last atts) \<longrightarrow>
                res = None \<and> length atts = retries + 1)
         | Some e \<Rightarrow> ?ra (length (requests st0) + length atts) (last reqs) = Inl e"
    unfolding stepPost_def by (auto split: option.splits)
  show tn: "thrown st = None"
  proof (cases "thrown st")
    case (Some x)
    with th show ?thesis by simp
  qed simp
  with th have len: "length reqs = length atts"
    and fin: "\<not> AttemptResult.success (last atts) \<Longrightarrow> res = None \<and> length atts = retries + 1"
    by simp_all
  from sh len show "length (requests st) - length (requests st0)
           = length (RunState.attempts st) - length (RunState.attempts st0)"
    by simp
  {
    assume k: "length (RunState.attempts st0) + k < length (RunState.attempts st)"
      and e: "gen runNum (length (requests st0) + k) m0 = ObjectThrows e"
        "\<forall>issues. e \<noteq> ZodError issues"
    from k sh have kl: "k < length atts" by simp
    with len have kr: "k < length reqs" by simp
    from stepTrace_same[OF tr kr] have rk: "reqs ! k = m0" .
    from tr kl obtain result where
      r: "?ra (length (requests st0) + k) (reqs ! k) = Inr result"
      and a: "atts ! k = toAttemptResult f (k + 1) (attemptTimestamp w runNum (length (requests st0) + k))
                (attemptDurationMs w runNum (length (requests st0) + k)) (promptTextOf (reqs ! k)) result"
      unfolding stepTrace_def by blast
    from r rk have "result = runStrictAttempt (gen runNum (length (requests st0) + k)) str (zodMessage w) m0"
      by simp
    with a rk transport_record[of "gen runNum (length (requests st0) + k)" m0 e, OF e]
    have rec: "atts ! k =
             \<lparr> attemptNumber = k + 1,
               timestamp = attemptTimestamp w runNum (length (requests st0) + k),
               AttemptResult.success = False,
               durationMs = attemptDurationMs w runNum (length (requests st0) + k),
               AttemptResult.inputTokens = None, AttemptResult.outputTokens = None,
               AttemptResult.prompt = promptTextOf m0,
               rawResponse = [], parsedResponse = None,
               validationErrors = [\<lparr> ValidationError.path = [],
                                      ValidationError.message = errorMessageOf (zodMessage w) e,
                                      ValidationError.code = ''api_error'' \<rparr>],
               errorMessage = None \<rparr>"
      by simp
    then have nk: "\<not> AttemptResult.success (atts ! k)" by simp
    have lastk: "Suc k = length atts \<Longrightarrow> res = None \<and> length atts = retries + 1"
    proof -
      assume l: "Suc k = length atts"
      then have "atts \<noteq> []" by auto
      then have "last atts = atts ! (length atts - 1)" by (rule last_conv_nth)
      with l have "last atts = atts ! k" by (metis diff_Suc_1)
      with nk fin show ?thesis by simp
    qed
    have c1: "k < retries \<longrightarrow> Suc k < length atts"
    proof
      assume lt: "k < retries"
      show "Suc k < length atts"
      proof (rule ccontr)
        assume "\<not> Suc k < length atts"
        with kl have l: "Suc k = length atts" by simp
        from lastk[OF l] l lt show False by simp
      qed
    qed
    have c2: "k = retries \<longrightarrow> res = None"
    proof
      assume "k = retries"
      with kl le have "Suc k = length atts" by simp
      from lastk[OF this] show "res = None" by simp
    qed
    from rec c1 c2 sh
    show "RunState.attempts st ! (length (RunState.attempts st0) + k) =
             \<lparr> attemptNumber = k + 1,
               timestamp = attemptTimestamp w runNum (length (requests st0) + k),
               AttemptResult.success = False,
               durationMs = attemptDurationMs w runNum (length (requests st0) + k),
               AttemptResult.inputTokens = None, AttemptResult.outputTokens = None,
               AttemptResult.prompt = promptTextOf m0,
               rawResponse = [], parsedResponse = None,
               validationErrors = [\<lparr> ValidationError.path = [],
                                      ValidationError.message = errorMessageOf (zodMessage w) e,
                                      ValidationError.code = ''api_error'' \<rparr>],
               errorMessage = None \<rparr> \<and>
           (k < retries \<longrightarrow>
              length (RunState.attempts st0) + Suc k < length (RunState.attempts st)) \<and>
           (k = retries \<longrightarrow> res = None)"
      by simp
  }
qed

text \<open>
  Claim C4, as amended. In enforced mode, when \<open>generateObject\<close> throws an error that is
  not a validation error, \<open>runStrictAttempt\<close> returns a failed result with an empty raw
  response whose error list is the single entry with an empty path, the message of that error
  and the code \<open>api_error\<close>, and the attempt record built from that result is failed, has
  that entry as its \<open>validationErrors\<close>, an empty raw response and \<open>errorMessage\<close>
  null. A scenario 2 run never ends with an exception and records between 1 and
  \<open>maxRetries + 1\<close> attempts, one per call. Every attempt \<open>j\<close> (counted from 0) of such
  a run whose call threw such an error \<open>e2\<close> is exactly that record, with the message of
  \<open>e2\<close>; if \<open>j < maxRetries\<close> the loop goes on to another attempt, and if
  \<open>j = maxRetries\<close> the run has failed. When every call fails in this way the run records
  exactly \<open>maxRetries + 1\<close> failed attempts, each with the entry of the error its own call
  threw. The same holds of every step loop of scenario 4, started in a state \<open>st0\<close> with no
  exception in flight: the step ends with none, attempt \<open>k\<close> of the step is that record
  when its call threw such an error, another attempt follows if \<open>k < retries\<close>, and the
  step has no result if \<open>k = retries\<close>. \<open>runScenario2\<close> and \<open>runScenario4\<close> always
  return their runs, one per configured repetition.
\<close>

theorem transport_failure_in_strict_mode:
  "(generateObject messages = ObjectThrows e \<and> (\<forall>issues. e \<noteq> ZodError issues) \<longrightarrow>
      runStrictAttempt generateObject stringify2 zm messages =
        \<lparr> AttemptOutcome.success = False, data = None, raw = [],
          errors = Some [\<lparr> ValidationError.path = [],
                           ValidationError.message = errorMessageOf zm e,
                           ValidationError.code = ''api_error'' \<rparr>],
          tokens = None \<rparr> \<and>
      toAttemptResult asRecord n stamp duration promptText
          (runStrictAttempt generateObject stringify2 zm messages) =
        \<lparr> attemptNumber = n, timestamp = stamp, AttemptResult.success = False,
          durationMs = duration, AttemptResult.inputTokens = None,
          AttemptResult.outputTokens = None, AttemptResult.prompt = promptText,
          rawResponse = [], parsedResponse = None,
          validationErrors = [\<lparr> ValidationError.path = [],
                                 ValidationError.message = errorMessageOf zm e,
                                 ValidationError.code = ''api_error'' \<rparr>],
          errorMessage = None \<rparr>)
   \<and>
   thrown (runScenario2_run w ps config runNum) = None \<and>
   length (requests (runScenario2_run w ps config runNum))
     = length (RunState.attempts (runScenario2_run w ps config runNum)) \<and>
   1 \<le> length (RunState.attempts (runScenario2_run w ps config runNum)) \<and>
   length (RunState.attempts (runScenario2_run w ps config runNum)) \<le> maxRetries config + 1
   \<and>
   (j < length (RunState.attempts (runScenario2_run w ps config runNum)) \<and>
    generateObject_Response w runNum j (requests (runScenario2_run w ps config runNum) ! j)
      = ObjectThrows e2 \<and>
    (\<forall>issues. e2 \<noteq> ZodError issues) \<longrightarrow>
      RunState.attempts (runScenario2_run w ps config runNum) ! j =
        \<lparr> attemptNumber = j + 1, timestamp = attemptTimestamp w runNum j,
          AttemptResult.success = False, durationMs = attemptDurationMs w runNum j,
          AttemptResult.inputTokens = None, AttemptResult.outputTokens = None,
          AttemptResult.prompt = promptTextOf (requests (runScenario2_run w ps config runNum) ! j),
          rawResponse = [], parsedResponse = None,
          validationErrors = [\<lparr> ValidationError.path = [],
                                 ValidationError.message = errorMessageOf (zodMessage w) e2,
                                 ValidationError.code = ''api_error'' \<rparr>],
          errorMessage = None \<rparr> \<and>
      (j < maxRetries config \<longrightarrow>
         Suc j < length (RunState.attempts (runScenario2_run w ps config runNum))) \<and>
      (j = maxRetries config \<longrightarrow> \<not> RunState.success (runScenario2_run w ps config runNum)))
   \<and>
   ((\<forall>i messages. \<exists>e. generateObject_Response w runNum i messages = ObjectThrows e \<and>
                       (\<forall>issues. e \<noteq> ZodError issues)) \<longrightarrow>
      length (RunState.attempts (runScenario2_run w ps config runNum)) = maxRetries config + 1 \<and>
      \<not> RunState.success (runScenario2_run w ps config runNum) \<and>
      (\<forall>a \<in> set (RunState.attempts (runScenario2_run w ps config runNum)).
         \<not> AttemptResult.success a \<and> errorMessage a = None \<and> rawResponse a = []) \<and>
      (\<forall>i < length (RunState.attempts (runScenario2_run w ps config runNum)).
         \<exists>e. generateObject_Response w runNum i (requests (runScenario2_run w ps config runNum) ! i)
                = ObjectThrows e \<and>
              validationErrors (RunState.attempts (runScenario2_run w ps config runNum) ! i) =
                [\<lparr> ValidationError.path = [],
                   ValidationError.message = errorMessageOf (zodMessage w) e,
                   ValidationError.code = ''api_error'' \<rparr>]))
   \<and>
   (thrown st0 = None \<and> strictStep w runNum asRecord' gen str retries m0 st0 = (st, res) \<longrightarrow>
      thrown st = None \<and>
      (length (RunState.attempts st0) + k < length (RunState.attempts st) \<and>
       gen runNum (length (requests st0) + k) m0 = ObjectThrows e3 \<and>
       (\<forall>issues. e3 \<noteq> ZodError issues) \<longrightarrow>
         RunState.attempts st ! (length (RunState.attempts st0) + k) =
           \<lparr> attemptNumber = k + 1,
             timestamp = attemptTimestamp w runNum (length (requests st0) + k),
             AttemptResult.success = False,
             durationMs = attemptDurationMs w runNum (length (requests st0) + k),
             AttemptResult.inputTokens = None, AttemptResult.outputTokens = None,
             AttemptResult.prompt = promptTextOf m0,
             rawResponse = [], parsedResponse = None,
             validationErrors = [\<lparr> ValidationError.path = [],
                                    ValidationError.message = errorMessageOf (zodMessage w) e3,
                                    ValidationError.code = ''api_error'' \<rparr>],
             errorMessage = None \<rparr> \<and>
         (k < retries \<longrightarrow>
            length (RunState.attempts st0) + Suc k < length (RunState.attempts st)) \<and>
         (k = retries \<longrightarrow> res = None)))
   \<and>
   (\<exists>runs. runScenario2 w ps config = Inr runs \<and> length runs = runsPerScenario config)
   \<and>
   (\<exists>runs. runScenario4 w ps config = Inr runs \<and> length runs = runsPerScenario config)"
proof -
  let ?run = "runScenario2_run w ps config runNum"
  have c1: "generateObject messages = ObjectThrows e \<and> (\<forall>issues. e \<noteq> ZodError issues) \<longrightarrow>
      runStrictAttempt generateObject stringify2 zm messages =
        \<lparr> AttemptOutcome.success = False, data = None, raw = [],
          errors = Some [\<lparr> ValidationError.path = [],
                           ValidationError.message = errorMessageOf zm e,
                           ValidationError.code = ''api_error'' \<rparr>],
          tokens = None \<rparr> \<and>
      toAttemptResult asRecord n stamp duration promptText
          (runStrictAttempt generateObject stringify2 zm messages) =
        \<lparr> attemptNumber = n, timestamp = stamp, AttemptResult.success = False,
          durationMs = duration, AttemptResult.inputTokens = None,
          AttemptResult.outputTokens = None, AttemptResult.prompt = promptText,
          rawResponse = [], parsedResponse = None,
          validationErrors = [\<lparr> ValidationError.path = [],
                                 ValidationError.message = errorMessageOf zm e,
                                 ValidationError.code = ''api_error'' \<rparr>],
          errorMessage = None \<rparr>"
    using runStrictAttempt_transport[of generateObject messages e stringify2 zm]
      transport_record[of generateObject messages e asRecord n stamp duration promptText stringify2 zm]
    by blast
  note sh = strict_run_shape[of w ps config runNum]
  have c2: "thrown ?run = None \<and> length (requests ?run) = length (RunState.attempts ?run) \<and>
      1 \<le> length (RunState.attempts ?run) \<and> length (RunState.attempts ?run) \<le> maxRetries config + 1"
    using sh(1-4) by blast
  have c3: "j < length (RunState.attempts ?run) \<and>
    generateObject_Response w runNum j (requests ?run ! j) = ObjectThrows e2 \<and>
    (\<forall>issues. e2 \<noteq> ZodError issues) \<longrightarrow>
      RunState.attempts ?run ! j =
        \<lparr> attemptNumber = j + 1, timestamp = attemptTimestamp w runNum j,
          AttemptResult.success = False, durationMs = attemptDurationMs w runNum j,
          AttemptResult.inputTokens = None, AttemptResult.outputTokens = None,
          AttemptResult.prompt = promptTextOf (requests ?run ! j),
          rawResponse = [], parsedResponse = None,
          validationErrors = [\<lparr> ValidationError.path = [],
                                 ValidationError.message = errorMessageOf (zodMessage w) e2,
                                 ValidationError.code = ''api_error'' \<rparr>],
          errorMessage = None \<rparr> \<and>
      (j < maxRetries config \<longrightarrow> Suc j < length (RunState.attempts ?run)) \<and>
      (j = maxRetries config \<longrightarrow> \<not> RunState.success ?run)"
    using strict_run_transport_attempt[of j w ps config runNum e2] by blast
  have c4: "(\<forall>i messages. \<exists>e. generateObject_Response w runNum i messages = ObjectThrows e \<and>
                       (\<forall>issues. e \<noteq> ZodError issues)) \<longrightarrow>
      length (RunState.attempts ?run) = maxRetries config + 1 \<and>
      \<not> RunState.success ?run \<and>
      (\<forall>a \<in> set (RunState.attempts ?run).
         \<not> AttemptResult.success a \<and> errorMessage a = None \<and> rawResponse a = []) \<and>
      (\<forall>i < length (RunState.attempts ?run).
         \<exists>e. generateObject_Response w runNum i (requests ?run ! i) = ObjectThrows e \<and>
              validationErrors (RunState.attempts ?run ! i) =
                [\<lparr> ValidationError.path = [],
                   ValidationError.message = errorMessageOf (zodMessage w) e,
                   ValidationError.code = ''api_error'' \<rparr>])"
  proof
    assume all: "\<forall>i messages. \<exists>e. generateObject_Response w runNum i messages = ObjectThrows e \<and>
                       (\<forall>issues. e \<noteq> ZodError issues)"
    note f = strict_run_all_transport_failures[OF all, of ps config]
    have each: "\<forall>i < length (RunState.attempts ?run).
         \<exists>e. generateObject_Response w runNum i (requests ?run ! i) = ObjectThrows e \<and>
              validationErrors (RunState.attempts ?run ! i) =
                [\<lparr> ValidationError.path = [],
                   ValidationError.message = errorMessageOf (zodMessage w) e,
                   ValidationError.code = ''api_error'' \<rparr>]"
    proof (intro allI impI)
      fix i assume i: "i < length (RunState.attempts ?run)"
      from all obtain e where e: "generateObject_Response w runNum i (requests ?run ! i) = ObjectThrows e"
        "\<forall>issues. e \<noteq> ZodError issues" by blast
      from strict_run_transport_attempt(1)[OF i e] e(1)
      show "\<exists>e. generateObject_Response w runNum i (requests ?run ! i) = ObjectThrows e \<and>
              validationErrors (RunState.attempts ?run ! i) =
                [\<lparr> ValidationError.path = [],
                   ValidationError.message = errorMessageOf (zodMessage w) e,
                   ValidationError.code = ''api_error'' \<rparr>]"
        by simp
    qed
    from sh(3) have "RunState.attempts ?run \<noteq> []" by auto
    then have "last (RunState.attempts ?run) \<in> set (RunState.attempts ?run)" by simp
    with f(2) sh(5) have ns: "\<not> RunState.success ?run" by blast
    from f ns each
    show "length (RunState.attempts ?run) = maxRetries config + 1 \<and>
      \<not> RunState.success ?run \<and>
      (\<forall>a \<in> set (RunState.attempts ?run).
         \<not> AttemptResult.success a \<and> errorMessage a = None \<and> rawResponse a = []) \<and>
      (\<forall>i < length (RunState.attempts ?run).
         \<exists>e. generateObject_Response w runNum i (requests ?run ! i) = ObjectThrows e \<and>
              validationErrors (RunState.attempts ?run ! i) =
                [\<lparr> ValidationError.path = [],
                   ValidationError.message = errorMessageOf (zodMessage w) e,
                   ValidationError.code = ''api_error'' \<rparr>])"
      by blast
  qed
  have c5: "thrown st0 = None \<and> strictStep w runNum asRecord' gen str retries m0 st0 = (st, res) \<longrightarrow>
      thrown st = None \<and>
      (length (RunState.attempts st0) + k < length (RunState.attempts st) \<and>
       gen runNum (length (requests st0) + k) m0 = ObjectThrows e3 \<and>
       (\<forall>issues. e3 \<noteq> ZodError issues) \<longrightarrow>
         RunState.attempts st ! (length (RunState.attempts st0) + k) =
           \<lparr> attemptNumber = k + 1,
             timestamp = attemptTimestamp w runNum (length (requests st0) + k),
             AttemptResult.success = False,
             durationMs = attemptDurationMs w runNum (length (requests st0) + k),
             AttemptResult.inputTokens = None, AttemptResult.outputTokens = None,
             AttemptResult.prompt = promptTextOf m0,
             rawResponse = [], parsedResponse = None,
             validationErrors = [\<lparr> ValidationError.path = [],
                                    ValidationError.message = errorMessageOf (zodMessage w) e3,
                                    ValidationError.code = ''api_error'' \<rparr>],
             errorMessage = None \<rparr> \<and>
         (k < retries \<longrightarrow>
            length (RunState.attempts st0) + Suc k < length (RunState.attempts st)) \<and>
         (k = retries \<longrightarrow> res = None))"
  proof (intro impI, elim conjE)
    assume t: "thrown st0 = None"
      and out: "strictStep w runNum asRecord' gen str retries m0 st0 = (st, res)"
    show "thrown st = None \<and>
      (length (RunState.attempts st0) + k < length (RunState.attempts st) \<and>
       gen runNum (length (requests st0) + k) m0 = ObjectThrows e3 \<and>
       (\<forall>issues. e3 \<noteq> ZodError issues) \<longrightarrow>
         RunState.attempts st ! (length (RunState.attempts st0) + k) =
           \<lparr> attemptNumber = k + 1,
             timestamp = attemptTimestamp w runNum (length (requests st0) + k),
             AttemptResult.success = False,
             durationMs = attemptDurationMs w runNum (length (requests st0) + k),
             AttemptResult.inputTokens = None, AttemptResult.outputTokens = None,
             AttemptResult.prompt = promptTextOf m0,
             rawResponse = [], parsedResponse = None,
             validationErrors = [\<lparr> ValidationError.path = [],
                                    ValidationError.message = errorMessageOf (zodMessage w) e3,
                                    ValidationError.code = ''api_error'' \<rparr>],
             errorMessage = None \<rparr> \<and>
         (k < retries \<longrightarrow>
            length (RunState.attempts st0) + Suc k < length (RunState.attempts st)) \<and>
         (k = retries \<longrightarrow> res = None))"
    proof (rule conjI, rule strictStep_transport_attempt(1)[OF t out], rule impI, elim conjE)
      assume "length (RunState.attempts st0) + k < length (RunState.attempts st)"
        "gen runNum (length (requests st0) + k) m0 = ObjectThrows e3"
        "\<forall>issues. e3 \<noteq> ZodError issues"
      then show "RunState.attempts st ! (length (RunState.attempts st0) + k) =
           \<lparr> attemptNumber = k + 1,
             timestamp = attemptTimestamp w runNum (length (requests st0) + k),
             AttemptResult.success = False,
             durationMs = attemptDurationMs w runNum (length (requests st0) + k),
             AttemptResult.inputTokens = None, AttemptResult.outputTokens = None,
             AttemptResult.prompt = promptTextOf m0,
             rawResponse = [], parsedResponse = None,
             validationErrors = [\<lparr> ValidationError.path = [],
                                    ValidationError.message = errorMessageOf (zodMessage w) e3,
                                    ValidationError.code = ''api_error'' \<rparr>],
             errorMessage = None \<rparr> \<and>
         (k < retries \<longrightarrow>
            length (RunState.attempts st0) + Suc k < length (RunState.attempts st)) \<and>
         (k = retries \<longrightarrow> res = None)"
        by (rule strictStep_transport_attempt(3)[OF t out])
    qed
  qed
  have c6: "(\<exists>runs. runScenario2 w ps config = Inr runs \<and> length runs = runsPerScenario config) \<and>
     (\<exists>runs. runScenario4 w ps config = Inr runs \<and> length runs = runsPerScenario config)"
    by (simp add: strict_executors_return)
  from c1 c2 c3 c4 c5 c6 show ?thesis by blast
qed

theorem transport_failure_in_strict_mode_witness:
  "generateObject_Response failingWorld 1 0 [] = ObjectThrows (Error ''timeout'') \<and>
   (\<forall>issues. Error ''timeout'' \<noteq> ZodError issues) \<and>
   runStrictAttempt (generateObject_Response failingWorld 1 0) (stringify2_Response failingWorld)
       (zodMessage failingWorld) [] =
     \<lparr> AttemptOutcome.success = False, data = None, raw = [],
       errors = Some [\<lparr> ValidationError.path = [],
                        ValidationError.message = errorMessageOf (zodMessage failingWorld) (Error ''timeout''),
                        ValidationError.code = ''api_error'' \<rparr>],
       tokens = None \<rparr> \<and>
   0 < length (RunState.attempts (runScenario2_run failingWorld shortPrompts oneRun 1)) \<and>
   generateObject_Response failingWorld 1 0
       (requests (runScenario2_run failingWorld shortPrompts oneRun 1) ! 0)
     = ObjectThrows (Error ''timeout'') \<and>
   0 < maxRetries oneRun \<and>
   validationErrors (RunState.attempts (runScenario2_run failingWorld shortPrompts oneRun 1) ! 0) =
     [\<lparr> ValidationError.path = [],
        ValidationError.message = errorMessageOf (zodMessage failingWorld) (Error ''timeout''),
        ValidationError.code = ''api_error'' \<rparr>] \<and>
   errorMessage (RunState.attempts (runScenario2_run failingWorld shortPrompts oneRun 1) ! 0) = None \<and>
   Suc 0 < length (RunState.attempts (runScenario2_run failingWorld shortPrompts oneRun 1)) \<and>
   3 < length (RunState.attempts (runScenario2_run failingWorld shortPrompts oneRun 1)) \<and>
   generateObject_Response failingWorld 1 3
       (requests (runScenario2_run failingWorld shortPrompts oneRun 1) ! 3)
     = ObjectThrows (Error ''timeout'') \<and>
   3 = maxRetries oneRun \<and>
   \<not> RunState.success (runScenario2_run failingWorld shortPrompts oneRun 1) \<and>
   (\<forall>i messages. \<exists>e. generateObject_Response failingWorld 1 i messages = ObjectThrows e \<and>
                       (\<forall>issues. e \<noteq> ZodError issues)) \<and>
   thrown (runScenario2_run failingWorld shortPrompts oneRun 1) = None \<and>
   length (RunState.attempts (runScenario2_run failingWorld shortPrompts oneRun 1))
     = maxRetries oneRun + 1 \<and>
   RunState.attempts (runScenario2_run failingWorld shortPrompts oneRun 1) \<noteq> [] \<and>
   thrown initialRunState = None \<and>
   length (RunState.attempts initialRunState) + 3
     < length (RunState.attempts (fst (scenario4_step1 failingWorld shortPrompts oneRun 1))) \<and>
   generateObject_Part1 failingWorld 1 (length (requests initialRunState) + 3)
       (step1Messages shortPrompts (step1_strict shortPrompts))
     = ObjectThrows (Error ''timeout'') \<and>
   validationErrors (RunState.attempts (fst (scenario4_step1 failingWorld shortPrompts oneRun 1))
                       ! (length (RunState.attempts initialRunState) + 3)) =
     [\<lparr> ValidationError.path = [],
        ValidationError.message = errorMessageOf (zodMessage failingWorld) (Error ''timeout''),
        ValidationError.code = ''api_error'' \<rparr>] \<and>
   snd (scenario4_step1 failingWorld shortPrompts oneRun 1) = None \<and>
   length (RunState.attempts initialRunState) + 0
     < length (RunState.attempts (fst (scenario4_step1 failingWorld shortPrompts oneRun 1))) \<and>
   length (RunState.attempts initialRunState) + Suc 0
     < length (RunState.attempts (fst (scenario4_step1 failingWorld shortPrompts oneRun 1)))"
proof -
  let ?w = failingWorld and ?ps = shortPrompts
  let ?run = "runScenario2_run ?w ?ps oneRun 1"
  let ?step = "scenario4_step1 ?w ?ps oneRun 1"
  let ?m0 = "step1Messages ?ps (step1_strict ?ps)"
  have nz: "\<forall>issues. Error ''timeout'' \<noteq> ZodError issues" by simp
  have h1: "generateObject_Response ?w 1 0 [] = ObjectThrows (Error ''timeout'')"
    by (simp add: failingWorld_def)
  have g: "\<And>i m. generateObject_Response ?w 1 i m = ObjectThrows (Error ''timeout'')"
    "\<And>i m. generateObject_Part1 ?w 1 i m = ObjectThrows (Error ''timeout'')"
    by (simp_all add: failingWorld_def)
  have h2: "\<forall>i messages. \<exists>e. generateObject_Response ?w 1 i messages = ObjectThrows e \<and>
                       (\<forall>issues. e \<noteq> ZodError issues)"
    by (simp add: failingWorld_def)
  have len: "length (RunState.attempts ?run) = 4"
    by (simp add: runScenario2_run_def oneShotLoop.simps eval_world)
  have mr: "maxRetries oneRun = 3" by (rule oneRun_sel)
  have t0: "thrown initialRunState = None" by simp
  have out: "?step = (fst ?step, snd ?step)" by simp
  have slen: "length (RunState.attempts (fst ?step)) = 4"
    by (simp add: eval_seq eval_world)
  have i0: "length (RunState.attempts initialRunState) = 0" "length (requests initialRunState) = 0"
    by simp_all
  note inst0 = transport_failure_in_strict_mode[where generateObject = "generateObject_Response ?w 1 0"
      and messages = "[]" and e = "Error ''timeout''" and w = ?w and runNum = 1
      and ps = ?ps and config = oneRun and zm = "zodMessage ?w"
      and ?stringify2.0 = "stringify2_Response ?w" and j = 0 and ?e2.0 = "Error ''timeout''"
      and ?st0.0 = initialRunState and asRecord' = Part1Object and gen = "generateObject_Part1 ?w"
      and str = "stringify2_Part1 ?w" and retries = "maxRetries oneRun" and ?m0.0 = ?m0
      and st = "fst ?step" and res = "snd ?step" and k = 0 and ?e3.0 = "Error ''timeout''"]
  note inst3 = transport_failure_in_strict_mode[where generateObject = "generateObject_Response ?w 1 0"
      and messages = "[]" and e = "Error ''timeout''" and w = ?w and runNum = 1
      and ps = ?ps and config = oneRun and zm = "zodMessage ?w"
      and ?stringify2.0 = "stringify2_Response ?w" and j = 3 and ?e2.0 = "Error ''timeout''"
      and ?st0.0 = initialRunState and asRecord' = Part1Object and gen = "generateObject_Part1 ?w"
      and str = "stringify2_Part1 ?w" and retries = "maxRetries oneRun" and ?m0.0 = ?m0
      and st = "fst ?step" and res = "snd ?step" and k = 3 and ?e3.0 = "Error ''timeout''"]
  from inst0 h1 nz have a: "runStrictAttempt (generateObject_Response ?w 1 0) (stringify2_Response ?w)
       (zodMessage ?w) [] =
     \<lparr> AttemptOutcome.success = False, data = None, raw = [],
       errors = Some [\<lparr> ValidationError.path = [],
                        ValidationError.message = errorMessageOf (zodMessage ?w) (Error ''timeout''),
                        ValidationError.code = ''api_error'' \<rparr>],
       tokens = None \<rparr>"
    by blast
  from inst0 have b: "thrown ?run = None" by blast
  from inst0 h2 have c: "length (RunState.attempts ?run) = maxRetries oneRun + 1" by blast
  from len have j0: "0 < length (RunState.attempts ?run)" and j3: "3 < length (RunState.attempts ?run)"
    and ne: "RunState.attempts ?run \<noteq> []"
    by auto
  from inst0 j0 g(1)[of 0 "requests ?run ! 0"] nz have d0:
    "RunState.attempts ?run ! 0 =
        \<lparr> attemptNumber = 0 + 1, timestamp = attemptTimestamp ?w 1 0,
          AttemptResult.success = False, durationMs = attemptDurationMs ?w 1 0,
          AttemptResult.inputTokens = None, AttemptResult.outputTokens = None,
          AttemptResult.prompt = promptTextOf (requests ?run ! 0),
          rawResponse = [], parsedResponse = None,
          validationErrors = [\<lparr> ValidationError.path = [],
                                 ValidationError.message = errorMessageOf (zodMessage ?w) (Error ''timeout''),
                                 ValidationError.code = ''api_error'' \<rparr>],
          errorMessage = None \<rparr>"
    "0 < maxRetries oneRun \<longrightarrow> Suc 0 < length (RunState.attempts ?run)"
    by blast+
  from d0(1) have d0': "validationErrors (RunState.attempts ?run ! 0) =
     [\<lparr> ValidationError.path = [],
        ValidationError.message = errorMessageOf (zodMessage ?w) (Error ''timeout''),
        ValidationError.code = ''api_error'' \<rparr>]"
    "errorMessage (RunState.attempts ?run ! 0) = None"
    by simp_all
  from d0(2) mr have d0'': "Suc 0 < length (RunState.attempts ?run)" by simp
  from inst3 j3 g(1)[of 3 "requests ?run ! 3"] nz
  have "3 = maxRetries oneRun \<longrightarrow> \<not> RunState.success ?run"
    by blast
  with mr have d3: "\<not> RunState.success ?run" by simp
  from slen have k0: "length (RunState.attempts initialRunState) + 0 < length (RunState.attempts (fst ?step))"
    and k3: "length (RunState.attempts initialRunState) + 3 < length (RunState.attempts (fst ?step))"
    by simp_all
  from inst0 t0 out k0 g(2)[of "length (requests initialRunState) + 0" ?m0] nz
  have "0 < maxRetries oneRun \<longrightarrow>
         length (RunState.attempts initialRunState) + Suc 0 < length (RunState.attempts (fst ?step))"
    by blast
  with mr have s0: "length (RunState.attempts initialRunState) + Suc 0
      < length (RunState.attempts (fst ?step))" by simp
  from inst3 t0 out k3 g(2)[of "length (requests initialRunState) + 3" ?m0] nz
  have s3: "RunState.attempts (fst ?step) ! (length (RunState.attempts initialRunState) + 3) =
           \<lparr> attemptNumber = 3 + 1,
             timestamp = attemptTimestamp ?w 1 (length (requests initialRunState) + 3),
             AttemptResult.success = False,
             durationMs = attemptDurationMs ?w 1 (length (requests initialRunState) + 3),
             AttemptResult.inputTokens = None, AttemptResult.outputTokens = None,
             AttemptResult.prompt = promptTextOf ?m0,
             rawResponse = [], parsedResponse = None,
             validationErrors = [\<lparr> ValidationError.path = [],
                                    ValidationError.message = errorMessageOf (zodMessage ?w) (Error ''timeout''),
                                    ValidationError.code = ''api_error'' \<rparr>],
             errorMessage = None \<rparr>"
    "3 = maxRetries oneRun \<longrightarrow> snd ?step = None"
    by blast+
  from s3(1) have s3': "validationErrors (RunState.attempts (fst ?step)
                       ! (length (RunState.attempts initialRunState) + 3)) =
     [\<lparr> ValidationError.path = [],
        ValidationError.message = errorMessageOf (zodMessage ?w) (Error ''timeout''),
        ValidationError.code = ''api_error'' \<rparr>]"
    by simp
  from s3(2) mr have s3'': "snd ?step = None" by simp
  from mr have mr': "0 < maxRetries oneRun" "3 = maxRetries oneRun" by simp_all
  from h1 nz a j0 g(1)[of 0 "requests ?run ! 0"] mr'(1) d0' d0'' j3 g(1)[of 3 "requests ?run ! 3"]
    mr'(2) d3 h2 b c ne t0 k3 g(2)[of "length (requests initialRunState) + 3" ?m0] s3' s3'' k0 s0
  show ?thesis by blast
qed

text \<open>
  The claim as stated fails in both modes. In scenario 2 a transport error yields attempt
  records whose \<open>errorMessage\<close> is null and whose \<open>validationErrors\<close> is not empty; in
  scenario 1 the error thrown by \<open>generateText\<close> leaves the run and the executor.
\<close>

theorem transport_failure_counterexample:
  "generateObject_Response failingWorld 1 0 (scenario2Messages shortPrompts 1 [])
     = ObjectThrows (Error ''timeout'') \<and>
   map errorMessage (RunState.attempts (runScenario2_run failingWorld shortPrompts oneRun 1))
     = [None, None, None, None] \<and>
   validationErrors (RunState.attempts (runScenario2_run failingWorld shortPrompts oneRun 1) ! 0)
     = [\<lparr> ValidationError.path = [], ValidationError.message = ''timeout'',
          ValidationError.code = ''api_error'' \<rparr>] \<and>
   generateText throwingWorld 1 0 (scenario1Messages shortPrompts 1 [])
     = TextThrows (Error ''timeout'') \<and>
   runScenario 1 throwingWorld shortPrompts oneRun = Inl (Error ''timeout'')"
proof -
  have a: "generateObject_Response failingWorld 1 0 (scenario2Messages shortPrompts 1 [])
     = ObjectThrows (Error ''timeout'')"
    "generateText throwingWorld 1 0 (scenario1Messages shortPrompts 1 [])
     = TextThrows (Error ''timeout'')"
    by (simp_all add: failingWorld_def throwingWorld_def)
  have b: "map errorMessage (RunState.attempts (runScenario2_run failingWorld shortPrompts oneRun 1))
     = [None, None, None, None]"
    "validationErrors (RunState.attempts (runScenario2_run failingWorld shortPrompts oneRun 1) ! 0)
     = [\<lparr> ValidationError.path = [], ValidationError.message = ''timeout'',
          ValidationError.code = ''api_error'' \<rparr>]"
    by (simp_all add: runScenario2_run_def oneShotLoop.simps eval_world)
  have t: "thrown (runScenario1_run throwingWorld shortPrompts oneRun 1) = Some (Error ''timeout'')"
    by (simp add: runScenario1_run_def oneShotLoop.simps eval_world throwingWorld_def)
  have c: "runScenario 1 throwingWorld shortPrompts oneRun = Inl (Error ''timeout'')"
    using t by (simp add: runScenario_def runScenario1_def runsLoop.simps oneRun_sel Let_def)
  from a b c show ?thesis by blast
qed

section \<open>The order of the rates\<close>

text \<open>
  The first-attempt rate and the three tier rates are ordered for every run list. For the
  runs of the one-stage scenarios the last tier is bounded by the success rate, and equals it
  when the budget is at most three retries: only the last attempt of such a run can succeed,
  and it is the run's outcome.
\<close>

lemma length_filter_sum_list:
  "length (filter P xs) = (\<Sum>x\<leftarrow>xs. if P x then 1 else 0)"
  by (induction xs) simp_all

lemma rate_mono:
  fixes a b n :: nat
  assumes "a \<le> b"
  shows "(of_nat a / of_nat n * 100 :: rat) \<le> of_nat b / of_nat n * 100"
  using assms by (simp add: divide_right_mono)

lemma tiers_ordered:
  "0 \<le> firstAttemptSuccessRate (calculateScenarioSummary runs) \<and>
   firstAttemptSuccessRate (calculateScenarioSummary runs)
     \<le> afterRetry1SuccessRate (calculateScenarioSummary runs) \<and>
   afterRetry1SuccessRate (calculateScenarioSummary runs)
     \<le> afterRetry2SuccessRate (calculateScenarioSummary runs) \<and>
   afterRetry2SuccessRate (calculateScenarioSummary runs)
     \<le> afterRetry3SuccessRate (calculateScenarioSummary runs)"
proof (cases "runs = []")
  case True
  then show ?thesis by (simp add: calculateScenarioSummary_def)
next
  case False
  have inc: "spec_tierIncrement 1 r \<le> spec_tierIncrement 2 r"
    "spec_tierIncrement 2 r \<le> spec_tierIncrement 3 r" for r :: "'a RunResult"
    by (simp_all add: spec_tierIncrement_def)
  have m: "spec_firstAttemptSuccesses runs \<le> spec_afterTier 1 runs"
    "spec_afterTier 1 runs \<le> spec_afterTier 2 runs"
    "spec_afterTier 2 runs \<le> spec_afterTier 3 runs"
    using inc by (simp_all add: spec_afterTier_def sum_list_mono)
  from rate_mono[OF m(1), of "length runs"] rate_mono[OF m(2), of "length runs"]
    rate_mono[OF m(3), of "length runs"]
  show ?thesis
    by (simp add: summary_rates_nonempty[OF False] spec_rate_def)
qed

lemma one_stage_run_shape:
  assumes "runScenario scenario w ps config = Inr runs" "r \<in> set runs"
    and "scenario = 1 \<or> scenario = 2"
  shows "RunResult.attempts r \<noteq> []"
    and "length (RunResult.attempts r) \<le> maxRetries config + 1"
    and "\<forall>a \<in> set (butlast (RunResult.attempts r)). \<not> AttemptResult.success a"
    and "RunResult.success r \<longleftrightarrow> AttemptResult.success (last (RunResult.attempts r))"
proof -
  have "\<exists>n bm ra st. r = toRunResult w n st \<and> thrown st = None \<and>
          oneShotPost w n bm ra (maxRetries config) st"
    using assms(3)
  proof
    assume "scenario = 1"
    with assms have "runsLoop w (runScenario1_run w ps config) (runsPerScenario config) 1 [] = Inr runs"
      by (simp add: runScenario_def runScenario1_def)
    from runsLoop_member[OF this assms(2)] runScenario1_run_post show ?thesis by blast
  next
    assume "scenario = 2"
    with assms have "runsLoop w (runScenario2_run w ps config) (runsPerScenario config) 1 [] = Inr runs"
      by (simp add: runScenario_def runScenario2_def)
    from runsLoop_member[OF this assms(2)] runScenario2_run_post show ?thesis by blast
  qed
  then obtain n bm ra st where r: "r = toRunResult w n st" and t: "thrown st = None"
    and post: "oneShotPost w n bm ra (maxRetries config) st" by blast
  from post t r show "RunResult.attempts r \<noteq> []"
    "length (RunResult.attempts r) \<le> maxRetries config + 1"
    "\<forall>a \<in> set (butlast (RunResult.attempts r)). \<not> AttemptResult.success a"
    "RunResult.success r \<longleftrightarrow> AttemptResult.success (last (RunResult.attempts r))"
    by (simp_all add: oneShotPost_def)
qed

lemma only_last_succeeds:
  assumes "\<forall>a \<in> set (butlast as). \<not> AttemptResult.success a" "attemptSucceeded as i"
  shows "i = length as - 1 \<and> AttemptResult.success (last as)"
proof -
  from assms(2) have i: "i < length as" "AttemptResult.success (as ! i)"
    by (simp_all add: attemptSucceeded_def)
  have "\<not> i < length as - 1"
  proof
    assume "i < length as - 1"
    then have "as ! i \<in> set (butlast as)"
      by (metis length_butlast nth_butlast nth_mem)
    with assms(1) i(2) show False by blast
  qed
  with i have e: "i = length as - 1" by simp
  from i(1) have "as \<noteq> []" by auto
  with i e show ?thesis
    by (simp add: last_conv_nth)
qed

lemma one_stage_rates_ordered:
  assumes run: "runScenario scenario w ps config = Inr runs" and one: "scenario = 1 \<or> scenario = 2"
  shows "0 \<le> firstAttemptSuccessRate (calculateScenarioSummary runs) \<and>
         firstAttemptSuccessRate (calculateScenarioSummary runs)
           \<le> afterRetry1SuccessRate (calculateScenarioSummary runs) \<and>
         afterRetry1SuccessRate (calculateScenarioSummary runs)
           \<le> afterRetry2SuccessRate (calculateScenarioSummary runs) \<and>
         afterRetry2SuccessRate (calculateScenarioSummary runs)
           \<le> afterRetry3SuccessRate (calculateScenarioSummary runs) \<and>
         afterRetry3SuccessRate (calculateScenarioSummary runs)
           \<le> successRate (calculateScenarioSummary runs) \<and>
         (maxRetries config \<le> 3 \<longrightarrow>
            successRate (calculateScenarioSummary runs)
              = afterRetry3SuccessRate (calculateScenarioSummary runs))"
proof (cases "runs = []")
  case True
  then show ?thesis by (simp add: calculateScenarioSummary_def)
next
  case False
  let ?first = "\<lambda>r. if attemptSucceeded (RunResult.attempts r) 0 then 1 else (0::nat)"
  let ?final = "\<lambda>r. if RunResult.success r then 1 else (0::nat)"
  have le: "?first r + spec_tierIncrement 3 r \<le> ?final r" if "r \<in> set runs" for r
  proof -
    note sh = one_stage_run_shape[OF run that one]
    from only_last_succeeds[OF sh(3)] sh(4)
    have "attemptSucceeded (RunResult.attempts r) i \<Longrightarrow> RunResult.success r" for i
      by blast
    then show ?thesis
      by (auto simp: spec_tierIncrement_def)
  qed
  have eq: "?first r + spec_tierIncrement 3 r = ?final r"
    if "r \<in> set runs" "maxRetries config \<le> 3" for r
  proof (cases "RunResult.success r")
    case False
    with le[OF that(1)] show ?thesis by simp
  next
    case True
    note sh = one_stage_run_shape[OF run that(1) one]
    from sh(1,2) that(2) have "length (RunResult.attempts r) - 1 < length (RunResult.attempts r)"
      "length (RunResult.attempts r) - 1 \<le> 3" by (cases "RunResult.attempts r"; simp)+
    moreover from True sh(1,4)
    have "attemptSucceeded (RunResult.attempts r) (length (RunResult.attempts r) - 1)"
      by (simp add: attemptSucceeded_def last_conv_nth)
    ultimately have "attemptSucceeded (RunResult.attempts r) 0 \<or>
        attemptSucceeded (RunResult.attempts r) 1 \<or> attemptSucceeded (RunResult.attempts r) 2 \<or>
        attemptSucceeded (RunResult.attempts r) 3"
      by (metis One_nat_def Suc_1 le_Suc_eq le_zero_eq numeral_3_eq_3)
    with True show ?thesis
      by (auto simp: spec_tierIncrement_def)
  qed
  have t3: "spec_afterTier 3 runs = (\<Sum>r\<leftarrow>runs. ?first r + spec_tierIncrement 3 r)"
    by (simp add: spec_afterTier_def spec_firstAttemptSuccesses_def length_filter_sum_list
        sum_list_addf)
  have fin: "length (filter RunResult.success runs) = (\<Sum>r\<leftarrow>runs. ?final r)"
    by (rule length_filter_sum_list)
  from le have c: "spec_afterTier 3 runs \<le> length (filter RunResult.success runs)"
    unfolding t3 fin by (intro sum_list_mono) simp
  have d: "maxRetries config \<le> 3 \<Longrightarrow> spec_afterTier 3 runs = length (filter RunResult.success runs)"
    unfolding t3 fin using eq by (intro arg_cong[where f = sum_list] map_cong) simp_all
  from rate_mono[OF c, of "length runs"]
  have c': "afterRetry3SuccessRate (calculateScenarioSummary runs)
           \<le> successRate (calculateScenarioSummary runs)"
    by (simp add: summary_rates_nonempty[OF False] spec_rate_def)
  from d have d': "maxRetries config \<le> 3 \<Longrightarrow>
      successRate (calculateScenarioSummary runs)
        = afterRetry3SuccessRate (calculateScenarioSummary runs)"
    by (simp add: summary_rates_nonempty[OF False] spec_rate_def)
  from c' d' tiers_ordered[of runs] show ?thesis
    by blast
qed

section \<open>The summary of three-stage runs\<close>

lemma stage2FailsRun:
  "map AttemptResult.success
     (RunState.attempts (runScenario4_run stage2FailsWorld shortPrompts oneRun 1))
     = [True, False, False, False, False]"
  "\<not> RunState.success (runScenario4_run stage2FailsWorld shortPrompts oneRun 1)"
  by (simp_all add: eval_seq eval_world eval_parts)

text \<open>
  Claim C1, evaluated at an input where it fails. Scenario 4, one run, the default budget
  of three retries: step 1 succeeds at its first attempt and step 2 fails four times. The run
  is a failure, and the summary reports a first-attempt rate and a rate after three retries
  of 100 with a success rate of 0.
\<close>

theorem three_stage_rates_out_of_order:
  "runScenario 4 stage2FailsWorld shortPrompts oneRun
     = Inr [toRunResult stage2FailsWorld 1 (runScenario4_run stage2FailsWorld shortPrompts oneRun 1)] \<and>
   map AttemptResult.success
     (RunResult.attempts
        (toRunResult stage2FailsWorld 1 (runScenario4_run stage2FailsWorld shortPrompts oneRun 1)))
     = [True, False, False, False, False] \<and>
   \<not> RunResult.success
        (toRunResult stage2FailsWorld 1 (runScenario4_run stage2FailsWorld shortPrompts oneRun 1)) \<and>
   firstAttemptSuccessRate (calculateScenarioSummary
     [toRunResult stage2FailsWorld 1 (runScenario4_run stage2FailsWorld shortPrompts oneRun 1)]) = 100 \<and>
   afterRetry3SuccessRate (calculateScenarioSummary
     [toRunResult stage2FailsWorld 1 (runScenario4_run stage2FailsWorld shortPrompts oneRun 1)]) = 100 \<and>
   successRate (calculateScenarioSummary
     [toRunResult stage2FailsWorld 1 (runScenario4_run stage2FailsWorld shortPrompts oneRun 1)]) = 0"
proof -
  let ?r = "toRunResult stage2FailsWorld 1 (runScenario4_run stage2FailsWorld shortPrompts oneRun 1)"
  have t: "thrown (runScenario4_run stage2FailsWorld shortPrompts oneRun 1) = None"
    by (simp add: runScenario4_run_def catchAll_def)
  have h: "runScenario 4 stage2FailsWorld shortPrompts oneRun = Inr [?r]"
    using t by (simp add: runScenario_def runScenario4_def runsLoop.simps oneRun_sel Let_def)
  have f: "map AttemptResult.success (RunResult.attempts ?r) = [True, False, False, False, False]"
    and s: "\<not> RunResult.success ?r"
    using stage2FailsRun by simp_all
  note a = attemptSucceeded_flags[OF stage2FailsRun(1)]
  have "firstAttemptSuccessRate (calculateScenarioSummary [?r]) = 100"
    "afterRetry3SuccessRate (calculateScenarioSummary [?r]) = 100"
    "successRate (calculateScenarioSummary [?r]) = 0"
    using a stage2FailsRun(2)
    by (simp_all add: calculateScenarioSummary_def Let_def tierStep_def)
  with h f s show ?thesis by blast
qed

end
